theory Spec2Isabelle
  imports Main
begin

section \<open>The data model (models.py)\<close>

text \<open>
  A user is identified by the primary key of its row in the user table, a date by its
  proleptic Gregorian ordinal (the number of \<^verbatim>\<open>date.toordinal()\<close>) and a point in time
  by a number of ticks. A row that has not been saved yet has no primary key, as in Django
  (\<^verbatim>\<open>obj.pk is None\<close>), and a nullable column is an option.
\<close>

type_synonym user = int
type_synonym date = int
type_synonym datetime = int

text \<open>The exceptions that the modelled code can raise.\<close>

datatype error =
    Http404
  | DoesNotExist
  | MultipleObjectsReturned
  | IntegrityError
  | ProtectedError
  | ValueError
  | OverflowError

text \<open>
  The two abstract base classes, as a chain of record extensions:
  \<^verbatim>\<open>TimeStampedModel\<close> (created_at, updated_at) and \<^verbatim>\<open>OwnedModel\<close> (created_by,
  a nullable foreign key to the user).
\<close>

record model_row =
  pk :: "int option"

record time_stamped_model = model_row +
  created_at :: datetime
  updated_at :: datetime

record owned_model = time_stamped_model +
  created_by :: "user option"

record recipe = owned_model +
  recipe_title :: string
  recipe_description :: string
  author :: string
  ingredients :: string
  instructions :: string
  yield_text :: string
  prep_minutes :: "int option"
  cook_minutes :: "int option"
  is_favorite :: bool
  recipe_is_active :: bool

text \<open>A foreign key column holds the primary key of the row it refers to.\<close>

record dish = owned_model +
  dish_name :: string
  dish_description :: string
  default_recipe_id :: "int option"
  dish_is_active :: bool

text \<open>
  \<^verbatim>\<open>meal_type\<close>, \<^verbatim>\<open>method\<close> and \<^verbatim>\<open>outcome\<close> are character columns; their choices are
  checked by the forms only. \<^verbatim>\<open>servings_made\<close> is a decimal with two places, kept in
  hundredths.
\<close>

record cook_session = owned_model +
  dish_id :: int
  recipe_used_id :: "int option"
  cooked_on :: date
  meal_type :: string
  cook_method :: string
  servings_made :: "int option"
  duration_minutes :: "int option"
  summary :: string
  session_is_active :: bool

record cook_result = owned_model +
  cook_session_id :: int
  outcome :: string
  overall_rating :: "int option"
  taste_rating :: "int option"
  texture_rating :: "int option"
  appearance_rating :: "int option"
  would_make_again :: bool
  what_worked :: string
  what_to_change :: string
  next_time_plan :: string

text \<open>
  The four attachable models each declare the same pair \<^verbatim>\<open>content_type\<close>,
  \<^verbatim>\<open>object_id\<close>; the pair is factored into one record that the four extend. A content
  type is the pair (app label, model name) of its row.
\<close>

type_synonym django_content_type = "string \<times> string"

record attachment = owned_model +
  content_type :: django_content_type
  object_id :: string

record note_model = attachment +
  note_title :: string
  body :: string
  is_pinned :: bool

text \<open>
  A file column: the name of the file and whether the file has been handed to the storage
  already. An empty name is no file (\<^verbatim>\<open>bool(FieldFile)\<close> is \<^verbatim>\<open>bool(self.name)\<close>).
\<close>

record field_file =
  file_name :: string
  committed :: bool

record tracked_image = attachment +
  image_uuid :: string
  image :: field_file
  caption :: string
  alt_text :: string
  taken_at :: "datetime option"
  image_sort_order :: int
  is_cover :: bool

record reference_url = attachment +
  url_kind :: string
  url_title :: string
  url :: string
  url_description :: string
  url_sort_order :: int
  is_primary :: bool

record pdf_document = attachment +
  pdf_uuid :: string
  pdf_kind :: string
  pdf_title :: string
  pdf_description :: string
  pdf :: field_file
  original_filename :: string
  page_count :: "int option"
  pdf_sort_order :: int

text \<open>
  A table is the list of its rows, in insertion order, and the last value of its primary
  key sequence. The database is the eight tables of the application.
\<close>

record 'a table =
  rows :: "'a list"
  seq :: int

record db =
  Recipe_objects :: "recipe table"
  Dish_objects :: "dish table"
  CookSession_objects :: "cook_session table"
  CookResult_objects :: "cook_result table"
  Note_objects :: "note_model table"
  TrackedImage_objects :: "tracked_image table"
  ReferenceURL_objects :: "reference_url table"
  PDFDocument_objects :: "pdf_document table"

section \<open>Queries\<close>

text \<open>
  \<^verbatim>\<open>owned_q(user)\<close> (views.py) and \<^verbatim>\<open>_owned_q(user)\<close> (forms.py) are the same
  filter: \<^verbatim>\<open>Q(created_by=user) | Q(created_by__isnull=True)\<close>.
\<close>

definition owned_q :: "user \<Rightarrow> 'a owned_model_scheme \<Rightarrow> bool" where
  "owned_q u r = (created_by r = Some u \<or> created_by r = None)"

text \<open>
  \<^verbatim>\<open>QuerySet.get\<close>: the one row that matches, \<^verbatim>\<open>DoesNotExist\<close> when there is none,
  \<^verbatim>\<open>MultipleObjectsReturned\<close> when there are several.
\<close>

definition qs_get :: "('a \<Rightarrow> bool) \<Rightarrow> 'a list \<Rightarrow> error + 'a" where
  "qs_get P qs =
     (case filter P qs of
        [] \<Rightarrow> Inl DoesNotExist
      | [x] \<Rightarrow> Inr x
      | _ \<Rightarrow> Inl MultipleObjectsReturned)"

text \<open>\<^verbatim>\<open>get_object_or_404(qs, pk=k)\<close> turns \<^verbatim>\<open>DoesNotExist\<close> into \<^verbatim>\<open>Http404\<close>.\<close>

definition get_object_or_404 :: "'a model_row_scheme list \<Rightarrow> int \<Rightarrow> error + 'a model_row_scheme" where
  "get_object_or_404 qs k =
     (case qs_get (\<lambda>r. pk r = Some k) qs of
        Inl DoesNotExist \<Rightarrow> Inl Http404
      | Inl e \<Rightarrow> Inl e
      | Inr x \<Rightarrow> Inr x)"

section \<open>Saving rows\<close>

text \<open>
  \<^verbatim>\<open>Model.save\<close> for the timestamped models: \<^verbatim>\<open>auto_now\<close> sets updated_at; a row
  without a primary key is inserted under the next value of the sequence; a row with a
  primary key replaces the row of that key, or is inserted under its key when the table has
  no such row, and the sequence then moves up to that key when it was below it.
\<close>

definition model_save ::
  "datetime \<Rightarrow> 'a time_stamped_model_scheme \<Rightarrow> 'a time_stamped_model_scheme table
     \<Rightarrow> 'a time_stamped_model_scheme \<times> 'a time_stamped_model_scheme table" where
  "model_save now obj t =
     (let obj1 = obj\<lparr>updated_at := now\<rparr> in
      case pk obj1 of
        None \<Rightarrow>
          (let k = seq t + 1; obj2 = obj1\<lparr>pk := Some k\<rparr>
           in (obj2, t\<lparr>rows := rows t @ [obj2], seq := k\<rparr>))
      | Some k \<Rightarrow>
          if list_ex (\<lambda>r. pk r = Some k) (rows t)
          then (obj1, t\<lparr>rows := map (\<lambda>r. if pk r = Some k then obj1 else r) (rows t)\<rparr>)
          else (obj1, t\<lparr>rows := rows t @ [obj1], seq := max (seq t) k\<rparr>))"

text \<open>
  A foreign key column that is written must hold the primary key of a row of the table it
  points at, or be null when the column allows it; the database raises
  \<^verbatim>\<open>IntegrityError\<close> otherwise. The columns checked are those that point at a table
  of this application: \<^verbatim>\<open>Dish.default_recipe\<close>, \<^verbatim>\<open>CookSession.dish\<close>,
  \<^verbatim>\<open>CookSession.recipe_used\<close> and \<^verbatim>\<open>CookResult.cook_session\<close>. The user table
  and the content types are not tables of the model, and \<^verbatim>\<open>created_by\<close> and
  \<^verbatim>\<open>content_type\<close> are taken to point at rows that exist.
\<close>

definition fk_exists :: "int \<Rightarrow> 'a model_row_scheme list \<Rightarrow> bool" where
  "fk_exists k objects = list_ex (\<lambda>r. pk r = Some k) objects"

definition fk_null_or_exists :: "int option \<Rightarrow> 'a model_row_scheme list \<Rightarrow> bool" where
  "fk_null_or_exists fk objects = (case fk of None \<Rightarrow> True | Some k \<Rightarrow> fk_exists k objects)"

text \<open>
  \<^verbatim>\<open>Dish.Meta.constraints\<close>: \<^verbatim>\<open>UniqueConstraint(fields=["created_by", "name"])\<close>, with
  no \<^verbatim>\<open>nulls_distinct\<close> and no condition. The constraint is a unique index of the
  database, where a NULL is distinct from every value, another NULL included (the rule of
  SQL, and of SQLite, PostgreSQL and MySQL; Django's own validation of such a constraint
  skips a tuple that holds a NULL): a row whose created_by is NULL collides with no row. The
  form does not check the constraint (created_by is not a field of \<^verbatim>\<open>DishForm\<close>), so
  a collision surfaces when the row is written.
\<close>

definition uniq_dish_per_owner_name :: "dish \<Rightarrow> dish list \<Rightarrow> bool" where
  "uniq_dish_per_owner_name d ds =
     (\<not> list_ex (\<lambda>r. pk r \<noteq> pk d \<and> created_by r \<noteq> None \<and> created_by r = created_by d
                      \<and> dish_name r = dish_name d) ds)"

definition Recipe_save :: "datetime \<Rightarrow> recipe \<Rightarrow> db \<Rightarrow> (error + recipe) \<times> db" where
  "Recipe_save now obj d =
     (let (obj1, t) = model_save now obj (Recipe_objects d)
      in (Inr obj1, d\<lparr>Recipe_objects := t\<rparr>))"

definition Dish_save :: "datetime \<Rightarrow> dish \<Rightarrow> db \<Rightarrow> (error + dish) \<times> db" where
  "Dish_save now obj d =
     (if uniq_dish_per_owner_name obj (rows (Dish_objects d))
         \<and> fk_null_or_exists (default_recipe_id obj) (rows (Recipe_objects d))
      then (let (obj1, t) = model_save now obj (Dish_objects d)
            in (Inr obj1, d\<lparr>Dish_objects := t\<rparr>))
      else (Inl IntegrityError, d))"

definition CookSession_save :: "datetime \<Rightarrow> cook_session \<Rightarrow> db \<Rightarrow> (error + cook_session) \<times> db" where
  "CookSession_save now obj d =
     (if fk_exists (dish_id obj) (rows (Dish_objects d))
         \<and> fk_null_or_exists (recipe_used_id obj) (rows (Recipe_objects d))
      then (let (obj1, t) = model_save now obj (CookSession_objects d)
            in (Inr obj1, d\<lparr>CookSession_objects := t\<rparr>))
      else (Inl IntegrityError, d))"

text \<open>\<^verbatim>\<open>CookResult.cook_session\<close> is a \<^verbatim>\<open>OneToOneField\<close>: a unique column.\<close>

definition CookResult_save :: "datetime \<Rightarrow> cook_result \<Rightarrow> db \<Rightarrow> (error + cook_result) \<times> db" where
  "CookResult_save now obj d =
     (if list_ex (\<lambda>r. pk r \<noteq> pk obj \<and> cook_session_id r = cook_session_id obj)
           (rows (CookResult_objects d))
         \<or> \<not> fk_exists (cook_session_id obj) (rows (CookSession_objects d))
      then (Inl IntegrityError, d)
      else (let (obj1, t) = model_save now obj (CookResult_objects d)
            in (Inr obj1, d\<lparr>CookResult_objects := t\<rparr>)))"

definition Note_save :: "datetime \<Rightarrow> note_model \<Rightarrow> db \<Rightarrow> (error + note_model) \<times> db" where
  "Note_save now obj d =
     (let (obj1, t) = model_save now obj (Note_objects d)
      in (Inr obj1, d\<lparr>Note_objects := t\<rparr>))"

definition ReferenceURL_save :: "datetime \<Rightarrow> reference_url \<Rightarrow> db \<Rightarrow> (error + reference_url) \<times> db" where
  "ReferenceURL_save now obj d =
     (let (obj1, t) = model_save now obj (ReferenceURL_objects d)
      in (Inr obj1, d\<lparr>ReferenceURL_objects := t\<rparr>))"

text \<open>
  A file column is written by \<^verbatim>\<open>FileField.pre_save\<close> during \<^verbatim>\<open>Model.save\<close>: a file
  that is not committed yet is handed to the storage under the name that \<^verbatim>\<open>upload_to\<close>
  builds, and the column takes the name the storage answers. The storage is an external
  collaborator: its answer is the parameter \<open>storage\<close>.
\<close>

definition file_pre_save :: "(string \<Rightarrow> string) \<Rightarrow> (string \<Rightarrow> string) \<Rightarrow> field_file \<Rightarrow> field_file" where
  "file_pre_save storage upload_to f =
     (if file_name f \<noteq> [] \<and> \<not> committed f
      then \<lparr>file_name = storage (upload_to (file_name f)), committed = True\<rparr>
      else f)"

definition cooking_companion_image_upload_to :: "tracked_image \<Rightarrow> string \<Rightarrow> string" where
  "cooking_companion_image_upload_to instance filename =
     ''cooking-companion/images/'' @ image_uuid instance @ ''/'' @ filename"

definition cooking_companion_pdf_upload_to :: "pdf_document \<Rightarrow> string \<Rightarrow> string" where
  "cooking_companion_pdf_upload_to instance filename =
     ''cooking-companion/pdfs/'' @ pdf_uuid instance @ ''/'' @ filename"

text \<open>\<^verbatim>\<open>TrackedImage.uuid\<close> and \<^verbatim>\<open>PDFDocument.uuid\<close> are unique columns.\<close>

definition TrackedImage_save ::
  "(string \<Rightarrow> string) \<Rightarrow> datetime \<Rightarrow> tracked_image \<Rightarrow> db \<Rightarrow> (error + tracked_image) \<times> db" where
  "TrackedImage_save storage now obj d =
     (if list_ex (\<lambda>r. pk r \<noteq> pk obj \<and> image_uuid r = image_uuid obj) (rows (TrackedImage_objects d))
      then (Inl IntegrityError, d)
      else (let obj1 = obj\<lparr>image := file_pre_save storage (cooking_companion_image_upload_to obj) (image obj)\<rparr>;
                (obj2, t) = model_save now obj1 (TrackedImage_objects d)
            in (Inr obj2, d\<lparr>TrackedImage_objects := t\<rparr>)))"

text \<open>The save that \<^verbatim>\<open>PDFDocument\<close> inherits, which its own \<^verbatim>\<open>save\<close> calls last.\<close>

definition PDFDocument_super_save ::
  "(string \<Rightarrow> string) \<Rightarrow> datetime \<Rightarrow> pdf_document \<Rightarrow> db \<Rightarrow> (error + pdf_document) \<times> db" where
  "PDFDocument_super_save storage now obj d =
     (if list_ex (\<lambda>r. pk r \<noteq> pk obj \<and> pdf_uuid r = pdf_uuid obj) (rows (PDFDocument_objects d))
      then (Inl IntegrityError, d)
      else (let obj1 = obj\<lparr>pdf := file_pre_save storage (cooking_companion_pdf_upload_to obj) (pdf obj)\<rparr>;
                (obj2, t) = model_save now obj1 (PDFDocument_objects d)
            in (Inr obj2, d\<lparr>PDFDocument_objects := t\<rparr>)))"

text \<open>
  \<^verbatim>\<open>str.split(sep)\<close> for a separator of one character: the pieces between the
  separators, at least one piece.
\<close>

fun py_split :: "char \<Rightarrow> string \<Rightarrow> string list" where
  "py_split c [] = [[]]"
| "py_split c (x # xs) =
     (if x = c then [] # py_split c xs
      else (case py_split c xs of [] \<Rightarrow> [[x]] | s # ss \<Rightarrow> (x # s) # ss))"

text \<open>
  \<^verbatim>\<open>PDFDocument.save\<close>:
  \<^verbatim>\<open>if self.pdf and not self.original_filename:
      self.original_filename = self.pdf.name.split("/")[-1]
  super().save(*args, **kwargs)\<close>
\<close>

definition PDFDocument_set_original_filename :: "pdf_document \<Rightarrow> pdf_document" where
  "PDFDocument_set_original_filename self =
     (if file_name (pdf self) \<noteq> [] \<and> original_filename self = []
      then self\<lparr>original_filename := last (py_split (CHR ''/'') (file_name (pdf self)))\<rparr>
      else self)"

definition PDFDocument_save ::
  "(string \<Rightarrow> string) \<Rightarrow> datetime \<Rightarrow> pdf_document \<Rightarrow> db \<Rightarrow> (error + pdf_document) \<times> db" where
  "PDFDocument_save storage now self d =
     PDFDocument_super_save storage now (PDFDocument_set_original_filename self) d"

section \<open>Deleting rows\<close>

text \<open>
  \<^verbatim>\<open>Model.delete\<close> follows the \<^verbatim>\<open>on_delete\<close> of the foreign keys that point at the
  row. A recipe is pointed at by \<^verbatim>\<open>Dish.default_recipe\<close> and
  \<^verbatim>\<open>CookSession.recipe_used\<close>, both \<^verbatim>\<open>SET_NULL\<close>; a dish by \<^verbatim>\<open>CookSession.dish\<close>,
  which is \<^verbatim>\<open>PROTECT\<close>; a cook session by \<^verbatim>\<open>CookResult.cook_session\<close>, which is
  \<^verbatim>\<open>CASCADE\<close>. No model declares a \<^verbatim>\<open>GenericRelation\<close>, so attachments are not
  touched. Deleting an instance without a primary key raises \<^verbatim>\<open>ValueError\<close>.
\<close>

definition Recipe_delete :: "recipe \<Rightarrow> db \<Rightarrow> (error + unit) \<times> db" where
  "Recipe_delete self d =
     (case pk self of
        None \<Rightarrow> (Inl ValueError, d)
      | Some k \<Rightarrow>
          (Inr (),
           d\<lparr>Dish_objects := (Dish_objects d)
                \<lparr>rows := map (\<lambda>x. if default_recipe_id x = Some k then x\<lparr>default_recipe_id := None\<rparr> else x)
                           (rows (Dish_objects d))\<rparr>,
             CookSession_objects := (CookSession_objects d)
                \<lparr>rows := map (\<lambda>x. if recipe_used_id x = Some k then x\<lparr>recipe_used_id := None\<rparr> else x)
                           (rows (CookSession_objects d))\<rparr>,
             Recipe_objects := (Recipe_objects d)
                \<lparr>rows := filter (\<lambda>x. pk x \<noteq> Some k) (rows (Recipe_objects d))\<rparr>\<rparr>))"

definition Dish_delete :: "dish \<Rightarrow> db \<Rightarrow> (error + unit) \<times> db" where
  "Dish_delete self d =
     (case pk self of
        None \<Rightarrow> (Inl ValueError, d)
      | Some k \<Rightarrow>
          if list_ex (\<lambda>s. dish_id s = k) (rows (CookSession_objects d))
          then (Inl ProtectedError, d)
          else (Inr (),
                d\<lparr>Dish_objects := (Dish_objects d)
                     \<lparr>rows := filter (\<lambda>x. pk x \<noteq> Some k) (rows (Dish_objects d))\<rparr>\<rparr>))"

definition CookSession_delete :: "cook_session \<Rightarrow> db \<Rightarrow> (error + unit) \<times> db" where
  "CookSession_delete self d =
     (case pk self of
        None \<Rightarrow> (Inl ValueError, d)
      | Some k \<Rightarrow>
          (Inr (),
           d\<lparr>CookResult_objects := (CookResult_objects d)
                \<lparr>rows := filter (\<lambda>x. cook_session_id x \<noteq> k) (rows (CookResult_objects d))\<rparr>,
             CookSession_objects := (CookSession_objects d)
                \<lparr>rows := filter (\<lambda>x. pk x \<noteq> Some k) (rows (CookSession_objects d))\<rparr>\<rparr>))"

section \<open>Targets of attachments (views.py)\<close>

datatype model_class = Recipe | Dish | CookSession | CookResult

datatype target =
    RecipeObj recipe
  | DishObj dish
  | CookSessionObj cook_session
  | CookResultObj cook_result

definition ALLOWED_TARGET_MODELS :: "string \<rightharpoonup> model_class" where
  "ALLOWED_TARGET_MODELS =
     [''recipe'' \<mapsto> Recipe, ''dish'' \<mapsto> Dish, ''cooksession'' \<mapsto> CookSession,
      ''cookresult'' \<mapsto> CookResult]"

fun target_class :: "target \<Rightarrow> model_class" where
  "target_class (RecipeObj _) = Recipe"
| "target_class (DishObj _) = Dish"
| "target_class (CookSessionObj _) = CookSession"
| "target_class (CookResultObj _) = CookResult"

fun target_pk :: "target \<Rightarrow> int option" where
  "target_pk (RecipeObj r) = pk r"
| "target_pk (DishObj r) = pk r"
| "target_pk (CookSessionObj r) = pk r"
| "target_pk (CookResultObj r) = pk r"

fun target_created_by :: "target \<Rightarrow> user option" where
  "target_created_by (RecipeObj r) = created_by r"
| "target_created_by (DishObj r) = created_by r"
| "target_created_by (CookSessionObj r) = created_by r"
| "target_created_by (CookResultObj r) = created_by r"

text \<open>The rows of \<^verbatim>\<open>model.objects\<close> as targets, for a model of the allow-list.\<close>

fun model_objects :: "model_class \<Rightarrow> db \<Rightarrow> target list" where
  "model_objects Recipe d = map RecipeObj (rows (Recipe_objects d))"
| "model_objects Dish d = map DishObj (rows (Dish_objects d))"
| "model_objects CookSession d = map CookSessionObj (rows (CookSession_objects d))"
| "model_objects CookResult d = map CookResultObj (rows (CookResult_objects d))"

text \<open>
  \<^verbatim>\<open>def _get_target_or_404(user, model_key, pk):
      model = ALLOWED_TARGET_MODELS.get(model_key)
      if not model:
          raise Http404("Unknown target model")
      return get_object_or_404(model.objects.filter(owned_q(user)), pk=pk)\<close>
  The last line, for each model of the allow-list:
\<close>

fun owned_object_or_404 :: "model_class \<Rightarrow> user \<Rightarrow> int \<Rightarrow> db \<Rightarrow> error + target" where
  "owned_object_or_404 Recipe u k d =
     map_sum id RecipeObj (get_object_or_404 (filter (owned_q u) (rows (Recipe_objects d))) k)"
| "owned_object_or_404 Dish u k d =
     map_sum id DishObj (get_object_or_404 (filter (owned_q u) (rows (Dish_objects d))) k)"
| "owned_object_or_404 CookSession u k d =
     map_sum id CookSessionObj (get_object_or_404 (filter (owned_q u) (rows (CookSession_objects d))) k)"
| "owned_object_or_404 CookResult u k d =
     map_sum id CookResultObj (get_object_or_404 (filter (owned_q u) (rows (CookResult_objects d))) k)"

definition get_target_or_404 :: "user \<Rightarrow> string \<Rightarrow> int \<Rightarrow> db \<Rightarrow> error + target" where
  "get_target_or_404 u model_key k d =
     (case ALLOWED_TARGET_MODELS model_key of
        None \<Rightarrow> Inl Http404
      | Some model \<Rightarrow> owned_object_or_404 model u k d)"

text \<open>
  \<^verbatim>\<open>ContentType.objects.get_for_model\<close>: the content type of a model of this application
  is the application's label and the lower-case name of the class.
\<close>

fun get_for_model :: "model_class \<Rightarrow> django_content_type" where
  "get_for_model Recipe = (''cooking_companion'', ''recipe'')"
| "get_for_model Dish = (''cooking_companion'', ''dish'')"
| "get_for_model CookSession = (''cooking_companion'', ''cooksession'')"
| "get_for_model CookResult = (''cooking_companion'', ''cookresult'')"

text \<open>
  \<^verbatim>\<open>TargetContextMixin.dispatch\<close> resolves the target and its content type before the
  request is handled.
\<close>

definition TargetContextMixin_dispatch ::
  "user \<Rightarrow> string \<Rightarrow> int \<Rightarrow> db \<Rightarrow> error + target \<times> django_content_type" where
  "TargetContextMixin_dispatch u model_key k d =
     (case get_target_or_404 u model_key k d of
        Inl e \<Rightarrow> Inl e
      | Inr t \<Rightarrow> Inr (t, get_for_model (target_class t)))"

text \<open>\<^verbatim>\<open>str\<close> of an integer is its decimal numeral, and \<^verbatim>\<open>str(None)\<close> is \<^verbatim>\<open>"None"\<close>.\<close>

definition digit_char :: "nat \<Rightarrow> char" where
  "digit_char n = char_of (48 + n)"

fun str_nat :: "nat \<Rightarrow> string" where
  "str_nat n = (if n < 10 then [digit_char n] else str_nat (n div 10) @ [digit_char (n mod 10)])"

definition py_str :: "int \<Rightarrow> string" where
  "py_str i = (if i < 0 then CHR ''-'' # str_nat (nat (- i)) else str_nat (nat i))"

definition py_str_pk :: "int option \<Rightarrow> string" where
  "py_str_pk k = (case k of None \<Rightarrow> ''None'' | Some i \<Rightarrow> py_str i)"

section \<open>Forms (forms.py)\<close>

text \<open>
  The cleaned data of a model form is a row of the form's model, of which the form reads its
  own fields only (\<^verbatim>\<open>Meta.fields\<close>); \<^verbatim>\<open>form.save(commit=False)\<close> copies these
  fields into the instance of the form. The cleaning of single fields (required, lengths,
  ranges, URL syntax) is Django's: a request carries its outcome, the cleaned data, or
  nothing when a field does not validate.
\<close>

datatype 'a request = GET | POST "'a option"

definition RecipeForm_construct :: "recipe \<Rightarrow> recipe \<Rightarrow> recipe" where
  "RecipeForm_construct cleaned instance =
     instance\<lparr>recipe_title := recipe_title cleaned,
              recipe_description := recipe_description cleaned,
              author := author cleaned,
              ingredients := ingredients cleaned,
              instructions := instructions cleaned,
              yield_text := yield_text cleaned,
              prep_minutes := prep_minutes cleaned,
              cook_minutes := cook_minutes cleaned,
              is_favorite := is_favorite cleaned,
              recipe_is_active := recipe_is_active cleaned\<rparr>"

definition DishForm_construct :: "dish \<Rightarrow> dish \<Rightarrow> dish" where
  "DishForm_construct cleaned instance =
     instance\<lparr>dish_name := dish_name cleaned,
              dish_description := dish_description cleaned,
              default_recipe_id := default_recipe_id cleaned,
              dish_is_active := dish_is_active cleaned\<rparr>"

definition CookSessionForm_construct :: "cook_session \<Rightarrow> cook_session \<Rightarrow> cook_session" where
  "CookSessionForm_construct cleaned instance =
     instance\<lparr>dish_id := dish_id cleaned,
              recipe_used_id := recipe_used_id cleaned,
              cooked_on := cooked_on cleaned,
              meal_type := meal_type cleaned,
              cook_method := cook_method cleaned,
              servings_made := servings_made cleaned,
              duration_minutes := duration_minutes cleaned,
              summary := summary cleaned,
              session_is_active := session_is_active cleaned\<rparr>"

definition CookResultForm_construct :: "cook_result \<Rightarrow> cook_result \<Rightarrow> cook_result" where
  "CookResultForm_construct cleaned instance =
     instance\<lparr>outcome := outcome cleaned,
              overall_rating := overall_rating cleaned,
              taste_rating := taste_rating cleaned,
              texture_rating := texture_rating cleaned,
              appearance_rating := appearance_rating cleaned,
              would_make_again := would_make_again cleaned,
              what_worked := what_worked cleaned,
              what_to_change := what_to_change cleaned,
              next_time_plan := next_time_plan cleaned\<rparr>"

definition NoteForTargetForm_construct :: "note_model \<Rightarrow> note_model \<Rightarrow> note_model" where
  "NoteForTargetForm_construct cleaned instance =
     instance\<lparr>note_title := note_title cleaned, body := body cleaned, is_pinned := is_pinned cleaned\<rparr>"

definition ReferenceURLForTargetForm_construct :: "reference_url \<Rightarrow> reference_url \<Rightarrow> reference_url" where
  "ReferenceURLForTargetForm_construct cleaned instance =
     instance\<lparr>url_kind := url_kind cleaned,
              url_title := url_title cleaned,
              url := url cleaned,
              url_description := url_description cleaned,
              url_sort_order := url_sort_order cleaned,
              is_primary := is_primary cleaned\<rparr>"

definition TrackedImageForTargetForm_construct :: "tracked_image \<Rightarrow> tracked_image \<Rightarrow> tracked_image" where
  "TrackedImageForTargetForm_construct cleaned instance =
     instance\<lparr>image := image cleaned,
              caption := caption cleaned,
              alt_text := alt_text cleaned,
              taken_at := taken_at cleaned,
              image_sort_order := image_sort_order cleaned,
              is_cover := is_cover cleaned\<rparr>"

definition PDFDocumentForTargetForm_construct :: "pdf_document \<Rightarrow> pdf_document \<Rightarrow> pdf_document" where
  "PDFDocumentForTargetForm_construct cleaned instance =
     instance\<lparr>pdf_kind := pdf_kind cleaned,
              pdf_title := pdf_title cleaned,
              pdf_description := pdf_description cleaned,
              pdf := pdf cleaned,
              page_count := page_count cleaned,
              pdf_sort_order := pdf_sort_order cleaned\<rparr>"

text \<open>
  \<^verbatim>\<open>DishForm\<close> and \<^verbatim>\<open>CookSessionForm\<close> restrict the rows that their foreign keys may
  choose to \<^verbatim>\<open>filter(_owned_q(user))\<close>; the views always pass the user.
\<close>

definition DishForm_is_valid :: "user \<Rightarrow> db \<Rightarrow> dish \<Rightarrow> bool" where
  "DishForm_is_valid u d cleaned =
     (case default_recipe_id cleaned of
        None \<Rightarrow> True
      | Some k \<Rightarrow> list_ex (\<lambda>r. pk r = Some k) (filter (owned_q u) (rows (Recipe_objects d))))"

definition CookSessionForm_is_valid :: "user \<Rightarrow> db \<Rightarrow> cook_session \<Rightarrow> bool" where
  "CookSessionForm_is_valid u d cleaned =
     (list_ex (\<lambda>r. pk r = Some (dish_id cleaned)) (filter (owned_q u) (rows (Dish_objects d)))
      \<and> (case recipe_used_id cleaned of
            None \<Rightarrow> True
          | Some k \<Rightarrow> list_ex (\<lambda>r. pk r = Some k) (filter (owned_q u) (rows (Recipe_objects d)))))"

text \<open>
  A new instance: no primary key, created_at from \<^verbatim>\<open>default=timezone.now\<close>, and the
  defaults of the model's other columns. A new attachment has no target yet; the view
  binds it before it saves.
\<close>

definition CookResult_new :: "datetime \<Rightarrow> int \<Rightarrow> user option \<Rightarrow> cook_result" where
  "CookResult_new now session_pk owner =
     \<lparr>pk = None, created_at = now, updated_at = now, created_by = owner,
      cook_session_id = session_pk, outcome = ''experiment'', overall_rating = None,
      taste_rating = None, texture_rating = None, appearance_rating = None,
      would_make_again = False, what_worked = [], what_to_change = [], next_time_plan = []\<rparr>"

definition Note_new :: "datetime \<Rightarrow> note_model" where
  "Note_new now =
     \<lparr>pk = None, created_at = now, updated_at = now, created_by = None,
      content_type = ([], []), object_id = [],
      note_title = [], body = [], is_pinned = False\<rparr>"

definition ReferenceURL_new :: "datetime \<Rightarrow> reference_url" where
  "ReferenceURL_new now =
     \<lparr>pk = None, created_at = now, updated_at = now, created_by = None,
      content_type = ([], []), object_id = [],
      url_kind = ''other'', url_title = [], url = [], url_description = [], url_sort_order = 0,
      is_primary = False\<rparr>"

text \<open>The uuid of a new image or document is drawn by \<^verbatim>\<open>uuid.uuid4\<close>: a parameter.\<close>

definition TrackedImage_new :: "datetime \<Rightarrow> string \<Rightarrow> tracked_image" where
  "TrackedImage_new now fresh_uuid =
     \<lparr>pk = None, created_at = now, updated_at = now, created_by = None,
      content_type = ([], []), object_id = [],
      image_uuid = fresh_uuid, image = \<lparr>file_name = [], committed = True\<rparr>, caption = [],
      alt_text = [], taken_at = None, image_sort_order = 0, is_cover = False\<rparr>"

definition PDFDocument_new :: "datetime \<Rightarrow> string \<Rightarrow> pdf_document" where
  "PDFDocument_new now fresh_uuid =
     \<lparr>pk = None, created_at = now, updated_at = now, created_by = None,
      content_type = ([], []), object_id = [],
      pdf_uuid = fresh_uuid, pdf_kind = ''other'', pdf_title = [], pdf_description = [],
      pdf = \<lparr>file_name = [], committed = True\<rparr>, original_filename = [], page_count = None,
      pdf_sort_order = 0\<rparr>"

section \<open>Views (views.py)\<close>

text \<open>
  A view takes the requesting user (the views require a login), the arguments of the URL,
  the request and the database, and gives its response, or the exception it raises, with the
  database it leaves. \<^verbatim>\<open>reverse\<close> is kept symbolic: a route is the name of the URL
  pattern with its arguments. The development covers the list, detail and update views, the
  result-edit endpoint, the attachment views and the dashboard; deletion is covered at the
  level of the models.
\<close>

datatype route =
    recipe_detail "int option"
  | dish_detail "int option"
  | cooksession_detail "int option"
  | target_detail string "int option"

datatype 'a response = HttpResponseRedirect route | TemplateResponse 'a

subsection \<open>The shared owned-form path\<close>

text \<open>
  \<^verbatim>\<open>OwnedQuerysetMixin.get_queryset\<close>: \<^verbatim>\<open>super().get_queryset().filter(owned_q(user))\<close>.
\<close>

definition OwnedQuerysetMixin_get_queryset ::
  "user \<Rightarrow> 'a owned_model_scheme list \<Rightarrow> 'a owned_model_scheme list" where
  "OwnedQuerysetMixin_get_queryset u qs = filter (owned_q u) qs"

text \<open>
  \<^verbatim>\<open>OwnedQuerysetMixin.form_valid\<close>, the lines between \<^verbatim>\<open>form.save(commit=False)\<close>
  and \<^verbatim>\<open>obj.save()\<close>:
  \<^verbatim>\<open>if getattr(obj, "created_by_id", None) is None:
      setattr(obj, "created_by", self.request.user)\<close>
\<close>

definition OwnedQuerysetMixin_stamp :: "user \<Rightarrow> 'a owned_model_scheme \<Rightarrow> 'a owned_model_scheme" where
  "OwnedQuerysetMixin_stamp u obj = (if created_by obj = None then obj\<lparr>created_by := Some u\<rparr> else obj)"

text \<open>
  An update view on the shared path (\<^verbatim>\<open>OwnedQuerysetMixin, generic.UpdateView\<close>):
  the object is looked up by primary key in the filtered queryset (404 when it is not
  there); GET renders the form; POST with data that do not validate renders the form again;
  POST with valid data runs \<^verbatim>\<open>form_valid\<close> and redirects to the success URL. A
  rendered form is given as the row that it edits, as the database holds it: the values
  that a posted form has copied into the instance in memory, which the template of a form
  that did not validate shows, are not part of the model.
\<close>

definition OwnedUpdateView ::
  "'a owned_model_scheme list \<Rightarrow> ('c \<Rightarrow> bool)
     \<Rightarrow> ('c \<Rightarrow> 'a owned_model_scheme \<Rightarrow> 'a owned_model_scheme)
     \<Rightarrow> ('a owned_model_scheme \<Rightarrow> db \<Rightarrow> (error + 'a owned_model_scheme) \<times> db)
     \<Rightarrow> (int option \<Rightarrow> route)
     \<Rightarrow> user \<Rightarrow> int \<Rightarrow> 'c request \<Rightarrow> db
     \<Rightarrow> (error + 'a owned_model_scheme response) \<times> db" where
  "OwnedUpdateView objects is_valid construct save success_url u k req d =
     (case get_object_or_404 (OwnedQuerysetMixin_get_queryset u objects) k of
        Inl e \<Rightarrow> (Inl e, d)
      | Inr self_object \<Rightarrow>
          (case req of
             GET \<Rightarrow> (Inr (TemplateResponse self_object), d)
           | POST None \<Rightarrow> (Inr (TemplateResponse self_object), d)
           | POST (Some cleaned) \<Rightarrow>
               if \<not> is_valid cleaned then (Inr (TemplateResponse self_object), d)
               else
                 (case save (OwnedQuerysetMixin_stamp u (construct cleaned self_object)) d of
                    (Inl e, d') \<Rightarrow> (Inl e, d')
                  | (Inr obj, d') \<Rightarrow> (Inr (HttpResponseRedirect (success_url (pk obj))), d'))))"

definition RecipeUpdateView ::
  "user \<Rightarrow> int \<Rightarrow> recipe request \<Rightarrow> datetime \<Rightarrow> db \<Rightarrow> (error + recipe response) \<times> db" where
  "RecipeUpdateView u k req now d =
     OwnedUpdateView (rows (Recipe_objects d)) (\<lambda>_. True) RecipeForm_construct
       (Recipe_save now) recipe_detail u k req d"

definition DishUpdateView ::
  "user \<Rightarrow> int \<Rightarrow> dish request \<Rightarrow> datetime \<Rightarrow> db \<Rightarrow> (error + dish response) \<times> db" where
  "DishUpdateView u k req now d =
     OwnedUpdateView (rows (Dish_objects d)) (DishForm_is_valid u d) DishForm_construct
       (Dish_save now) dish_detail u k req d"

definition CookSessionUpdateView ::
  "user \<Rightarrow> int \<Rightarrow> cook_session request \<Rightarrow> datetime \<Rightarrow> db \<Rightarrow> (error + cook_session response) \<times> db" where
  "CookSessionUpdateView u k req now d =
     OwnedUpdateView (rows (CookSession_objects d)) (CookSessionForm_is_valid u d)
       CookSessionForm_construct (CookSession_save now) cooksession_detail u k req d"

subsection \<open>Detail views\<close>

text \<open>
  Each detail view filters its model by \<^verbatim>\<open>owned_q\<close> and looks the object up by primary
  key. \<^verbatim>\<open>DishDetailView\<close> annotates the dish with the number of its cook sessions.
\<close>

definition RecipeDetailView :: "user \<Rightarrow> int \<Rightarrow> db \<Rightarrow> error + recipe" where
  "RecipeDetailView u k d = get_object_or_404 (filter (owned_q u) (rows (Recipe_objects d))) k"

definition session_count :: "db \<Rightarrow> dish \<Rightarrow> nat" where
  "session_count d x = length (filter (\<lambda>s. Some (dish_id s) = pk x) (rows (CookSession_objects d)))"

definition DishDetailView :: "user \<Rightarrow> int \<Rightarrow> db \<Rightarrow> error + dish \<times> nat" where
  "DishDetailView u k d =
     map_sum id (\<lambda>x. (x, session_count d x))
       (get_object_or_404 (filter (owned_q u) (rows (Dish_objects d))) k)"

definition CookSessionDetailView :: "user \<Rightarrow> int \<Rightarrow> db \<Rightarrow> error + cook_session" where
  "CookSessionDetailView u k d =
     get_object_or_404 (filter (owned_q u) (rows (CookSession_objects d))) k"

definition CookResultDetailView :: "user \<Rightarrow> int \<Rightarrow> db \<Rightarrow> error + cook_result" where
  "CookResultDetailView u k d =
     get_object_or_404 (filter (owned_q u) (rows (CookResult_objects d))) k"

subsection \<open>List views\<close>

text \<open>
  The query string is a dictionary (\<^verbatim>\<open>request.GET\<close>). \<^verbatim>\<open>str.strip()\<close> removes the
  white space at both ends. A character of a string is a code point below 256, and the
  white space among these is what \<^verbatim>\<open>str.isspace\<close> accepts there: the ASCII white space,
  U+0085 and U+00A0; the white space of Unicode beyond 255 is outside the type.
  \<^verbatim>\<open>icontains\<close> is the database's case-insensitive containment test (column value, then
  needle); it depends on the collation and is a parameter. The querysets are given as the
  list of their rows in table order: \<^verbatim>\<open>order_by\<close>, \<^verbatim>\<open>select_related\<close> and the
  pagination change the order and the cut of what is shown, not which rows qualify.
\<close>

definition py_isspace :: "char \<Rightarrow> bool" where
  "py_isspace c =
     (c \<in> set [CHR 0x09, CHR 0x0A, CHR 0x0B, CHR 0x0C, CHR 0x0D, CHR 0x1C, CHR 0x1D, CHR 0x1E,
                CHR 0x1F, CHR 0x20, CHR 0x85, CHR 0xA0])"

definition py_strip :: "string \<Rightarrow> string" where
  "py_strip s = rev (dropWhile py_isspace (rev (dropWhile py_isspace s)))"

definition get_param :: "(string \<rightharpoonup> string) \<Rightarrow> string \<Rightarrow> string \<Rightarrow> string" where
  "get_param params key dflt = (case params key of None \<Rightarrow> dflt | Some v \<Rightarrow> v)"

definition RecipeListView_get_queryset ::
  "(string \<Rightarrow> string \<Rightarrow> bool) \<Rightarrow> user \<Rightarrow> (string \<rightharpoonup> string) \<Rightarrow> db \<Rightarrow> recipe list" where
  "RecipeListView_get_queryset icontains u params d =
     (let qs = filter (owned_q u) (rows (Recipe_objects d));
          q = py_strip (get_param params ''q'' []);
          qs1 = (if q \<noteq> []
                 then filter (\<lambda>r. icontains (recipe_title r) q \<or> icontains (author r) q
                                  \<or> icontains (recipe_description r) q) qs
                 else qs);
          qs2 = (if params ''favorite'' = Some ''1'' then filter is_favorite qs1 else qs1);
          qs3 = (if params ''active'' = Some ''0'' then filter (\<lambda>r. \<not> recipe_is_active r) qs2 else qs2)
      in qs3)"

text \<open>
  \<^verbatim>\<open>default_recipe__title__icontains\<close> and the like follow a foreign key into the whole
  table of the other model.
\<close>

definition related_icontains ::
  "(string \<Rightarrow> string \<Rightarrow> bool) \<Rightarrow> ('a model_row_scheme \<Rightarrow> string) \<Rightarrow> 'a model_row_scheme list
     \<Rightarrow> int option \<Rightarrow> string \<Rightarrow> bool" where
  "related_icontains icontains field objects fk q =
     (case fk of
        None \<Rightarrow> False
      | Some k \<Rightarrow> list_ex (\<lambda>r. pk r = Some k \<and> icontains (field r) q) objects)"

definition DishListView_get_queryset ::
  "(string \<Rightarrow> string \<Rightarrow> bool) \<Rightarrow> user \<Rightarrow> (string \<rightharpoonup> string) \<Rightarrow> db \<Rightarrow> (dish \<times> nat) list" where
  "DishListView_get_queryset icontains u params d =
     (let qs = filter (owned_q u) (rows (Dish_objects d));
          q = py_strip (get_param params ''q'' []);
          qs1 = (if q \<noteq> []
                 then filter (\<lambda>x. icontains (dish_name x) q \<or> icontains (dish_description x) q
                                  \<or> related_icontains icontains recipe_title (rows (Recipe_objects d))
                                       (default_recipe_id x) q) qs
                 else qs);
          qs2 = (if params ''active'' = Some ''0'' then filter (\<lambda>x. \<not> dish_is_active x) qs1 else qs1)
      in map (\<lambda>x. (x, session_count d x)) qs2)"

text \<open>
  \<^verbatim>\<open>date + timedelta(days=n)\<close> raises \<^verbatim>\<open>OverflowError\<close> outside
  \<^verbatim>\<open>date.min\<close> .. \<^verbatim>\<open>date.max\<close>, the ordinals 1 .. 3652059.
\<close>

definition date_add_days :: "date \<Rightarrow> int \<Rightarrow> error + date" where
  "date_add_days day n = (if 0 < day + n \<and> day + n \<le> 3652059 then Inr (day + n) else Inl OverflowError)"

text \<open>The \<^verbatim>\<open>when\<close> chain of \<^verbatim>\<open>CookSessionListView.get_queryset\<close>.\<close>

definition when_filter :: "string option \<Rightarrow> date \<Rightarrow> cook_session list \<Rightarrow> error + cook_session list" where
  "when_filter when today qs =
     (if when = Some ''today'' then Inr (filter (\<lambda>s. cooked_on s = today) qs)
      else if when = Some ''week'' then
        (case date_add_days today 7 of
           Inl e \<Rightarrow> Inl e
         | Inr hi \<Rightarrow> Inr (filter (\<lambda>s. today < cooked_on s \<and> cooked_on s \<le> hi) qs))
      else if when = Some ''month'' then
        (case date_add_days today 30 of
           Inl e \<Rightarrow> Inl e
         | Inr hi \<Rightarrow> Inr (filter (\<lambda>s. today < cooked_on s \<and> cooked_on s \<le> hi) qs))
      else if when = Some ''past30'' then
        (case date_add_days today (- 30) of
           Inl e \<Rightarrow> Inl e
         | Inr lo \<Rightarrow> Inr (filter (\<lambda>s. lo \<le> cooked_on s \<and> cooked_on s \<le> today) qs))
      else Inr qs)"

definition CookSessionListView_get_queryset ::
  "(string \<Rightarrow> string \<Rightarrow> bool) \<Rightarrow> user \<Rightarrow> (string \<rightharpoonup> string) \<Rightarrow> date \<Rightarrow> db
     \<Rightarrow> error + cook_session list" where
  "CookSessionListView_get_queryset icontains u params today d =
     (let qs = filter (owned_q u) (rows (CookSession_objects d));
          q = py_strip (get_param params ''q'' []);
          qs1 = (if q \<noteq> []
                 then filter (\<lambda>s. related_icontains icontains dish_name (rows (Dish_objects d))
                                    (Some (dish_id s)) q
                                  \<or> related_icontains icontains recipe_title (rows (Recipe_objects d))
                                       (recipe_used_id s) q
                                  \<or> icontains (summary s) q) qs
                 else qs)
      in case when_filter (params ''when'') today qs1 of
           Inl e \<Rightarrow> Inl e
         | Inr qs2 \<Rightarrow>
             (let meal = params ''meal_type'';
                  qs3 = (if meal \<noteq> None \<and> meal \<noteq> Some []
                         then filter (\<lambda>s. Some (meal_type s) = meal) qs2 else qs2);
                  meth = params ''method'';
                  qs4 = (if meth \<noteq> None \<and> meth \<noteq> Some []
                         then filter (\<lambda>s. Some (cook_method s) = meth) qs3 else qs3)
              in Inr qs4))"

subsection \<open>The dashboard\<close>

text \<open>
  \<^verbatim>\<open>DashboardView.get_context_data\<close>: the entries \<^verbatim>\<open>counts\<close> and
  \<^verbatim>\<open>session_buckets\<close> of the context. The URL of the session list, which
  \<^verbatim>\<open>reverse\<close> computes from the project's mount point, is a parameter.
\<close>

record counts =
  count_recipes :: nat
  count_dishes :: nat
  count_sessions :: nat
  count_results :: nat
  count_images :: nat
  count_notes :: nat
  count_urls :: nat
  count_pdfs :: nat

definition DashboardView_counts :: "user \<Rightarrow> db \<Rightarrow> counts" where
  "DashboardView_counts u d =
     \<lparr>count_recipes = length (filter (owned_q u) (rows (Recipe_objects d))),
      count_dishes = length (filter (owned_q u) (rows (Dish_objects d))),
      count_sessions = length (filter (owned_q u) (rows (CookSession_objects d))),
      count_results = length (filter (owned_q u) (rows (CookResult_objects d))),
      count_images = length (filter (owned_q u) (rows (TrackedImage_objects d))),
      count_notes = length (filter (owned_q u) (rows (Note_objects d))),
      count_urls = length (filter (owned_q u) (rows (ReferenceURL_objects d))),
      count_pdfs = length (filter (owned_q u) (rows (PDFDocument_objects d)))\<rparr>"

record bucket =
  bucket_label :: string
  bucket_count :: nat
  bucket_url :: string

definition DashboardView_session_buckets :: "string \<Rightarrow> user \<Rightarrow> date \<Rightarrow> db \<Rightarrow> error + bucket list" where
  "DashboardView_session_buckets list_url u today d =
     (case date_add_days today 7 of
        Inl e \<Rightarrow> Inl e
      | Inr week_from_now \<Rightarrow>
     (case date_add_days today 30 of
        Inl e \<Rightarrow> Inl e
      | Inr month_from_now \<Rightarrow>
     (let session_qs = filter (owned_q u) (rows (CookSession_objects d))
      in case date_add_days today (- 30) of
           Inl e \<Rightarrow> Inl e
         | Inr month_ago \<Rightarrow>
             Inr [\<lparr>bucket_label = ''Today'',
                    bucket_count = length (filter (\<lambda>s. cooked_on s = today) session_qs),
                    bucket_url = list_url @ ''?when=today''\<rparr>,
                  \<lparr>bucket_label = ''Next 7 days'',
                    bucket_count = length (filter (\<lambda>s. today < cooked_on s \<and> cooked_on s \<le> week_from_now) session_qs),
                    bucket_url = list_url @ ''?when=week''\<rparr>,
                  \<lparr>bucket_label = ''Next 30 days'',
                    bucket_count = length (filter (\<lambda>s. today < cooked_on s \<and> cooked_on s \<le> month_from_now) session_qs),
                    bucket_url = list_url @ ''?when=month''\<rparr>,
                  \<lparr>bucket_label = ''Past 30 days'',
                    bucket_count = length (filter (\<lambda>s. month_ago \<le> cooked_on s \<and> cooked_on s \<le> today) session_qs),
                    bucket_url = list_url @ ''?when=past30''\<rparr>])))"

subsection \<open>The result of a cook session\<close>

text \<open>
  \<^verbatim>\<open>CookResult.objects.get_or_create(cook_session=cook_session,
      defaults={"created_by": request.user})\<close>:
  the row of that session when \<^verbatim>\<open>get\<close> finds it; a new row with the model's defaults
  when \<^verbatim>\<open>get\<close> raises \<^verbatim>\<open>DoesNotExist\<close>; when the insert hits the unique column,
  \<^verbatim>\<open>get\<close> once more, and the \<^verbatim>\<open>IntegrityError\<close> when that finds nothing.
\<close>

definition CookResult_get_or_create ::
  "datetime \<Rightarrow> cook_session \<Rightarrow> user \<Rightarrow> db \<Rightarrow> (error + cook_result \<times> bool) \<times> db" where
  "CookResult_get_or_create now cook_session u d =
     (case pk cook_session of
        None \<Rightarrow> (Inl ValueError, d)
      | Some k \<Rightarrow>
          (case qs_get (\<lambda>r. cook_session_id r = k) (rows (CookResult_objects d)) of
             Inr obj \<Rightarrow> (Inr (obj, False), d)
           | Inl DoesNotExist \<Rightarrow>
               (case CookResult_save now (CookResult_new now k (Some u)) d of
                  (Inr obj, d') \<Rightarrow> (Inr (obj, True), d')
                | (Inl e, d') \<Rightarrow>
                    (case qs_get (\<lambda>r. cook_session_id r = k) (rows (CookResult_objects d')) of
                       Inr obj \<Rightarrow> (Inr (obj, False), d')
                     | Inl _ \<Rightarrow> (Inl e, d')))
           | Inl e \<Rightarrow> (Inl e, d)))"

text \<open>
  \<^verbatim>\<open>CookResultCreateUpdateView\<close>: \<^verbatim>\<open>dispatch\<close> looks the session up under
  \<^verbatim>\<open>owned_q\<close>, gets or creates its result and keeps it as the object of the update view
  (\<^verbatim>\<open>get_object\<close> returns it); then the update view handles the request. The form is
  saved by \<^verbatim>\<open>ModelFormMixin.form_valid\<close>; the success URL is the detail page of the
  session. As for the other update views, a rendered form is given as the row it edits, as
  the database holds it.
\<close>

definition CookResultCreateUpdateView ::
  "user \<Rightarrow> int \<Rightarrow> cook_result request \<Rightarrow> datetime \<Rightarrow> db \<Rightarrow> (error + cook_result response) \<times> db" where
  "CookResultCreateUpdateView u session_pk req now d =
     (case get_object_or_404 (filter (owned_q u) (rows (CookSession_objects d))) session_pk of
        Inl e \<Rightarrow> (Inl e, d)
      | Inr cook_session \<Rightarrow>
          (case CookResult_get_or_create now cook_session u d of
             (Inl e, d1) \<Rightarrow> (Inl e, d1)
           | (Inr (obj, created), d1) \<Rightarrow>
               (case req of
                  GET \<Rightarrow> (Inr (TemplateResponse obj), d1)
                | POST None \<Rightarrow> (Inr (TemplateResponse obj), d1)
                | POST (Some cleaned) \<Rightarrow>
                    (case CookResult_save now (CookResultForm_construct cleaned obj) d1 of
                       (Inl e, d2) \<Rightarrow> (Inl e, d2)
                     | (Inr saved, d2) \<Rightarrow>
                         (Inr (HttpResponseRedirect (cooksession_detail (Some (cook_session_id saved)))),
                          d2)))))"

subsection \<open>Attachments\<close>

text \<open>
  The four \<^verbatim>\<open>form_valid\<close> of the attachment views have the same lines between
  \<^verbatim>\<open>form.save(commit=False)\<close> and \<^verbatim>\<open>obj.save()\<close>:
  \<^verbatim>\<open>obj.content_type = self.target_ct
  obj.object_id = str(self.target_obj.pk)
  if not obj.created_by_id:
      obj.created_by = self.request.user\<close>
  (\<^verbatim>\<open>not obj.created_by_id\<close> holds for \<^verbatim>\<open>None\<close> and for 0).
\<close>

definition target_form_bind ::
  "user \<Rightarrow> target \<Rightarrow> django_content_type \<Rightarrow> 'a attachment_scheme \<Rightarrow> 'a attachment_scheme" where
  "target_form_bind u target_obj target_ct obj =
     (let obj1 = obj\<lparr>content_type := target_ct, object_id := py_str_pk (target_pk target_obj)\<rparr>
      in if created_by obj1 = None \<or> created_by obj1 = Some 0
         then obj1\<lparr>created_by := Some u\<rparr> else obj1)"

text \<open>
  A create view for a target (\<^verbatim>\<open>TargetContextMixin, generic.CreateView\<close>):
  \<^verbatim>\<open>dispatch\<close> resolves the target first; GET renders the empty form; POST with data
  that do not validate renders it again; POST with valid data runs \<^verbatim>\<open>form_valid\<close> on a
  new instance and redirects to the page of the target.
\<close>

definition TargetCreateView ::
  "'a attachment_scheme \<Rightarrow> ('c \<Rightarrow> 'a attachment_scheme \<Rightarrow> 'a attachment_scheme)
     \<Rightarrow> ('a attachment_scheme \<Rightarrow> db \<Rightarrow> (error + 'a attachment_scheme) \<times> db)
     \<Rightarrow> user \<Rightarrow> string \<Rightarrow> int \<Rightarrow> 'c request \<Rightarrow> db \<Rightarrow> (error + unit response) \<times> db" where
  "TargetCreateView new construct save u model_key k req d =
     (case TargetContextMixin_dispatch u model_key k d of
        Inl e \<Rightarrow> (Inl e, d)
      | Inr (target_obj, target_ct) \<Rightarrow>
          (case req of
             GET \<Rightarrow> (Inr (TemplateResponse ()), d)
           | POST None \<Rightarrow> (Inr (TemplateResponse ()), d)
           | POST (Some cleaned) \<Rightarrow>
               (case save (target_form_bind u target_obj target_ct (construct cleaned new)) d of
                  (Inl e, d') \<Rightarrow> (Inl e, d')
                | (Inr obj, d') \<Rightarrow>
                    (Inr (HttpResponseRedirect (target_detail model_key (target_pk target_obj))), d'))))"

definition TargetNoteCreateView ::
  "user \<Rightarrow> string \<Rightarrow> int \<Rightarrow> note_model request \<Rightarrow> datetime \<Rightarrow> db \<Rightarrow> (error + unit response) \<times> db" where
  "TargetNoteCreateView u model_key k req now d =
     TargetCreateView (Note_new now) NoteForTargetForm_construct (Note_save now) u model_key k req d"

definition TargetReferenceURLCreateView ::
  "user \<Rightarrow> string \<Rightarrow> int \<Rightarrow> reference_url request \<Rightarrow> datetime \<Rightarrow> db \<Rightarrow> (error + unit response) \<times> db" where
  "TargetReferenceURLCreateView u model_key k req now d =
     TargetCreateView (ReferenceURL_new now) ReferenceURLForTargetForm_construct
       (ReferenceURL_save now) u model_key k req d"

definition TargetTrackedImageCreateView ::
  "(string \<Rightarrow> string) \<Rightarrow> string \<Rightarrow> user \<Rightarrow> string \<Rightarrow> int \<Rightarrow> tracked_image request \<Rightarrow> datetime \<Rightarrow> db
     \<Rightarrow> (error + unit response) \<times> db" where
  "TargetTrackedImageCreateView storage fresh_uuid u model_key k req now d =
     TargetCreateView (TrackedImage_new now fresh_uuid) TrackedImageForTargetForm_construct
       (TrackedImage_save storage now) u model_key k req d"

definition TargetPDFDocumentCreateView ::
  "(string \<Rightarrow> string) \<Rightarrow> string \<Rightarrow> user \<Rightarrow> string \<Rightarrow> int \<Rightarrow> pdf_document request \<Rightarrow> datetime \<Rightarrow> db
     \<Rightarrow> (error + unit response) \<times> db" where
  "TargetPDFDocumentCreateView storage fresh_uuid u model_key k req now d =
     TargetCreateView (PDFDocument_new now fresh_uuid) PDFDocumentForTargetForm_construct
       (PDFDocument_save storage now) u model_key k req d"

text \<open>
  \<^verbatim>\<open>TargetDetailView.get_context_data\<close>: the attachments of the target, each kind
  filtered by content type, object id and \<^verbatim>\<open>owned_q\<close>.
\<close>

definition target_attachments ::
  "user \<Rightarrow> django_content_type \<Rightarrow> string \<Rightarrow> 'a attachment_scheme list \<Rightarrow> 'a attachment_scheme list" where
  "target_attachments u ct oid objects =
     filter (owned_q u) (filter (\<lambda>a. content_type a = ct \<and> object_id a = oid) objects)"

record target_context =
  ctx_target_model_key :: string
  ctx_target_obj :: target
  ctx_notes :: "note_model list"
  ctx_urls :: "reference_url list"
  ctx_images :: "tracked_image list"
  ctx_pdfs :: "pdf_document list"

definition TargetDetailView :: "user \<Rightarrow> string \<Rightarrow> int \<Rightarrow> db \<Rightarrow> error + target_context" where
  "TargetDetailView u model_key k d =
     (case TargetContextMixin_dispatch u model_key k d of
        Inl e \<Rightarrow> Inl e
      | Inr (target_obj, ct) \<Rightarrow>
          (let oid = py_str_pk (target_pk target_obj)
           in Inr \<lparr>ctx_target_model_key = model_key,
                   ctx_target_obj = target_obj,
                   ctx_notes = target_attachments u ct oid (rows (Note_objects d)),
                   ctx_urls = target_attachments u ct oid (rows (ReferenceURL_objects d)),
                   ctx_images = target_attachments u ct oid (rows (TrackedImage_objects d)),
                   ctx_pdfs = target_attachments u ct oid (rows (PDFDocument_objects d))\<rparr>))"

section \<open>Well-formed tables, runs and example data\<close>

text \<open>
  The primary key of a table: every row has a key, no two rows share one, and the sequence
  has passed every key.
\<close>

definition table_ok :: "'a model_row_scheme table \<Rightarrow> bool" where
  "table_ok t =
     (distinct (map pk (rows t))
      \<and> list_all (\<lambda>r. case pk r of None \<Rightarrow> False | Some k \<Rightarrow> k \<le> seq t) (rows t))"

text \<open>The unique column of \<^verbatim>\<open>CookResult.cook_session\<close>, as a property of the table.\<close>

definition one_result_per_session :: "db \<Rightarrow> bool" where
  "one_result_per_session d = distinct (map cook_session_id (rows (CookResult_objects d)))"

text \<open>
  The unique constraint of \<^verbatim>\<open>Dish\<close>, as a property of the table: two rows that have
  the same owner, not null, and the same name are one row (they have the same primary key).
\<close>

definition dishes_unique :: "dish list \<Rightarrow> bool" where
  "dishes_unique ds =
     (\<forall>x \<in> set ds. \<forall>y \<in> set ds.
        created_by x \<noteq> None \<and> created_by x = created_by y \<and> dish_name x = dish_name y
          \<longrightarrow> pk x = pk y)"

text \<open>
  A session passes the lookup of the result-edit endpoint for a user when
  \<^verbatim>\<open>get_object_or_404\<close> on the user's filtered sessions returns it.
\<close>

definition session_visible :: "user \<Rightarrow> int \<Rightarrow> db \<Rightarrow> bool" where
  "session_visible u k d =
     (case get_object_or_404 (filter (owned_q u) (rows (CookSession_objects d))) k of
        Inl _ \<Rightarrow> False
      | Inr _ \<Rightarrow> True)"

text \<open>A sequence of requests to the result-edit endpoint of one session.\<close>

fun run_result_edit :: "int \<Rightarrow> (user \<times> cook_result request \<times> datetime) list \<Rightarrow> db \<Rightarrow> db" where
  "run_result_edit k [] d = d"
| "run_result_edit k ((u, req, now) # rest) d =
     run_result_edit k rest (snd (CookResultCreateUpdateView u k req now d))"

definition results_of_session :: "int \<Rightarrow> db \<Rightarrow> cook_result list" where
  "results_of_session k d = filter (\<lambda>r. cook_session_id r = k) (rows (CookResult_objects d))"

text \<open>The final piece of a file name: what follows its last slash.\<close>

definition final_segment :: "string \<Rightarrow> string" where
  "final_segment s = rev (takeWhile (\<lambda>c. c \<noteq> CHR ''/'') (rev s))"

text \<open>The value of a decimal numeral.\<close>

definition decimal_value :: "string \<Rightarrow> nat" where
  "decimal_value s = foldl (\<lambda>a c. 10 * a + (of_char c - 48)) 0 s"

text \<open>Rows and a database for the concrete instances.\<close>

definition ex_recipe :: "int \<Rightarrow> user option \<Rightarrow> recipe" where
  "ex_recipe k owner =
     \<lparr>pk = Some k, created_at = 1, updated_at = 1, created_by = owner,
      recipe_title = ''Oven Bacon'', recipe_description = [], author = [], ingredients = [],
      instructions = [], yield_text = [], prep_minutes = None, cook_minutes = None,
      is_favorite = False, recipe_is_active = True\<rparr>"

definition ex_dish :: "int option \<Rightarrow> user option \<Rightarrow> string \<Rightarrow> int option \<Rightarrow> dish" where
  "ex_dish k owner name recipe_pk =
     \<lparr>pk = k, created_at = 1, updated_at = 1, created_by = owner,
      dish_name = name, dish_description = [], default_recipe_id = recipe_pk,
      dish_is_active = True\<rparr>"

definition ex_session :: "int \<Rightarrow> user option \<Rightarrow> int \<Rightarrow> int option \<Rightarrow> date \<Rightarrow> cook_session" where
  "ex_session k owner dish_pk recipe_pk day =
     \<lparr>pk = Some k, created_at = 1, updated_at = 1, created_by = owner,
      dish_id = dish_pk, recipe_used_id = recipe_pk, cooked_on = day, meal_type = ''other'',
      cook_method = ''other'', servings_made = None, duration_minutes = None, summary = [],
      session_is_active = True\<rparr>"

definition ex_result :: "int \<Rightarrow> user option \<Rightarrow> int \<Rightarrow> string \<Rightarrow> cook_result" where
  "ex_result k owner session_pk how =
     \<lparr>pk = Some k, created_at = 10, updated_at = 10, created_by = owner,
      cook_session_id = session_pk, outcome = how, overall_rating = None,
      taste_rating = None, texture_rating = None, appearance_rating = None,
      would_make_again = False, what_worked = [], what_to_change = [], next_time_plan = []\<rparr>"

definition ex_note :: "int \<Rightarrow> user option \<Rightarrow> django_content_type \<Rightarrow> string \<Rightarrow> note_model" where
  "ex_note k owner ct oid =
     \<lparr>pk = Some k, created_at = 1, updated_at = 1, created_by = owner,
      content_type = ct, object_id = oid, note_title = ''Note'', body = ''Hello'',
      is_pinned = False\<rparr>"

definition ex_pdf :: "string \<Rightarrow> string \<Rightarrow> pdf_document" where
  "ex_pdf name original =
     \<lparr>pk = None, created_at = 1, updated_at = 1, created_by = Some 1,
      content_type = (''cooking_companion'', ''recipe''), object_id = ''1'',
      pdf_uuid = ''u1'', pdf_kind = ''other'', pdf_title = [], pdf_description = [],
      pdf = \<lparr>file_name = name, committed = False\<rparr>, original_filename = original,
      page_count = None, pdf_sort_order = 0\<rparr>"

definition empty_table :: "'a table" where
  "empty_table = \<lparr>rows = [], seq = 0\<rparr>"

definition empty_db :: db where
  "empty_db =
     \<lparr>Recipe_objects = empty_table, Dish_objects = empty_table,
      CookSession_objects = empty_table, CookResult_objects = empty_table,
      Note_objects = empty_table, TrackedImage_objects = empty_table,
      ReferenceURL_objects = empty_table, PDFDocument_objects = empty_table\<rparr>"

text \<open>
  User 1 owns recipe 1, dish 1 and session 1 (cooked on day 738000); recipe 2, dish 2 and
  session 2 (cooked on day 738005, with recipe 1 on dish 2) have no owner. Note 1, of
  user 1, and note 2, without owner, hang on recipe 2.
\<close>

definition ex_db :: db where
  "ex_db =
     empty_db
       \<lparr>Recipe_objects := \<lparr>rows = [ex_recipe 1 (Some 1), ex_recipe 2 None], seq = 2\<rparr>,
        Dish_objects := \<lparr>rows = [ex_dish (Some 1) (Some 1) ''Oven Bacon'' (Some 1),
                                  ex_dish (Some 2) None ''Soup'' (Some 1)], seq = 2\<rparr>,
        CookSession_objects := \<lparr>rows = [ex_session 1 (Some 1) 1 (Some 1) 738000,
                                         ex_session 2 None 2 (Some 1) 738005], seq = 2\<rparr>,
        Note_objects := \<lparr>rows = [ex_note 1 (Some 1) (''cooking_companion'', ''recipe'') ''2'',
                                  ex_note 2 None (''cooking_companion'', ''recipe'') ''2''], seq = 2\<rparr>\<rparr>"

text \<open>
  The example database after user 1 has opened the result of session 2, the session
  without owner: the result is user 1's.
\<close>

definition ex_db_with_result :: db where
  "ex_db_with_result =
     ex_db\<lparr>CookResult_objects := \<lparr>rows = [ex_result 1 (Some 1) 2 ''experiment''], seq = 1\<rparr>\<rparr>"

section \<open>Lookups and the attachment views' 404\<close>

lemma get_object_or_404_Inr:
  "get_object_or_404 qs k = Inr x \<longleftrightarrow> filter (\<lambda>r. pk r = Some k) qs = [x]"
  by (auto simp: get_object_or_404_def qs_get_def split: list.splits)

lemma get_object_or_404_mem:
  "get_object_or_404 qs k = Inr x \<Longrightarrow> x \<in> set qs \<and> pk x = Some k"
proof -
  assume "get_object_or_404 qs k = Inr x"
  then have "filter (\<lambda>r. pk r = Some k) qs = [x]" by (simp add: get_object_or_404_Inr)
  then have "x \<in> set (filter (\<lambda>r. pk r = Some k) qs)" by simp
  then show ?thesis by simp
qed

lemma lookup_in_rows:
  assumes "get_object_or_404 (filter (owned_q u) objects) k = Inr r"
  shows "r \<in> set objects" and "pk r = Some k" and "list_ex (\<lambda>x. pk x = Some k) objects"
proof -
  from assms have m: "r \<in> set (filter (owned_q u) objects) \<and> pk r = Some k"
    by (rule get_object_or_404_mem)
  then show "r \<in> set objects" and "pk r = Some k" by simp_all
  with m show "list_ex (\<lambda>x. pk x = Some k) objects" by (auto simp: list_ex_iff)
qed

text \<open>A row found by a lookup under the ownership filter is a row that a foreign key can refer to.\<close>

lemma lookup_fk_exists:
  assumes "get_object_or_404 (filter (owned_q u) objects) k = Inr r"
  shows "fk_exists k objects"
  unfolding fk_exists_def using assms by (rule lookup_in_rows(3))

lemma get_object_or_404_Http404:
  "filter (\<lambda>r. pk r = Some k) qs = [] \<Longrightarrow> get_object_or_404 qs k = Inl Http404"
  by (simp add: get_object_or_404_def qs_get_def)

lemma allowed_None:
  "ALLOWED_TARGET_MODELS model_key = None \<longleftrightarrow>
     model_key \<notin> {''recipe'', ''dish'', ''cooksession'', ''cookresult''}"
  by (simp add: ALLOWED_TARGET_MODELS_def)

lemma owned_object_or_404_Http404:
  assumes "\<forall>t \<in> set (model_objects model d). target_pk t = Some k \<longrightarrow>
             target_created_by t \<noteq> Some u \<and> target_created_by t \<noteq> None"
  shows "owned_object_or_404 model u k d = Inl Http404"
proof (cases model)
  case Recipe
  have "filter (\<lambda>r. pk r = Some k) (filter (owned_q u) (rows (Recipe_objects d))) = []"
    using assms Recipe by (auto simp: filter_empty_conv owned_q_def)
  then show ?thesis using Recipe by (simp add: get_object_or_404_Http404)
next
  case Dish
  have "filter (\<lambda>r. pk r = Some k) (filter (owned_q u) (rows (Dish_objects d))) = []"
    using assms Dish by (auto simp: filter_empty_conv owned_q_def)
  then show ?thesis using Dish by (simp add: get_object_or_404_Http404)
next
  case CookSession
  have "filter (\<lambda>r. pk r = Some k) (filter (owned_q u) (rows (CookSession_objects d))) = []"
    using assms CookSession by (auto simp: filter_empty_conv owned_q_def)
  then show ?thesis using CookSession by (simp add: get_object_or_404_Http404)
next
  case CookResult
  have "filter (\<lambda>r. pk r = Some k) (filter (owned_q u) (rows (CookResult_objects d))) = []"
    using assms CookResult by (auto simp: filter_empty_conv owned_q_def)
  then show ?thesis using CookResult by (simp add: get_object_or_404_Http404)
qed

lemma dispatch_Http404:
  assumes "model_key \<notin> {''recipe'', ''dish'', ''cooksession'', ''cookresult''}
           \<or> (\<exists>model. ALLOWED_TARGET_MODELS model_key = Some model
                 \<and> (\<forall>t \<in> set (model_objects model d). target_pk t = Some k \<longrightarrow>
                       target_created_by t \<noteq> Some u \<and> target_created_by t \<noteq> None))"
  shows "TargetContextMixin_dispatch u model_key k d = Inl Http404"
proof (cases "model_key \<notin> {''recipe'', ''dish'', ''cooksession'', ''cookresult''}")
  case True
  then have "ALLOWED_TARGET_MODELS model_key = None" by (simp add: allowed_None)
  then show ?thesis by (simp add: TargetContextMixin_dispatch_def get_target_or_404_def)
next
  case False
  with assms obtain model where m: "ALLOWED_TARGET_MODELS model_key = Some model"
    and n: "\<forall>t \<in> set (model_objects model d). target_pk t = Some k \<longrightarrow>
                       target_created_by t \<noteq> Some u \<and> target_created_by t \<noteq> None" by blast
  from n have "owned_object_or_404 model u k d = Inl Http404" by (rule owned_object_or_404_Http404)
  with m show ?thesis by (simp add: TargetContextMixin_dispatch_def get_target_or_404_def)
qed

lemma TargetCreateView_Http404:
  "TargetContextMixin_dispatch u model_key k d = Inl e \<Longrightarrow>
   TargetCreateView new construct save u model_key k req d = (Inl e, d)"
  by (simp add: TargetCreateView_def)

text \<open>
  Claim C2. A request to one of the four attachment create views, GET or POST, whose model
  key is outside the allow-list, or whose target table has no row of the given primary key
  that the requesting user owns or that has no owner (there is no such row at all, or its
  created_by is another user), raises \<^verbatim>\<open>Http404\<close> and leaves the database as it was:
  no attachment row is created.
\<close>

theorem attachment_create_not_found:
  assumes "model_key \<notin> {''recipe'', ''dish'', ''cooksession'', ''cookresult''}
           \<or> (\<exists>model. ALLOWED_TARGET_MODELS model_key = Some model
                 \<and> (\<forall>t \<in> set (model_objects model d). target_pk t = Some k \<longrightarrow>
                       target_created_by t \<noteq> Some u \<and> target_created_by t \<noteq> None))"
  shows "TargetNoteCreateView u model_key k req_note now d = (Inl Http404, d)
       \<and> TargetReferenceURLCreateView u model_key k req_url now d = (Inl Http404, d)
       \<and> TargetTrackedImageCreateView storage fresh_uuid u model_key k req_image now d = (Inl Http404, d)
       \<and> TargetPDFDocumentCreateView storage fresh_uuid u model_key k req_pdf now d = (Inl Http404, d)"
proof -
  have "TargetContextMixin_dispatch u model_key k d = Inl Http404"
    using assms by (rule dispatch_Http404)
  then show ?thesis
    by (simp add: TargetNoteCreateView_def TargetReferenceURLCreateView_def
        TargetTrackedImageCreateView_def TargetPDFDocumentCreateView_def TargetCreateView_Http404)
qed

lemma ex_db_simps:
  "rows (Recipe_objects ex_db) = [ex_recipe 1 (Some 1), ex_recipe 2 None]"
  "rows (Dish_objects ex_db) = [ex_dish (Some 1) (Some 1) ''Oven Bacon'' (Some 1), ex_dish (Some 2) None ''Soup'' (Some 1)]"
  "rows (CookSession_objects ex_db) = [ex_session 1 (Some 1) 1 (Some 1) 738000, ex_session 2 None 2 (Some 1) 738005]"
  "rows (CookResult_objects ex_db) = []"
  "rows (Note_objects ex_db) = [ex_note 1 (Some 1) (''cooking_companion'', ''recipe'') ''2'', ex_note 2 None (''cooking_companion'', ''recipe'') ''2'']"
  by (simp_all add: ex_db_def empty_db_def empty_table_def)

text \<open>
  Claim C2, an instance: user 2 posts a note for recipe 1, which user 1 owns; for the model key
  \<^verbatim>\<open>user\<close>; and for recipe 7, which does not exist.
\<close>

theorem attachment_create_not_found_witness:
  "TargetNoteCreateView 2 ''recipe'' 1 (POST (Some (ex_note 0 None ([], []) []))) 5 ex_db = (Inl Http404, ex_db)
   \<and> TargetNoteCreateView 2 ''user'' 1 (POST (Some (ex_note 0 None ([], []) []))) 5 ex_db = (Inl Http404, ex_db)
   \<and> TargetNoteCreateView 2 ''recipe'' 7 (POST (Some (ex_note 0 None ([], []) []))) 5 ex_db = (Inl Http404, ex_db)"
proof -
  have a: "''recipe'' \<notin> {''recipe'', ''dish'', ''cooksession'', ''cookresult''}
           \<or> (\<exists>model. ALLOWED_TARGET_MODELS ''recipe'' = Some model
                 \<and> (\<forall>t \<in> set (model_objects model ex_db). target_pk t = Some 1 \<longrightarrow>
                       target_created_by t \<noteq> Some 2 \<and> target_created_by t \<noteq> None))"
    by (simp add: ALLOWED_TARGET_MODELS_def ex_db_simps ex_recipe_def)
  have b: "''user'' \<notin> {''recipe'', ''dish'', ''cooksession'', ''cookresult''}
           \<or> (\<exists>model. ALLOWED_TARGET_MODELS ''user'' = Some model
                 \<and> (\<forall>t \<in> set (model_objects model ex_db). target_pk t = Some 1 \<longrightarrow>
                       target_created_by t \<noteq> Some 2 \<and> target_created_by t \<noteq> None))"
    by simp
  have c: "''recipe'' \<notin> {''recipe'', ''dish'', ''cooksession'', ''cookresult''}
           \<or> (\<exists>model. ALLOWED_TARGET_MODELS ''recipe'' = Some model
                 \<and> (\<forall>t \<in> set (model_objects model ex_db). target_pk t = Some 7 \<longrightarrow>
                       target_created_by t \<noteq> Some 2 \<and> target_created_by t \<noteq> None))"
    by (simp add: ALLOWED_TARGET_MODELS_def ex_db_simps ex_recipe_def)
  show ?thesis
    using attachment_create_not_found [where req_note = "POST (Some (ex_note 0 None ([], []) []))" and now = 5, OF a, THEN conjunct1]
      attachment_create_not_found [where req_note = "POST (Some (ex_note 0 None ([], []) []))" and now = 5, OF b, THEN conjunct1]
      attachment_create_not_found [where req_note = "POST (Some (ex_note 0 None ([], []) []))" and now = 5, OF c, THEN conjunct1]
    by simp
qed

section \<open>Deleting dishes and recipes\<close>

text \<open>
  Claim C4. Deleting a dish that a cook session refers to raises \<^verbatim>\<open>ProtectedError\<close>
  and leaves the database, the dish and its sessions included, as it was. Deleting a saved
  recipe always succeeds, whatever refers to it: the recipe's row is gone, every dish and
  every cook session is still there under its primary key, none of them refers to the
  recipe any more, the rows that did not refer to it are unchanged, a row that did differs
  in that one column only, and no result is deleted.
\<close>

theorem delete_protect_and_set_null:
  "(pk dsh = Some kd \<and> list_ex (\<lambda>s. dish_id s = kd) (rows (CookSession_objects d))
      \<longrightarrow> Dish_delete dsh d = (Inl ProtectedError, d))
   \<and> (pk rcp = Some kr \<longrightarrow>
         fst (Recipe_delete rcp d) = Inr ()
       \<and> \<not> list_ex (\<lambda>x. pk x = Some kr) (rows (Recipe_objects (snd (Recipe_delete rcp d))))
       \<and> map pk (rows (Dish_objects (snd (Recipe_delete rcp d)))) = map pk (rows (Dish_objects d))
       \<and> map pk (rows (CookSession_objects (snd (Recipe_delete rcp d)))) = map pk (rows (CookSession_objects d))
       \<and> rows (Dish_objects (snd (Recipe_delete rcp d))) =
           map (\<lambda>x. if default_recipe_id x = Some kr then x\<lparr>default_recipe_id := None\<rparr> else x)
             (rows (Dish_objects d))
       \<and> rows (CookSession_objects (snd (Recipe_delete rcp d))) =
           map (\<lambda>x. if recipe_used_id x = Some kr then x\<lparr>recipe_used_id := None\<rparr> else x)
             (rows (CookSession_objects d))
       \<and> \<not> list_ex (\<lambda>x. default_recipe_id x = Some kr) (rows (Dish_objects (snd (Recipe_delete rcp d))))
       \<and> \<not> list_ex (\<lambda>x. recipe_used_id x = Some kr) (rows (CookSession_objects (snd (Recipe_delete rcp d))))
       \<and> CookResult_objects (snd (Recipe_delete rcp d)) = CookResult_objects d)"
proof (intro conjI impI)
  assume "pk dsh = Some kd \<and> list_ex (\<lambda>s. dish_id s = kd) (rows (CookSession_objects d))"
  then show "Dish_delete dsh d = (Inl ProtectedError, d)"
    by (simp add: Dish_delete_def)
next
  assume r: "pk rcp = Some kr"
  show "fst (Recipe_delete rcp d) = Inr ()"
    using r by (simp add: Recipe_delete_def)
  show "\<not> list_ex (\<lambda>x. pk x = Some kr) (rows (Recipe_objects (snd (Recipe_delete rcp d))))"
    using r by (simp add: Recipe_delete_def list_ex_iff)
  have 4: "rows (Dish_objects (snd (Recipe_delete rcp d))) =
           map (\<lambda>x. if default_recipe_id x = Some kr then x\<lparr>default_recipe_id := None\<rparr> else x)
             (rows (Dish_objects d))"
    using r by (simp add: Recipe_delete_def)
  have 5: "rows (CookSession_objects (snd (Recipe_delete rcp d))) =
           map (\<lambda>x. if recipe_used_id x = Some kr then x\<lparr>recipe_used_id := None\<rparr> else x)
             (rows (CookSession_objects d))"
    using r by (simp add: Recipe_delete_def)
  show "rows (Dish_objects (snd (Recipe_delete rcp d))) =
           map (\<lambda>x. if default_recipe_id x = Some kr then x\<lparr>default_recipe_id := None\<rparr> else x)
             (rows (Dish_objects d))" by (rule 4)
  show "rows (CookSession_objects (snd (Recipe_delete rcp d))) =
           map (\<lambda>x. if recipe_used_id x = Some kr then x\<lparr>recipe_used_id := None\<rparr> else x)
             (rows (CookSession_objects d))" by (rule 5)
  show "map pk (rows (Dish_objects (snd (Recipe_delete rcp d)))) = map pk (rows (Dish_objects d))"
    unfolding 4 by (simp add: comp_def)
  show "map pk (rows (CookSession_objects (snd (Recipe_delete rcp d)))) = map pk (rows (CookSession_objects d))"
    unfolding 5 by (simp add: comp_def)
  show "\<not> list_ex (\<lambda>x. default_recipe_id x = Some kr) (rows (Dish_objects (snd (Recipe_delete rcp d))))"
    unfolding 4 by (auto simp: list_ex_iff)
  show "\<not> list_ex (\<lambda>x. recipe_used_id x = Some kr) (rows (CookSession_objects (snd (Recipe_delete rcp d))))"
    unfolding 5 by (auto simp: list_ex_iff)
  show "CookResult_objects (snd (Recipe_delete rcp d)) = CookResult_objects d"
    using r by (simp add: Recipe_delete_def)
qed

text \<open>
  Claim C4, instances: dish 1 of the example database has session 1, and recipe 1 is the
  default recipe of both dishes and the recipe of both sessions; in the example database
  without its cook sessions recipe 1 is referred to by the two dishes only, and its
  deletion still succeeds and nulls both.
\<close>

theorem delete_protect_and_set_null_witness:
  "Dish_delete (ex_dish (Some 1) (Some 1) ''Oven Bacon'' (Some 1)) ex_db = (Inl ProtectedError, ex_db)
   \<and> fst (Recipe_delete (ex_recipe 1 (Some 1)) ex_db) = Inr ()
   \<and> rows (Dish_objects (snd (Recipe_delete (ex_recipe 1 (Some 1)) ex_db))) =
       [ex_dish (Some 1) (Some 1) ''Oven Bacon'' None, ex_dish (Some 2) None ''Soup'' None]
   \<and> rows (CookSession_objects (snd (Recipe_delete (ex_recipe 1 (Some 1)) ex_db))) =
       [ex_session 1 (Some 1) 1 None 738000, ex_session 2 None 2 None 738005]
   \<and> fst (Recipe_delete (ex_recipe 1 (Some 1)) (ex_db\<lparr>CookSession_objects := empty_table\<rparr>)) = Inr ()
   \<and> rows (Dish_objects
        (snd (Recipe_delete (ex_recipe 1 (Some 1)) (ex_db\<lparr>CookSession_objects := empty_table\<rparr>)))) =
       [ex_dish (Some 1) (Some 1) ''Oven Bacon'' None, ex_dish (Some 2) None ''Soup'' None]"
proof -
  have h1: "pk (ex_dish (Some 1) (Some 1) ''Oven Bacon'' (Some 1)) = Some 1
            \<and> list_ex (\<lambda>s. dish_id s = 1) (rows (CookSession_objects ex_db))"
    by (simp add: ex_dish_def ex_db_simps ex_session_def)
  have h3: "pk (ex_recipe 1 (Some 1)) = Some 1"
    by (simp add: ex_recipe_def)
  have e: "rows (Dish_objects (ex_db\<lparr>CookSession_objects := empty_table\<rparr>)) = rows (Dish_objects ex_db)"
    by simp
  note a = delete_protect_and_set_null [THEN conjunct1, THEN mp, OF h1]
  note b = delete_protect_and_set_null [where d = ex_db, THEN conjunct2, THEN mp, OF h3]
  note c = delete_protect_and_set_null [where d = "ex_db\<lparr>CookSession_objects := empty_table\<rparr>",
      THEN conjunct2, THEN mp, OF h3]
  show ?thesis
    using a b c by (simp add: e ex_db_simps ex_dish_def ex_session_def)
qed

section \<open>The dashboard's buckets\<close>

text \<open>
  Claim C6. For a today from which 30 days back and 30 days ahead are dates, the dashboard
  gives four buckets, and their counts are, over the cook sessions that pass the requesting
  user's ownership filter: those cooked today; those cooked after today and at most 7 days
  later; those cooked after today and at most 30 days later; those cooked from 30 days ago
  to today, both ends included. Each count is the length of the session list behind the
  bucket's link (the \<^verbatim>\<open>when\<close> parameter alone).
\<close>

theorem dashboard_session_buckets:
  assumes "30 < today" and "today + 30 \<le> 3652059"
  shows "map_sum id (map bucket_count) (DashboardView_session_buckets list_url u today d) =
           Inr [length (filter (\<lambda>s. owned_q u s \<and> cooked_on s = today) (rows (CookSession_objects d))),
                length (filter (\<lambda>s. owned_q u s \<and> today < cooked_on s \<and> cooked_on s \<le> today + 7)
                          (rows (CookSession_objects d))),
                length (filter (\<lambda>s. owned_q u s \<and> today < cooked_on s \<and> cooked_on s \<le> today + 30)
                          (rows (CookSession_objects d))),
                length (filter (\<lambda>s. owned_q u s \<and> today - 30 \<le> cooked_on s \<and> cooked_on s \<le> today)
                          (rows (CookSession_objects d)))]
       \<and> map_sum id (map bucket_label) (DashboardView_session_buckets list_url u today d) =
           Inr [''Today'', ''Next 7 days'', ''Next 30 days'', ''Past 30 days'']
       \<and> CookSessionListView_get_queryset ic u [''when'' \<mapsto> ''today''] today d =
           Inr (filter (\<lambda>s. owned_q u s \<and> cooked_on s = today) (rows (CookSession_objects d)))
       \<and> CookSessionListView_get_queryset ic u [''when'' \<mapsto> ''week''] today d =
           Inr (filter (\<lambda>s. owned_q u s \<and> today < cooked_on s \<and> cooked_on s \<le> today + 7)
                  (rows (CookSession_objects d)))
       \<and> CookSessionListView_get_queryset ic u [''when'' \<mapsto> ''month''] today d =
           Inr (filter (\<lambda>s. owned_q u s \<and> today < cooked_on s \<and> cooked_on s \<le> today + 30)
                  (rows (CookSession_objects d)))
       \<and> CookSessionListView_get_queryset ic u [''when'' \<mapsto> ''past30''] today d =
           Inr (filter (\<lambda>s. owned_q u s \<and> today - 30 \<le> cooked_on s \<and> cooked_on s \<le> today)
                  (rows (CookSession_objects d)))"
proof -
  have a7: "date_add_days today 7 = Inr (today + 7)"
    using assms by (simp add: date_add_days_def)
  have a30: "date_add_days today 30 = Inr (today + 30)"
    using assms by (simp add: date_add_days_def)
  have m30: "date_add_days today (- 30) = Inr (today - 30)"
    using assms by (simp add: date_add_days_def)
  have strip: "py_strip (get_param [''when'' \<mapsto> w] ''q'' []) = []" for w :: string
    by (simp add: get_param_def py_strip_def)
  have counts: "map_sum id (map bucket_count) (DashboardView_session_buckets list_url u today d) =
           Inr [length (filter (\<lambda>s. owned_q u s \<and> cooked_on s = today) (rows (CookSession_objects d))),
                length (filter (\<lambda>s. owned_q u s \<and> today < cooked_on s \<and> cooked_on s \<le> today + 7)
                          (rows (CookSession_objects d))),
                length (filter (\<lambda>s. owned_q u s \<and> today < cooked_on s \<and> cooked_on s \<le> today + 30)
                          (rows (CookSession_objects d))),
                length (filter (\<lambda>s. owned_q u s \<and> today - 30 \<le> cooked_on s \<and> cooked_on s \<le> today)
                          (rows (CookSession_objects d)))]"
    by (simp add: DashboardView_session_buckets_def a7 a30 m30 conj_commute conj_left_commute)
  have labels: "map_sum id (map bucket_label) (DashboardView_session_buckets list_url u today d) =
           Inr [''Today'', ''Next 7 days'', ''Next 30 days'', ''Past 30 days'']"
    by (simp add: DashboardView_session_buckets_def a7 a30 m30)
  have l1: "CookSessionListView_get_queryset ic u [''when'' \<mapsto> ''today''] today d =
           Inr (filter (\<lambda>s. owned_q u s \<and> cooked_on s = today) (rows (CookSession_objects d)))"
    by (simp add: CookSessionListView_get_queryset_def strip when_filter_def conj_commute)
  have l2: "CookSessionListView_get_queryset ic u [''when'' \<mapsto> ''week''] today d =
           Inr (filter (\<lambda>s. owned_q u s \<and> today < cooked_on s \<and> cooked_on s \<le> today + 7)
                  (rows (CookSession_objects d)))"
    by (simp add: CookSessionListView_get_queryset_def strip when_filter_def a7 conj_commute conj_left_commute)
  have l3: "CookSessionListView_get_queryset ic u [''when'' \<mapsto> ''month''] today d =
           Inr (filter (\<lambda>s. owned_q u s \<and> today < cooked_on s \<and> cooked_on s \<le> today + 30)
                  (rows (CookSession_objects d)))"
    by (simp add: CookSessionListView_get_queryset_def strip when_filter_def a30 conj_commute conj_left_commute)
  have l4: "CookSessionListView_get_queryset ic u [''when'' \<mapsto> ''past30''] today d =
           Inr (filter (\<lambda>s. owned_q u s \<and> today - 30 \<le> cooked_on s \<and> cooked_on s \<le> today)
                  (rows (CookSession_objects d)))"
    by (simp add: CookSessionListView_get_queryset_def strip when_filter_def m30 conj_commute conj_left_commute)
  from counts labels l1 l2 l3 l4 show ?thesis by blast
qed

text \<open>
  Claim C6, an instance: on day 738000 user 1 sees session 1 (cooked that day) and the ownerless
  session 2 (cooked five days later).
\<close>

theorem dashboard_session_buckets_witness:
  "map_sum id (map bucket_count) (DashboardView_session_buckets ''/sessions/'' 1 738000 ex_db) =
     Inr [1, 1, 1, 1]
   \<and> map_sum id (map bucket_count) (DashboardView_session_buckets ''/sessions/'' 2 738000 ex_db) =
     Inr [0, 1, 1, 0]"
proof -
  have h1: "(30::int) < 738000" by simp
  have h2: "(738000::int) + 30 \<le> 3652059" by simp
  show ?thesis
    using dashboard_session_buckets [OF h1 h2, THEN conjunct1, of "''/sessions/''" 1 ex_db]
      dashboard_session_buckets [OF h1 h2, THEN conjunct1, of "''/sessions/''" 2 ex_db]
    by (simp add: ex_db_simps ex_session_def owned_q_def)
qed

section \<open>The original file name of a PDF document\<close>

lemma py_split_ne: "py_split c s \<noteq> []"
  by (induction s) (auto split: list.splits)

lemma py_split_no_sep: "c \<notin> set s \<Longrightarrow> py_split c s = [s]"
  by (induction s) auto

lemma py_split_sep: "c \<in> set s \<Longrightarrow> 2 \<le> length (py_split c s)"
proof (induction s)
  case Nil
  then show ?case by simp
next
  case (Cons x xs)
  show ?case
  proof (cases "x = c")
    case True
    have "1 \<le> length (py_split c xs)"
      using py_split_ne [of c xs] by (cases "py_split c xs") auto
    with True show ?thesis by simp
  next
    case False
    with Cons.prems have "c \<in> set xs" by simp
    then have "2 \<le> length (py_split c xs)" by (rule Cons.IH)
    with False show ?thesis by (cases "py_split c xs") auto
  qed
qed

lemma takeWhile_rev_snoc:
  "rev (takeWhile P (rev (x # xs))) =
     (if \<forall>y \<in> set xs. P y then (if P x then x # xs else xs) else rev (takeWhile P (rev xs)))"
  by (simp add: takeWhile_append)

lemma last_py_split: "last (py_split c s) = rev (takeWhile (\<lambda>x. x \<noteq> c) (rev s))"
proof (induction s)
  case Nil
  then show ?case by simp
next
  case (Cons x xs)
  show ?case
  proof (cases "x = c")
    case True
    then have "last (py_split c (x # xs)) = last (py_split c xs)"
      by (simp add: py_split_ne)
    also have "\<dots> = rev (takeWhile (\<lambda>x. x \<noteq> c) (rev xs))" by (rule Cons.IH)
    also have "\<dots> = rev (takeWhile (\<lambda>x. x \<noteq> c) (rev (x # xs)))"
      using True by (simp only: takeWhile_rev_snoc) (simp add: takeWhile_eq_all_conv [THEN iffD2])
    finally show ?thesis .
  next
    case False
    show ?thesis
    proof (cases "c \<in> set xs")
      case True
      then have "2 \<le> length (py_split c xs)" by (rule py_split_sep)
      then obtain s1 s2 ss where e: "py_split c xs = s1 # s2 # ss"
        by (cases "py_split c xs"; cases "tl (py_split c xs)") auto
      then have "last (py_split c (x # xs)) = last (py_split c xs)"
        using False by simp
      also have "\<dots> = rev (takeWhile (\<lambda>x. x \<noteq> c) (rev xs))" by (rule Cons.IH)
      also have "\<dots> = rev (takeWhile (\<lambda>x. x \<noteq> c) (rev (x # xs)))"
        using True by (simp only: takeWhile_rev_snoc) auto
      finally show ?thesis .
    next
      case notin: False
      then have A: "py_split c (x # xs) = [x # xs]"
        using False by (intro py_split_no_sep) simp
      have B: "rev (takeWhile (\<lambda>x. x \<noteq> c) (rev (x # xs))) = x # xs"
        using notin False by (simp only: takeWhile_rev_snoc) auto
      show ?thesis unfolding A B by simp
    qed
  qed
qed

text \<open>
  What follows the last slash has no slash, and the name is a prefix that is empty or ends
  in a slash, then that piece.
\<close>

lemma final_segment_props:
  "CHR ''/'' \<notin> set (final_segment s)
   \<and> (\<exists>pre. s = pre @ final_segment s \<and> (pre = [] \<or> last pre = CHR ''/''))"
proof -
  let ?P = "\<lambda>c. c \<noteq> CHR ''/''"
  have 1: "CHR ''/'' \<notin> set (final_segment s)"
    using set_takeWhileD [of "CHR ''/''" ?P "rev s"] by (auto simp: final_segment_def)
  have "rev s = takeWhile ?P (rev s) @ dropWhile ?P (rev s)" by simp
  then have "s = rev (dropWhile ?P (rev s)) @ rev (takeWhile ?P (rev s))"
    by (metis rev_append rev_rev_ident)
  moreover have "dropWhile ?P (rev s) = [] \<or> last (rev (dropWhile ?P (rev s))) = CHR ''/''"
    using hd_dropWhile [of ?P "rev s"] by (auto simp: last_rev)
  ultimately have "s = rev (dropWhile ?P (rev s)) @ final_segment s
      \<and> (rev (dropWhile ?P (rev s)) = [] \<or> last (rev (dropWhile ?P (rev s))) = CHR ''/'')"
    by (simp add: final_segment_def)
  then have "\<exists>pre. s = pre @ final_segment s \<and> (pre = [] \<or> last pre = CHR ''/'')" by blast
  with 1 show ?thesis by blast
qed

lemma model_save_fst:
  "fst (model_save now obj t) =
     obj\<lparr>updated_at := now, pk := (case pk obj of None \<Rightarrow> Some (seq t + 1) | Some k \<Rightarrow> Some k)\<rparr>"
  by (cases "pk obj") (simp_all add: model_save_def Let_def)

lemma model_save_mem: "fst (model_save now obj t) \<in> set (rows (snd (model_save now obj t)))"
proof (cases "pk obj")
  case None
  then show ?thesis by (simp add: model_save_def Let_def)
next
  case (Some k)
  show ?thesis
  proof (cases "list_ex (\<lambda>r. pk r = Some k) (rows t)")
    case True
    then obtain r where "r \<in> set (rows t)" "pk r = Some k" by (auto simp: list_ex_iff)
    then have "obj\<lparr>updated_at := now\<rparr> \<in> (\<lambda>r. if pk r = Some k then obj\<lparr>updated_at := now\<rparr> else r) ` set (rows t)"
      by (intro image_eqI [where x = r]) simp_all
    with Some True show ?thesis by (simp add: model_save_def Let_def)
  next
    case False
    with Some show ?thesis by (simp add: model_save_def Let_def)
  qed
qed

lemma PDFDocument_super_save_ok:
  assumes "\<not> list_ex (\<lambda>r. pk r \<noteq> pk obj \<and> pdf_uuid r = pdf_uuid obj) (rows (PDFDocument_objects d))"
  shows "\<exists>saved d'. PDFDocument_super_save storage now obj d = (Inr saved, d')
           \<and> saved \<in> set (rows (PDFDocument_objects d'))
           \<and> original_filename saved = original_filename obj"
proof -
  let ?o1 = "obj\<lparr>pdf := file_pre_save storage (cooking_companion_pdf_upload_to obj) (pdf obj)\<rparr>"
  let ?r = "model_save now ?o1 (PDFDocument_objects d)"
  have e: "PDFDocument_super_save storage now obj d = (Inr (fst ?r), d\<lparr>PDFDocument_objects := snd ?r\<rparr>)"
    using assms by (simp add: PDFDocument_super_save_def Let_def split_beta)
  have m: "fst ?r \<in> set (rows (PDFDocument_objects (d\<lparr>PDFDocument_objects := snd ?r\<rparr>)))"
    using model_save_mem [of now ?o1 "PDFDocument_objects d"] by simp
  have f: "original_filename (fst ?r) = original_filename obj"
    by (simp add: model_save_fst)
  from e m f show ?thesis by blast
qed

lemma PDFDocument_super_save_Inr:
  "PDFDocument_super_save storage now obj d = (Inr saved, d') \<Longrightarrow>
     original_filename saved = original_filename obj"
  by (auto simp: PDFDocument_super_save_def Let_def split_beta model_save_fst split: if_splits)

text \<open>
  Claim C8. Saving a PDF document whose uuid no other row has succeeds and stores the
  instance. When the instance has a file and a blank original file name, the stored name is
  the last piece of \<^verbatim>\<open>pdf.name.split("/")\<close>, which is what follows the last slash of
  the file's name; otherwise (no file, or an original file name that is not blank) the
  original file name is stored as it is. A later save of an instance whose original file
  name is not blank keeps it, whatever the name of the file has become.
\<close>

theorem pdf_original_filename_once:
  assumes "\<not> list_ex (\<lambda>r. pk r \<noteq> pk self \<and> pdf_uuid r = pdf_uuid self) (rows (PDFDocument_objects d))"
  shows "\<exists>saved d'. PDFDocument_save storage now self d = (Inr saved, d')
           \<and> saved \<in> set (rows (PDFDocument_objects d'))
           \<and> (if file_name (pdf self) \<noteq> [] \<and> original_filename self = []
               then original_filename saved = last (py_split (CHR ''/'') (file_name (pdf self)))
                    \<and> original_filename saved = final_segment (file_name (pdf self))
               else original_filename saved = original_filename self)
           \<and> (\<forall>storage2 now2 saved2 d2.
                 original_filename saved \<noteq> [] \<and>
                 PDFDocument_save storage2 now2 saved d' = (Inr saved2, d2) \<longrightarrow>
                 original_filename saved2 = original_filename saved)"
proof -
  let ?s1 = "PDFDocument_set_original_filename self"
  have u: "pk ?s1 = pk self" "pdf_uuid ?s1 = pdf_uuid self"
    by (simp_all add: PDFDocument_set_original_filename_def)
  have "\<not> list_ex (\<lambda>r. pk r \<noteq> pk ?s1 \<and> pdf_uuid r = pdf_uuid ?s1) (rows (PDFDocument_objects d))"
    using assms by (simp add: u)
  then obtain saved d' where
    e: "PDFDocument_super_save storage now ?s1 d = (Inr saved, d')"
    and m: "saved \<in> set (rows (PDFDocument_objects d'))"
    and f: "original_filename saved = original_filename ?s1"
    using PDFDocument_super_save_ok [of ?s1 d storage now] by blast
  have e': "PDFDocument_save storage now self d = (Inr saved, d')"
    using e by (simp add: PDFDocument_save_def)
  have n: "if file_name (pdf self) \<noteq> [] \<and> original_filename self = []
           then original_filename saved = last (py_split (CHR ''/'') (file_name (pdf self)))
                \<and> original_filename saved = final_segment (file_name (pdf self))
           else original_filename saved = original_filename self"
    using f by (auto simp: PDFDocument_set_original_filename_def last_py_split final_segment_def)
  have later: "original_filename saved2 = original_filename saved"
    if "original_filename saved \<noteq> []"
      and "PDFDocument_save storage2 now2 saved d' = (Inr saved2, d2)"
    for storage2 now2 saved2 d2
  proof -
    from that(1) have "PDFDocument_set_original_filename saved = saved"
      by (simp add: PDFDocument_set_original_filename_def)
    with that(2) have "PDFDocument_super_save storage2 now2 saved d' = (Inr saved2, d2)"
      by (simp add: PDFDocument_save_def)
    then show ?thesis by (rule PDFDocument_super_save_Inr)
  qed
  from e' m n later show ?thesis by blast
qed

text \<open>
  Claim C8, an instance: a new document with the file \<^verbatim>\<open>uploads/tmp/card.pdf\<close> and no original
  file name is saved into the empty database.
\<close>

theorem pdf_original_filename_once_witness:
  "original_filename (projr (fst (PDFDocument_save (\<lambda>n. n) 5 (ex_pdf ''uploads/tmp/card.pdf'' []) empty_db)))
     = ''card.pdf''
   \<and> file_name (pdf (projr (fst (PDFDocument_save (\<lambda>n. n) 5 (ex_pdf ''uploads/tmp/card.pdf'' []) empty_db))))
     = ''cooking-companion/pdfs/u1/uploads/tmp/card.pdf''"
proof -
  have h: "\<not> list_ex (\<lambda>r. pk r \<noteq> pk (ex_pdf ''uploads/tmp/card.pdf'' [])
                         \<and> pdf_uuid r = pdf_uuid (ex_pdf ''uploads/tmp/card.pdf'' []))
               (rows (PDFDocument_objects empty_db))"
    by (simp add: empty_db_def empty_table_def)
  obtain saved d' where
    e: "PDFDocument_save (\<lambda>n. n) 5 (ex_pdf ''uploads/tmp/card.pdf'' []) empty_db = (Inr saved, d')"
    and f: "if file_name (pdf (ex_pdf ''uploads/tmp/card.pdf'' [])) \<noteq> []
               \<and> original_filename (ex_pdf ''uploads/tmp/card.pdf'' []) = []
            then original_filename saved = last (py_split (CHR ''/'') (file_name (pdf (ex_pdf ''uploads/tmp/card.pdf'' []))))
                 \<and> original_filename saved = final_segment (file_name (pdf (ex_pdf ''uploads/tmp/card.pdf'' [])))
            else original_filename saved = original_filename (ex_pdf ''uploads/tmp/card.pdf'' [])"
    using pdf_original_filename_once [OF h, of "\<lambda>n. n" 5] by blast
  have 1: "original_filename saved = ''card.pdf''"
    using f by (simp add: ex_pdf_def)
  have 2: "file_name (pdf saved) = ''cooking-companion/pdfs/u1/uploads/tmp/card.pdf''"
    using e by (auto simp: PDFDocument_save_def PDFDocument_super_save_def
        PDFDocument_set_original_filename_def ex_pdf_def empty_db_def empty_table_def
        model_save_def file_pre_save_def cooking_companion_pdf_upload_to_def Let_def)
  from e 1 2 show ?thesis by simp
qed

section \<open>The result-edit endpoint\<close>

lemma results_of_session_mem:
  "results_of_session k d = [r] \<Longrightarrow> r \<in> set (rows (CookResult_objects d)) \<and> cook_session_id r = k"
proof -
  assume "results_of_session k d = [r]"
  then have "r \<in> set (filter (\<lambda>r. cook_session_id r = k) (rows (CookResult_objects d)))"
    by (simp add: results_of_session_def)
  then show ?thesis by simp
qed

lemma results_of_session_only:
  "results_of_session k d = [r] \<Longrightarrow> x \<in> set (rows (CookResult_objects d)) \<Longrightarrow>
     cook_session_id x = k \<Longrightarrow> x = r"
proof -
  assume a: "results_of_session k d = [r]" and "x \<in> set (rows (CookResult_objects d))"
    and "cook_session_id x = k"
  then have "x \<in> set (filter (\<lambda>r. cook_session_id r = k) (rows (CookResult_objects d)))" by simp
  with a show ?thesis by (simp add: results_of_session_def)
qed

lemma get_or_create_existing:
  assumes "pk cs = Some k" and "results_of_session k d = [r]"
  shows "CookResult_get_or_create now cs u d = (Inr (r, False), d)"
  using assms by (simp add: CookResult_get_or_create_def qs_get_def results_of_session_def)

lemma CookResult_save_new:
  assumes "results_of_session k d = []" and "pk obj = None" and "cook_session_id obj = k"
    and "fk_exists k (rows (CookSession_objects d))"
  shows "CookResult_save now obj d =
           (Inr (obj\<lparr>pk := Some (seq (CookResult_objects d) + 1), updated_at := now\<rparr>),
            d\<lparr>CookResult_objects := (CookResult_objects d)
                 \<lparr>rows := rows (CookResult_objects d)
                            @ [obj\<lparr>pk := Some (seq (CookResult_objects d) + 1), updated_at := now\<rparr>],
                  seq := seq (CookResult_objects d) + 1\<rparr>\<rparr>)"
proof -
  have "\<not> list_ex (\<lambda>r. pk r \<noteq> pk obj \<and> cook_session_id r = cook_session_id obj)
           (rows (CookResult_objects d))"
    using assms(1,3) by (auto simp: results_of_session_def list_ex_iff filter_empty_conv)
  then show ?thesis
    using assms(2,3,4) by (simp add: CookResult_save_def model_save_def Let_def)
qed

lemma get_or_create_new:
  assumes "pk cs = Some k" and "results_of_session k d = []"
    and "fk_exists k (rows (CookSession_objects d))"
  shows "CookResult_get_or_create now cs u d =
           (Inr ((CookResult_new now k (Some u))\<lparr>pk := Some (seq (CookResult_objects d) + 1)\<rparr>, True),
            d\<lparr>CookResult_objects := (CookResult_objects d)
                 \<lparr>rows := rows (CookResult_objects d)
                            @ [(CookResult_new now k (Some u))\<lparr>pk := Some (seq (CookResult_objects d) + 1)\<rparr>],
                  seq := seq (CookResult_objects d) + 1\<rparr>\<rparr>)"
proof -
  have n: "qs_get (\<lambda>r. cook_session_id r = k) (rows (CookResult_objects d)) = Inl DoesNotExist"
    using assms(2) by (simp add: qs_get_def results_of_session_def)
  have p: "pk (CookResult_new now k (Some u)) = None"
    "cook_session_id (CookResult_new now k (Some u)) = k"
    "(CookResult_new now k (Some u))\<lparr>pk := x, updated_at := now\<rparr> = (CookResult_new now k (Some u))\<lparr>pk := x\<rparr>" for x
    by (simp_all add: CookResult_new_def)
  show ?thesis
    using assms(1) by (simp add: CookResult_get_or_create_def n CookResult_save_new [OF assms(2) p(1) p(2) assms(3)] p(3))
qed

lemma CookResult_save_existing:
  assumes "results_of_session k d = [r]" and "pk r = Some j" and "pk obj = Some j"
    and "cook_session_id obj = k" and "fk_exists k (rows (CookSession_objects d))"
  shows "CookResult_save now obj d =
           (Inr (obj\<lparr>updated_at := now\<rparr>),
            d\<lparr>CookResult_objects := (CookResult_objects d)
                 \<lparr>rows := map (\<lambda>x. if pk x = Some j then obj\<lparr>updated_at := now\<rparr> else x)
                            (rows (CookResult_objects d))\<rparr>\<rparr>)"
proof -
  have "\<not> list_ex (\<lambda>x. pk x \<noteq> pk obj \<and> cook_session_id x = cook_session_id obj)
           (rows (CookResult_objects d))"
    using results_of_session_only [OF assms(1)] assms(2,3,4) by (auto simp: list_ex_iff)
  moreover have "list_ex (\<lambda>x. pk x = Some j) (rows (CookResult_objects d))"
    using results_of_session_mem [OF assms(1)] assms(2) by (auto simp: list_ex_iff)
  ultimately show ?thesis
    using assms(3,4,5) by (simp add: CookResult_save_def model_save_def Let_def)
qed

lemma construct_keeps:
  "pk (CookResultForm_construct cleaned r) = pk r"
  "cook_session_id (CookResultForm_construct cleaned r) = cook_session_id r"
  "created_by (CookResultForm_construct cleaned r) = created_by r"
  "created_at (CookResultForm_construct cleaned r) = created_at r"
  by (simp_all add: CookResultForm_construct_def)

text \<open>
  A request for a session that the user sees and that has a result: what the endpoint does
  with the result, whoever created it.
\<close>

lemma result_edit_existing:
  assumes "get_object_or_404 (filter (owned_q u) (rows (CookSession_objects d))) k = Inr cs"
    and "results_of_session k d = [r]" and "pk r = Some j"
  shows "CookResultCreateUpdateView u k GET now d = (Inr (TemplateResponse r), d)
       \<and> CookResultCreateUpdateView u k (POST None) now d = (Inr (TemplateResponse r), d)
       \<and> CookResultCreateUpdateView u k (POST (Some cleaned)) now d =
           (Inr (HttpResponseRedirect (cooksession_detail (Some k))),
            d\<lparr>CookResult_objects := (CookResult_objects d)
                 \<lparr>rows := map (\<lambda>x. if pk x = Some j
                                     then (CookResultForm_construct cleaned r)\<lparr>updated_at := now\<rparr> else x)
                            (rows (CookResult_objects d))\<rparr>\<rparr>)
       \<and> created_by ((CookResultForm_construct cleaned r)\<lparr>updated_at := now\<rparr>) = created_by r"
proof -
  have pkcs: "pk cs = Some k"
    using assms(1) by (simp add: get_object_or_404_mem)
  have goc: "CookResult_get_or_create now cs u d = (Inr (r, False), d)"
    using pkcs assms(2) by (rule get_or_create_existing)
  have kr: "cook_session_id r = k"
    using assms(2) by (simp add: results_of_session_mem)
  have fk: "fk_exists k (rows (CookSession_objects d))"
    using assms(1) by (rule lookup_fk_exists)
  have sv: "CookResult_save now (CookResultForm_construct cleaned r) d =
           (Inr ((CookResultForm_construct cleaned r)\<lparr>updated_at := now\<rparr>),
            d\<lparr>CookResult_objects := (CookResult_objects d)
                 \<lparr>rows := map (\<lambda>x. if pk x = Some j
                                     then (CookResultForm_construct cleaned r)\<lparr>updated_at := now\<rparr> else x)
                            (rows (CookResult_objects d))\<rparr>\<rparr>)"
    using assms(2,3) kr fk by (intro CookResult_save_existing) (simp_all add: construct_keeps)
  have 1: "CookResultCreateUpdateView u k GET now d = (Inr (TemplateResponse r), d)"
    by (simp add: CookResultCreateUpdateView_def assms(1) goc)
  have 2: "CookResultCreateUpdateView u k (POST None) now d = (Inr (TemplateResponse r), d)"
    by (simp add: CookResultCreateUpdateView_def assms(1) goc)
  have 3: "CookResultCreateUpdateView u k (POST (Some cleaned)) now d =
           (Inr (HttpResponseRedirect (cooksession_detail (Some k))),
            d\<lparr>CookResult_objects := (CookResult_objects d)
                 \<lparr>rows := map (\<lambda>x. if pk x = Some j
                                     then (CookResultForm_construct cleaned r)\<lparr>updated_at := now\<rparr> else x)
                            (rows (CookResult_objects d))\<rparr>\<rparr>)"
    by (simp add: CookResultCreateUpdateView_def assms(1) goc sv construct_keeps kr)
  have 4: "created_by ((CookResultForm_construct cleaned r)\<lparr>updated_at := now\<rparr>) = created_by r"
    by (simp add: construct_keeps)
  from 1 2 3 4 show ?thesis by blast
qed

text \<open>
  Claim C10. The endpoint filters the cook sessions by the ownership predicate and nothing
  else: when the session passes the requesting user's filter and has a result, GET and a
  POST that does not validate serve the form of that result and change nothing, and a valid
  POST stores the form's fields in that result and redirects to the session. Nothing is
  asked of the result's created_by, which may be any user, and the edit leaves it as it is.
\<close>

theorem result_edit_ignores_result_owner:
  assumes "get_object_or_404 (filter (owned_q u) (rows (CookSession_objects d))) k = Inr cs"
    and "results_of_session k d = [r]" and "pk r = Some j"
  shows "CookResultCreateUpdateView u k GET now d = (Inr (TemplateResponse r), d)
       \<and> CookResultCreateUpdateView u k (POST None) now d = (Inr (TemplateResponse r), d)
       \<and> CookResultCreateUpdateView u k (POST (Some cleaned)) now d =
           (Inr (HttpResponseRedirect (cooksession_detail (Some k))),
            d\<lparr>CookResult_objects := (CookResult_objects d)
                 \<lparr>rows := map (\<lambda>x. if pk x = Some j
                                     then (CookResultForm_construct cleaned r)\<lparr>updated_at := now\<rparr> else x)
                            (rows (CookResult_objects d))\<rparr>\<rparr>)
       \<and> created_by ((CookResultForm_construct cleaned r)\<lparr>updated_at := now\<rparr>) = created_by r"
  using assms by (rule result_edit_existing)

lemma ex_db_with_result_simps:
  "rows (CookSession_objects ex_db_with_result) = rows (CookSession_objects ex_db)"
  "rows (CookResult_objects ex_db_with_result) = [ex_result 1 (Some 1) 2 ''experiment'']"
  by (simp_all add: ex_db_with_result_def)

text \<open>
  Claim C10, an instance: session 2 has no owner and its result is user 1's; user 2 is served that
  result, and user 2's valid POST stores the outcome in it.
\<close>

theorem result_edit_ignores_result_owner_witness:
  "created_by (ex_result 1 (Some 1) 2 ''experiment'') = Some 1
   \<and> CookResultCreateUpdateView 2 2 GET 20 ex_db_with_result =
       (Inr (TemplateResponse (ex_result 1 (Some 1) 2 ''experiment'')), ex_db_with_result)
   \<and> rows (CookResult_objects
        (snd (CookResultCreateUpdateView 2 2 (POST (Some (ex_result 0 None 0 ''good''))) 20
                ex_db_with_result))) =
       [(ex_result 1 (Some 1) 2 ''good'')\<lparr>updated_at := 20\<rparr>]"
proof -
  have h1: "get_object_or_404 (filter (owned_q 2) (rows (CookSession_objects ex_db_with_result))) 2
              = Inr (ex_session 2 None 2 (Some 1) 738005)"
    by (simp add: ex_db_with_result_simps ex_db_simps get_object_or_404_def qs_get_def
        owned_q_def ex_session_def)
  have h2: "results_of_session 2 ex_db_with_result = [ex_result 1 (Some 1) 2 ''experiment'']"
    by (simp add: results_of_session_def ex_db_with_result_simps ex_result_def)
  have h3: "pk (ex_result 1 (Some 1) 2 ''experiment'') = Some 1"
    by (simp add: ex_result_def)
  have c: "(CookResultForm_construct (ex_result 0 None 0 ''good'') (ex_result 1 (Some 1) 2 ''experiment''))
             = ex_result 1 (Some 1) 2 ''good''"
    by (simp add: CookResultForm_construct_def ex_result_def)
  show ?thesis
    using result_edit_ignores_result_owner [OF h1 h2 h3, of 20 "ex_result 0 None 0 ''good''"]
    by (simp add: c ex_db_with_result_simps) (simp add: ex_result_def)
qed

section \<open>Get or create, any number of times\<close>

lemma length_results_of_session:
  "length (results_of_session k d) =
     length (filter (\<lambda>c. c = k) (map cook_session_id (rows (CookResult_objects d))))"
  by (simp add: results_of_session_def filter_map comp_def)

lemma distinct_filter_eq_le1: "distinct xs \<Longrightarrow> length (filter (\<lambda>c. c = k) xs) \<le> 1"
  by (induction xs) (auto simp: filter_empty_conv)

lemma results_of_session_cases:
  assumes "one_result_per_session d"
  shows "results_of_session k d = [] \<or> (\<exists>r. results_of_session k d = [r])"
proof -
  have "length (filter (\<lambda>c. c = k) (map cook_session_id (rows (CookResult_objects d)))) \<le> 1"
    using assms by (intro distinct_filter_eq_le1) (simp add: one_result_per_session_def)
  then have "length (results_of_session k d) \<le> 1"
    by (simp only: length_results_of_session)
  then show ?thesis
    by (cases "results_of_session k d"; cases "tl (results_of_session k d)") auto
qed

lemma table_ok_pk:
  "table_ok t \<Longrightarrow> r \<in> set (rows t) \<Longrightarrow> \<exists>j. pk r = Some j \<and> j \<le> seq t"
  by (auto simp: table_ok_def list_all_iff split: option.splits)

lemma table_ok_same_pk:
  "table_ok t \<Longrightarrow> x \<in> set (rows t) \<Longrightarrow> y \<in> set (rows t) \<Longrightarrow> pk x = pk y \<Longrightarrow> x = y"
  by (auto simp: table_ok_def distinct_map dest: inj_onD)

lemma table_ok_cols:
  "table_ok t \<longleftrightarrow>
     distinct (map pk (rows t))
     \<and> list_all (\<lambda>p. case p of None \<Rightarrow> False | Some k \<Rightarrow> k \<le> seq t) (map pk (rows t))"
  by (simp add: table_ok_def list_all_iff)

text \<open>A replaced row keeps the two key columns of the table when it keeps its own.\<close>

lemma update_cols:
  assumes "table_ok t" and "r \<in> set (rows t)" and "pk r = Some j"
    and "pk obj = Some j" and "cook_session_id obj = cook_session_id r"
  shows "map pk (map (\<lambda>x. if pk x = Some j then obj else x) (rows t)) = map pk (rows t)"
    and "map cook_session_id (map (\<lambda>x. if pk x = Some j then obj else x) (rows t))
           = map cook_session_id (rows t)"
proof -
  show "map pk (map (\<lambda>x. if pk x = Some j then obj else x) (rows t)) = map pk (rows t)"
    using assms(4) by (simp add: comp_def cong: map_cong)
  have "cook_session_id (if pk x = Some j then obj else x) = cook_session_id x"
    if "x \<in> set (rows t)" for x
  proof (cases "pk x = Some j")
    case True
    with assms(1,2,3) that have "x = r" by (intro table_ok_same_pk [of t x r]) simp_all
    with True assms(5) show ?thesis by simp
  next
    case False
    then show ?thesis by simp
  qed
  then show "map cook_session_id (map (\<lambda>x. if pk x = Some j then obj else x) (rows t))
           = map cook_session_id (rows t)"
    by (simp add: comp_def cong: map_cong)
qed

text \<open>
  What one request does to the key columns of the result table: it appends a row for the
  session when the user sees the session and the session has no result, and changes nothing
  otherwise. The sessions stay as they are.
\<close>

lemma result_edit_step:
  fixes u :: user and k :: int and req :: "cook_result request" and now :: datetime and d :: db
  assumes ok: "table_ok (CookResult_objects d)" and one: "one_result_per_session d"
  defines "d' \<equiv> snd (CookResultCreateUpdateView u k req now d)"
  shows "CookSession_objects d' = CookSession_objects d"
    and "map pk (rows (CookResult_objects d')) =
           (if session_visible u k d \<and> results_of_session k d = []
            then map pk (rows (CookResult_objects d)) @ [Some (seq (CookResult_objects d) + 1)]
            else map pk (rows (CookResult_objects d)))"
    and "map cook_session_id (rows (CookResult_objects d')) =
           (if session_visible u k d \<and> results_of_session k d = []
            then map cook_session_id (rows (CookResult_objects d)) @ [k]
            else map cook_session_id (rows (CookResult_objects d)))"
    and "seq (CookResult_objects d') =
           (if session_visible u k d \<and> results_of_session k d = []
            then seq (CookResult_objects d) + 1 else seq (CookResult_objects d))"
proof -
  let ?look = "get_object_or_404 (filter (owned_q u) (rows (CookSession_objects d))) k"
  let ?G = "CookSession_objects d' = CookSession_objects d
    \<and> map pk (rows (CookResult_objects d')) =
           (if session_visible u k d \<and> results_of_session k d = []
            then map pk (rows (CookResult_objects d)) @ [Some (seq (CookResult_objects d) + 1)]
            else map pk (rows (CookResult_objects d)))
    \<and> map cook_session_id (rows (CookResult_objects d')) =
           (if session_visible u k d \<and> results_of_session k d = []
            then map cook_session_id (rows (CookResult_objects d)) @ [k]
            else map cook_session_id (rows (CookResult_objects d)))
    \<and> seq (CookResult_objects d') =
           (if session_visible u k d \<and> results_of_session k d = []
            then seq (CookResult_objects d) + 1 else seq (CookResult_objects d))"
  have ?G
  proof (cases ?look)
    case (Inl e)
    then have "d' = d" "\<not> session_visible u k d"
      by (simp_all add: d'_def CookResultCreateUpdateView_def session_visible_def)
    then show ?thesis by simp
  next
    case (Inr cs)
    then have vis: "session_visible u k d" by (simp add: session_visible_def)
    have pkcs: "pk cs = Some k" using Inr by (simp add: get_object_or_404_mem)
    have fk: "fk_exists k (rows (CookSession_objects d))" using Inr by (rule lookup_fk_exists)
    from results_of_session_cases [OF one, of k] show ?thesis
    proof
      assume none: "results_of_session k d = []"
      let ?new = "(CookResult_new now k (Some u))\<lparr>pk := Some (seq (CookResult_objects d) + 1)\<rparr>"
      let ?d1 = "d\<lparr>CookResult_objects := (CookResult_objects d)
                 \<lparr>rows := rows (CookResult_objects d) @ [?new],
                  seq := seq (CookResult_objects d) + 1\<rparr>\<rparr>"
      have goc: "CookResult_get_or_create now cs u d = (Inr (?new, True), ?d1)"
        using pkcs none fk by (rule get_or_create_new)
      have fk1: "fk_exists k (rows (CookSession_objects ?d1))" using fk by simp
      have new: "pk ?new = Some (seq (CookResult_objects d) + 1)" "cook_session_id ?new = k"
        by (simp_all add: CookResult_new_def)
      have ros1: "results_of_session k ?d1 = [?new]"
        using none new(2) by (simp add: results_of_session_def)
      have ok1: "table_ok (CookResult_objects ?d1)"
        using ok new(1) by (fastforce simp: table_ok_def list_all_iff split: option.splits)
      show ?thesis
      proof (cases req)
        case GET
        then have "d' = ?d1"
          by (simp add: d'_def CookResultCreateUpdateView_def Inr goc)
        then show ?thesis using vis none new by simp
      next
        case (POST payload)
        show ?thesis
        proof (cases payload)
          case None
          then have "d' = ?d1"
            using POST by (simp add: d'_def CookResultCreateUpdateView_def Inr goc)
          then show ?thesis using vis none new by simp
        next
          case (Some cleaned)
          let ?obj = "(CookResultForm_construct cleaned ?new)\<lparr>updated_at := now\<rparr>"
          let ?j = "seq (CookResult_objects d) + 1"
          let ?d2 = "?d1\<lparr>CookResult_objects := (CookResult_objects ?d1)
                 \<lparr>rows := map (\<lambda>x. if pk x = Some ?j then ?obj else x)
                            (rows (CookResult_objects ?d1))\<rparr>\<rparr>"
          have c: "pk (CookResultForm_construct cleaned ?new) = Some ?j"
            "cook_session_id (CookResultForm_construct cleaned ?new) = k"
            by (simp_all add: construct_keeps new)
          have sv: "CookResult_save now (CookResultForm_construct cleaned ?new) ?d1 = (Inr ?obj, ?d2)"
            by (rule CookResult_save_existing [OF ros1 new(1) c fk1])
          have e: "d' = ?d2"
            using POST Some by (simp add: d'_def CookResultCreateUpdateView_def Inr goc sv)
          have mem: "?new \<in> set (rows (CookResult_objects ?d1))" by simp
          have o: "pk ?obj = Some ?j" "cook_session_id ?obj = cook_session_id ?new"
            by (simp_all add: construct_keeps new)
          note cols = update_cols [OF ok1 mem new(1) o]
          have "map pk (rows (CookResult_objects ?d2)) = map pk (rows (CookResult_objects ?d1))"
            "map cook_session_id (rows (CookResult_objects ?d2)) = map cook_session_id (rows (CookResult_objects ?d1))"
            using cols by simp_all
          then show ?thesis using vis none new unfolding e by simp
        qed
      qed
    next
      assume "\<exists>r. results_of_session k d = [r]"
      then obtain r where r: "results_of_session k d = [r]" by blast
      then have mem: "r \<in> set (rows (CookResult_objects d))" and kr: "cook_session_id r = k"
        by (simp_all add: results_of_session_mem)
      from table_ok_pk [OF ok mem] obtain j where j: "pk r = Some j" by blast
      note v = result_edit_existing [OF Inr r j]
      show ?thesis
      proof (cases req)
        case GET
        then have "d' = d" using v by (simp add: d'_def)
        then show ?thesis using r by simp
      next
        case (POST payload)
        show ?thesis
        proof (cases payload)
          case None
          then have "d' = d" using v POST by (simp add: d'_def)
          then show ?thesis using r by simp
        next
          case (Some cleaned)
          let ?obj = "(CookResultForm_construct cleaned r)\<lparr>updated_at := now\<rparr>"
          let ?d2 = "d\<lparr>CookResult_objects := (CookResult_objects d)
                 \<lparr>rows := map (\<lambda>x. if pk x = Some j then ?obj else x)
                            (rows (CookResult_objects d))\<rparr>\<rparr>"
          have e: "d' = ?d2"
            using v [of now cleaned] POST Some by (simp add: d'_def)
          have o: "pk ?obj = Some j" "cook_session_id ?obj = cook_session_id r"
            by (simp_all add: construct_keeps j)
          note cols = update_cols [OF ok mem j o]
          have "map pk (rows (CookResult_objects ?d2)) = map pk (rows (CookResult_objects d))"
            "map cook_session_id (rows (CookResult_objects ?d2)) = map cook_session_id (rows (CookResult_objects d))"
            using cols by simp_all
          then show ?thesis using r unfolding e by simp
        qed
      qed
    qed
  qed
  then show "CookSession_objects d' = CookSession_objects d"
    and "map pk (rows (CookResult_objects d')) =
           (if session_visible u k d \<and> results_of_session k d = []
            then map pk (rows (CookResult_objects d)) @ [Some (seq (CookResult_objects d) + 1)]
            else map pk (rows (CookResult_objects d)))"
    and "map cook_session_id (rows (CookResult_objects d')) =
           (if session_visible u k d \<and> results_of_session k d = []
            then map cook_session_id (rows (CookResult_objects d)) @ [k]
            else map cook_session_id (rows (CookResult_objects d)))"
    and "seq (CookResult_objects d') =
           (if session_visible u k d \<and> results_of_session k d = []
            then seq (CookResult_objects d) + 1 else seq (CookResult_objects d))"
    by simp_all
qed

lemma session_visible_cong:
  "CookSession_objects d' = CookSession_objects d \<Longrightarrow> session_visible u k d' = session_visible u k d"
  by (simp add: session_visible_def)

lemma result_edit_step_inv:
  fixes u :: user and k :: int and req :: "cook_result request" and now :: datetime and d :: db
  assumes ok: "table_ok (CookResult_objects d)" and one: "one_result_per_session d"
  defines "d' \<equiv> snd (CookResultCreateUpdateView u k req now d)"
  shows "table_ok (CookResult_objects d')" and "one_result_per_session d'"
    and "CookSession_objects d' = CookSession_objects d"
    and "session_visible u k d \<or> length (results_of_session k d) = 1
           \<Longrightarrow> length (results_of_session k d') = 1"
proof -
  note st = result_edit_step [OF ok one, of u k req now, folded d'_def]
  have none_iff: "results_of_session k d = [] \<longleftrightarrow> k \<notin> set (map cook_session_id (rows (CookResult_objects d)))"
    by (auto simp: results_of_session_def filter_empty_conv)
  show "table_ok (CookResult_objects d')"
    using ok unfolding table_ok_cols st(2) st(4)
    by (auto simp: list_all_iff split: option.splits)
  show "one_result_per_session d'"
    using one unfolding one_result_per_session_def st(3) none_iff by auto
  show "CookSession_objects d' = CookSession_objects d" by (rule st(1))
  show "length (results_of_session k d') = 1"
    if "session_visible u k d \<or> length (results_of_session k d) = 1"
  proof (cases "results_of_session k d = []")
    case True
    with that have "session_visible u k d" by auto
    with True have "map cook_session_id (rows (CookResult_objects d')) =
        map cook_session_id (rows (CookResult_objects d)) @ [k]"
      by (simp add: st(3))
    moreover have "filter (\<lambda>c. c = k) (map cook_session_id (rows (CookResult_objects d))) = []"
      using True unfolding none_iff by (auto simp: filter_empty_conv)
    ultimately show ?thesis by (simp add: length_results_of_session)
  next
    case False
    then have "map cook_session_id (rows (CookResult_objects d')) =
        map cook_session_id (rows (CookResult_objects d))"
      by (simp add: st(3))
    then have "length (results_of_session k d') = length (results_of_session k d)"
      by (simp add: length_results_of_session)
    moreover have "length (results_of_session k d) = 1"
      using results_of_session_cases [OF one, of k] False by auto
    ultimately show ?thesis by simp
  qed
qed

lemma run_result_edit_one:
  assumes "table_ok (CookResult_objects d)" and "one_result_per_session d"
    and "\<forall>(u, req, now) \<in> set reqs. session_visible u k d"
    and "reqs \<noteq> [] \<or> length (results_of_session k d) = 1"
  shows "length (results_of_session k (run_result_edit k reqs d)) = 1"
  using assms
proof (induction reqs arbitrary: d)
  case Nil
  then show ?case by simp
next
  case (Cons x reqs)
  obtain u req now where x: "x = (u, req, now)" by (cases x) auto
  let ?d' = "snd (CookResultCreateUpdateView u k req now d)"
  note inv = result_edit_step_inv [OF Cons.prems(1,2), of u k req now]
  have vis: "session_visible u k d" using Cons.prems(3) x by simp
  have one: "length (results_of_session k ?d') = 1" using inv(4) vis by simp
  have rest: "\<forall>(u, req, now) \<in> set reqs. session_visible u k ?d'"
    using Cons.prems(3) by (auto simp: session_visible_cong [OF inv(3)])
  have "length (results_of_session k (run_result_edit k reqs ?d')) = 1"
    by (rule Cons.IH [OF inv(1) inv(2) rest disjI2 [OF one]])
  then show ?case by (simp add: x)
qed

text \<open>
  Claim C3. On a result table that is well formed (primary keys, one result per session),
  any sequence of one or more requests to the result-edit endpoint of a session, GET or
  POST, each by a user whose ownership filter the session passes, leaves exactly one result
  row for the session. When the session has no result yet, a GET creates one and serves its
  form: the new row is the last of the table, belongs to the session and to the requesting
  user, has the default outcome \<^verbatim>\<open>experiment\<close>, none of the four ratings, and the
  other defaults of the model.
\<close>

theorem result_edit_get_or_create:
  assumes "table_ok (CookResult_objects d)" and "one_result_per_session d"
    and "reqs \<noteq> []" and "\<forall>(u, req, now) \<in> set reqs. session_visible u k d"
  shows "length (results_of_session k (run_result_edit k reqs d)) = 1
       \<and> (session_visible v k d \<and> results_of_session k d = [] \<longrightarrow>
            (\<exists>obj d'. CookResultCreateUpdateView v k GET t d = (Inr (TemplateResponse obj), d')
               \<and> rows (CookResult_objects d') = rows (CookResult_objects d) @ [obj]
               \<and> results_of_session k d' = [obj]
               \<and> cook_session_id obj = k \<and> created_by obj = Some v
               \<and> outcome obj = ''experiment''
               \<and> overall_rating obj = None \<and> taste_rating obj = None
               \<and> texture_rating obj = None \<and> appearance_rating obj = None
               \<and> would_make_again obj = False
               \<and> what_worked obj = [] \<and> what_to_change obj = [] \<and> next_time_plan obj = []))"
proof -
  have 1: "length (results_of_session k (run_result_edit k reqs d)) = 1"
    using assms by (intro run_result_edit_one) simp_all
  have 2: "\<exists>obj d'. CookResultCreateUpdateView v k GET t d = (Inr (TemplateResponse obj), d')
               \<and> rows (CookResult_objects d') = rows (CookResult_objects d) @ [obj]
               \<and> results_of_session k d' = [obj]
               \<and> cook_session_id obj = k \<and> created_by obj = Some v
               \<and> outcome obj = ''experiment''
               \<and> overall_rating obj = None \<and> taste_rating obj = None
               \<and> texture_rating obj = None \<and> appearance_rating obj = None
               \<and> would_make_again obj = False
               \<and> what_worked obj = [] \<and> what_to_change obj = [] \<and> next_time_plan obj = []"
    if vis: "session_visible v k d" and none: "results_of_session k d = []"
  proof -
    from vis obtain cs where look: "get_object_or_404 (filter (owned_q v) (rows (CookSession_objects d))) k = Inr cs"
      by (auto simp: session_visible_def split: sum.splits)
    then have pkcs: "pk cs = Some k" by (simp add: get_object_or_404_mem)
    have fk: "fk_exists k (rows (CookSession_objects d))" using look by (rule lookup_fk_exists)
    let ?new = "(CookResult_new t k (Some v))\<lparr>pk := Some (seq (CookResult_objects d) + 1)\<rparr>"
    let ?d1 = "d\<lparr>CookResult_objects := (CookResult_objects d)
                 \<lparr>rows := rows (CookResult_objects d) @ [?new],
                  seq := seq (CookResult_objects d) + 1\<rparr>\<rparr>"
    have goc: "CookResult_get_or_create t cs v d = (Inr (?new, True), ?d1)"
      using pkcs none fk by (rule get_or_create_new)
    have a: "CookResultCreateUpdateView v k GET t d = (Inr (TemplateResponse ?new), ?d1)"
      by (simp add: CookResultCreateUpdateView_def look goc)
    have b: "rows (CookResult_objects ?d1) = rows (CookResult_objects d) @ [?new]" by simp
    have c: "results_of_session k ?d1 = [?new]"
      using none by (simp add: results_of_session_def CookResult_new_def)
    have e: "cook_session_id ?new = k \<and> created_by ?new = Some v
               \<and> outcome ?new = ''experiment''
               \<and> overall_rating ?new = None \<and> taste_rating ?new = None
               \<and> texture_rating ?new = None \<and> appearance_rating ?new = None
               \<and> would_make_again ?new = False
               \<and> what_worked ?new = [] \<and> what_to_change ?new = [] \<and> next_time_plan ?new = []"
      by (simp add: CookResult_new_def)
    from a b c e show ?thesis by blast
  qed
  from 1 2 show ?thesis by blast
qed

lemma ex_db_results_ok:
  "table_ok (CookResult_objects ex_db)" "one_result_per_session ex_db"
  "results_of_session 2 ex_db = []"
  by (simp_all add: table_ok_def one_result_per_session_def results_of_session_def ex_db_simps)

lemma ex_db_session_visible: "session_visible 1 2 ex_db" "session_visible 2 2 ex_db"
  by (simp_all add: session_visible_def get_object_or_404_def qs_get_def ex_db_simps
      ex_session_def owned_q_def)

text \<open>
  Claim C3, an instance: session 2 of the example database has no owner and no result; user 1 opens
  its result, user 2 posts an outcome, user 1 opens it again.
\<close>

theorem result_edit_get_or_create_witness:
  "length (results_of_session 2
      (run_result_edit 2 [(1, GET, 10), (2, POST (Some (ex_result 0 None 0 ''good'')), 20), (1, GET, 30)]
         ex_db)) = 1
   \<and> fst (CookResultCreateUpdateView 1 2 GET 10 ex_db) \<noteq> Inl Http404"
proof -
  have h3: "[(1, GET, 10), (2, POST (Some (ex_result 0 None 0 ''good'')), 20), (1::int, GET, 30::int)] \<noteq> []"
    by simp
  have h4: "\<forall>(u, req, now) \<in> set [(1, GET, 10), (2, POST (Some (ex_result 0 None 0 ''good'')), 20), (1::int, GET, 30::int)].
              session_visible u 2 ex_db"
    by (simp add: ex_db_session_visible)
  note t = result_edit_get_or_create [OF ex_db_results_ok(1) ex_db_results_ok(2) h3 h4, of 1 10]
  from t have "length (results_of_session 2
      (run_result_edit 2 [(1, GET, 10), (2, POST (Some (ex_result 0 None 0 ''good'')), 20), (1, GET, 30)]
         ex_db)) = 1" by blast
  moreover from t ex_db_session_visible(1) ex_db_results_ok(3)
  have "fst (CookResultCreateUpdateView 1 2 GET 10 ex_db) \<noteq> Inl Http404" by auto
  ultimately show ?thesis by blast
qed

section \<open>Editing a record without owner\<close>

lemma model_save_update:
  assumes "pk obj = Some k" and "list_ex (\<lambda>r. pk r = Some k) (rows t)"
  shows "model_save now obj t =
           (obj\<lparr>updated_at := now\<rparr>,
            t\<lparr>rows := map (\<lambda>r. if pk r = Some k then obj\<lparr>updated_at := now\<rparr> else r) (rows t)\<rparr>)"
  using assms by (simp add: model_save_def Let_def)

lemma OwnedUpdateView_valid_post:
  assumes "get_object_or_404 (OwnedQuerysetMixin_get_queryset u objects) k = Inr r"
    and "is_valid cleaned"
    and "save (OwnedQuerysetMixin_stamp u (construct cleaned r)) d = (Inr obj, d')"
  shows "OwnedUpdateView objects is_valid construct save success u k (POST (Some cleaned)) d =
           (Inr (HttpResponseRedirect (success (pk obj))), d')"
  using assms by (simp add: OwnedUpdateView_def)

text \<open>After the row of a key has been replaced by a row of user u, another user's lookup of the key is a 404.\<close>

lemma replaced_row_hidden:
  assumes "b \<noteq> u" and "created_by obj = Some u"
  shows "get_object_or_404
           (filter (owned_q b) (map (\<lambda>x. if pk x = Some k then obj else x) objects)) k = Inl Http404"
proof -
  have "filter (\<lambda>x. pk x = Some k)
          (filter (owned_q b) (map (\<lambda>x. if pk x = Some k then obj else x) objects)) = []"
    using assms by (auto simp: filter_empty_conv owned_q_def)
  then show ?thesis by (rule get_object_or_404_Http404)
qed

lemma replaced_row_owner:
  assumes "created_by obj = Some u"
  shows "\<forall>x \<in> set (map (\<lambda>x. if pk x = Some k then obj else x) objects).
           pk x = Some k \<longrightarrow> created_by x = Some u"
  using assms by auto

lemma replaced_row_mem:
  assumes "list_ex (\<lambda>x. pk x = Some k) objects"
  shows "obj \<in> set (map (\<lambda>x. if pk x = Some k then obj else x) objects)"
proof -
  from assms obtain r where "r \<in> set objects" "pk r = Some k" by (auto simp: list_ex_iff)
  then show ?thesis by (auto intro!: image_eqI [where x = r])
qed

text \<open>A form that validates has chosen its foreign keys among rows of the database.\<close>

lemma DishForm_valid_fk:
  assumes "DishForm_is_valid u d cleaned"
  shows "fk_null_or_exists (default_recipe_id cleaned) (rows (Recipe_objects d))"
  using assms
  by (auto simp: DishForm_is_valid_def fk_null_or_exists_def fk_exists_def list_ex_iff
      split: option.splits)

lemma CookSessionForm_valid_fk:
  assumes "CookSessionForm_is_valid u d cleaned"
  shows "fk_exists (dish_id cleaned) (rows (Dish_objects d))"
    and "fk_null_or_exists (recipe_used_id cleaned) (rows (Recipe_objects d))"
  using assms
  by (auto simp: CookSessionForm_is_valid_def fk_null_or_exists_def fk_exists_def list_ex_iff
      split: option.splits)

lemma Recipe_edit_unowned:
  assumes look: "get_object_or_404 (filter (owned_q u) (rows (Recipe_objects d))) k = Inr r"
    and null: "created_by r = None"
  shows "RecipeUpdateView u k (POST (Some cleaned)) now d =
           (Inr (HttpResponseRedirect (recipe_detail (Some k))),
            d\<lparr>Recipe_objects := (Recipe_objects d)
                 \<lparr>rows := map (\<lambda>x. if pk x = Some k
                                     then (RecipeForm_construct cleaned r)\<lparr>created_by := Some u, updated_at := now\<rparr>
                                     else x)
                            (rows (Recipe_objects d))\<rparr>\<rparr>)"
    (is "_ = (_, ?d')")
proof -
  let ?obj = "(RecipeForm_construct cleaned r)\<lparr>created_by := Some u, updated_at := now\<rparr>"
  note l = lookup_in_rows [OF look]
  have st: "OwnedQuerysetMixin_stamp u (RecipeForm_construct cleaned r)
              = (RecipeForm_construct cleaned r)\<lparr>created_by := Some u\<rparr>"
    using null by (simp add: OwnedQuerysetMixin_stamp_def RecipeForm_construct_def)
  have p: "pk ((RecipeForm_construct cleaned r)\<lparr>created_by := Some u\<rparr>) = Some k"
    using l(2) by (simp add: RecipeForm_construct_def)
  have sv: "Recipe_save now (OwnedQuerysetMixin_stamp u (RecipeForm_construct cleaned r)) d = (Inr ?obj, ?d')"
    unfolding st by (simp add: Recipe_save_def model_save_update [OF p l(3)])
  have look': "get_object_or_404 (OwnedQuerysetMixin_get_queryset u (rows (Recipe_objects d))) k = Inr r"
    using look by (simp add: OwnedQuerysetMixin_get_queryset_def)
  have "pk ?obj = Some k" using l(2) by (simp add: RecipeForm_construct_def)
  then show ?thesis
    using OwnedUpdateView_valid_post [where is_valid = "\<lambda>_. True" and success = recipe_detail
        and save = "Recipe_save now" and construct = RecipeForm_construct and cleaned = cleaned,
        OF look' TrueI sv]
    by (simp add: RecipeUpdateView_def)
qed

lemma CookSession_edit_unowned:
  assumes look: "get_object_or_404 (filter (owned_q u) (rows (CookSession_objects d))) k = Inr r"
    and null: "created_by r = None" and valid: "CookSessionForm_is_valid u d cleaned"
  shows "CookSessionUpdateView u k (POST (Some cleaned)) now d =
           (Inr (HttpResponseRedirect (cooksession_detail (Some k))),
            d\<lparr>CookSession_objects := (CookSession_objects d)
                 \<lparr>rows := map (\<lambda>x. if pk x = Some k
                                     then (CookSessionForm_construct cleaned r)\<lparr>created_by := Some u, updated_at := now\<rparr>
                                     else x)
                            (rows (CookSession_objects d))\<rparr>\<rparr>)"
    (is "_ = (_, ?d')")
proof -
  let ?obj = "(CookSessionForm_construct cleaned r)\<lparr>created_by := Some u, updated_at := now\<rparr>"
  note l = lookup_in_rows [OF look]
  have st: "OwnedQuerysetMixin_stamp u (CookSessionForm_construct cleaned r)
              = (CookSessionForm_construct cleaned r)\<lparr>created_by := Some u\<rparr>"
    using null by (simp add: OwnedQuerysetMixin_stamp_def CookSessionForm_construct_def)
  have p: "pk ((CookSessionForm_construct cleaned r)\<lparr>created_by := Some u\<rparr>) = Some k"
    using l(2) by (simp add: CookSessionForm_construct_def)
  have sv: "CookSession_save now (OwnedQuerysetMixin_stamp u (CookSessionForm_construct cleaned r)) d = (Inr ?obj, ?d')"
  proof -
    have "fk_exists (dish_id ((CookSessionForm_construct cleaned r)\<lparr>created_by := Some u\<rparr>))
            (rows (Dish_objects d))"
      "fk_null_or_exists (recipe_used_id ((CookSessionForm_construct cleaned r)\<lparr>created_by := Some u\<rparr>))
            (rows (Recipe_objects d))"
      using CookSessionForm_valid_fk [OF valid] by (simp_all add: CookSessionForm_construct_def)
    then show ?thesis
      unfolding st by (simp add: CookSession_save_def model_save_update [OF p l(3)])
  qed
  have look': "get_object_or_404 (OwnedQuerysetMixin_get_queryset u (rows (CookSession_objects d))) k = Inr r"
    using look by (simp add: OwnedQuerysetMixin_get_queryset_def)
  have "pk ?obj = Some k" using l(2) by (simp add: CookSessionForm_construct_def)
  then show ?thesis
    using OwnedUpdateView_valid_post [where is_valid = "CookSessionForm_is_valid u d"
        and success = cooksession_detail and save = "CookSession_save now"
        and construct = CookSessionForm_construct, OF look' valid sv]
    by (simp add: CookSessionUpdateView_def)
qed

lemma Dish_edit_unowned:
  assumes look: "get_object_or_404 (filter (owned_q u) (rows (Dish_objects d))) k = Inr r"
    and null: "created_by r = None" and valid: "DishForm_is_valid u d cleaned"
    and uniq: "uniq_dish_per_owner_name ((DishForm_construct cleaned r)\<lparr>created_by := Some u\<rparr>)
                 (rows (Dish_objects d))"
  shows "DishUpdateView u k (POST (Some cleaned)) now d =
           (Inr (HttpResponseRedirect (dish_detail (Some k))),
            d\<lparr>Dish_objects := (Dish_objects d)
                 \<lparr>rows := map (\<lambda>x. if pk x = Some k
                                     then (DishForm_construct cleaned r)\<lparr>created_by := Some u, updated_at := now\<rparr>
                                     else x)
                            (rows (Dish_objects d))\<rparr>\<rparr>)"
    (is "_ = (_, ?d')")
proof -
  let ?obj = "(DishForm_construct cleaned r)\<lparr>created_by := Some u, updated_at := now\<rparr>"
  note l = lookup_in_rows [OF look]
  have st: "OwnedQuerysetMixin_stamp u (DishForm_construct cleaned r)
              = (DishForm_construct cleaned r)\<lparr>created_by := Some u\<rparr>"
    using null by (simp add: OwnedQuerysetMixin_stamp_def DishForm_construct_def)
  have p: "pk ((DishForm_construct cleaned r)\<lparr>created_by := Some u\<rparr>) = Some k"
    using l(2) by (simp add: DishForm_construct_def)
  have sv: "Dish_save now (OwnedQuerysetMixin_stamp u (DishForm_construct cleaned r)) d = (Inr ?obj, ?d')"
  proof -
    have "fk_null_or_exists (default_recipe_id ((DishForm_construct cleaned r)\<lparr>created_by := Some u\<rparr>))
            (rows (Recipe_objects d))"
      using DishForm_valid_fk [OF valid] by (simp add: DishForm_construct_def)
    then show ?thesis
      unfolding st using uniq by (simp add: Dish_save_def model_save_update [OF p l(3)])
  qed
  have look': "get_object_or_404 (OwnedQuerysetMixin_get_queryset u (rows (Dish_objects d))) k = Inr r"
    using look by (simp add: OwnedQuerysetMixin_get_queryset_def)
  have "pk ?obj = Some k" using l(2) by (simp add: DishForm_construct_def)
  then show ?thesis
    using OwnedUpdateView_valid_post [where is_valid = "DishForm_is_valid u d"
        and success = dish_detail and save = "Dish_save now"
        and construct = DishForm_construct, OF look' valid sv]
    by (simp add: DishUpdateView_def)
qed

text \<open>
  Claim C9. A valid POST to the update view of a recipe, dish or cook session that the
  requesting user u can see and that has no owner stores the edited row with created_by u:
  the view redirects to the detail page, every row of that primary key is now u's, no row
  of that key is left in another user's filtered queryset, and another user's detail view of
  the key is a 404. For a recipe every cleaned form is valid; for a dish and a cook session
  the foreign keys of the form must be among the user's rows, as the forms require; for a
  dish the write must also pass the unique constraint on (created_by, name) with the new
  owner, otherwise the save raises \<^verbatim>\<open>IntegrityError\<close> and nothing is stored.
\<close>

theorem edit_transfers_ownership:
  assumes "b \<noteq> u"
  shows "(get_object_or_404 (filter (owned_q u) (rows (Recipe_objects d))) k = Inr rr
          \<and> created_by rr = None \<longrightarrow>
        (\<exists>d'. RecipeUpdateView u k (POST (Some cr)) now d =
                 (Inr (HttpResponseRedirect (recipe_detail (Some k))), d')
           \<and> (RecipeForm_construct cr rr)\<lparr>created_by := Some u, updated_at := now\<rparr>
                 \<in> set (rows (Recipe_objects d'))
           \<and> (\<forall>x \<in> set (rows (Recipe_objects d')). pk x = Some k \<longrightarrow> created_by x = Some u)
           \<and> (\<forall>x \<in> set (OwnedQuerysetMixin_get_queryset b (rows (Recipe_objects d'))). pk x \<noteq> Some k)
           \<and> RecipeDetailView b k d' = Inl Http404))
     \<and> (get_object_or_404 (filter (owned_q u) (rows (Dish_objects d))) k = Inr rd
          \<and> created_by rd = None \<and> DishForm_is_valid u d cd
          \<and> uniq_dish_per_owner_name ((DishForm_construct cd rd)\<lparr>created_by := Some u\<rparr>) (rows (Dish_objects d)) \<longrightarrow>
        (\<exists>d'. DishUpdateView u k (POST (Some cd)) now d =
                 (Inr (HttpResponseRedirect (dish_detail (Some k))), d')
           \<and> (DishForm_construct cd rd)\<lparr>created_by := Some u, updated_at := now\<rparr>
                 \<in> set (rows (Dish_objects d'))
           \<and> (\<forall>x \<in> set (rows (Dish_objects d')). pk x = Some k \<longrightarrow> created_by x = Some u)
           \<and> (\<forall>x \<in> set (OwnedQuerysetMixin_get_queryset b (rows (Dish_objects d'))). pk x \<noteq> Some k)
           \<and> DishDetailView b k d' = Inl Http404))
     \<and> (get_object_or_404 (filter (owned_q u) (rows (CookSession_objects d))) k = Inr rs
          \<and> created_by rs = None \<and> CookSessionForm_is_valid u d cs \<longrightarrow>
        (\<exists>d'. CookSessionUpdateView u k (POST (Some cs)) now d =
                 (Inr (HttpResponseRedirect (cooksession_detail (Some k))), d')
           \<and> (CookSessionForm_construct cs rs)\<lparr>created_by := Some u, updated_at := now\<rparr>
                 \<in> set (rows (CookSession_objects d'))
           \<and> (\<forall>x \<in> set (rows (CookSession_objects d')). pk x = Some k \<longrightarrow> created_by x = Some u)
           \<and> (\<forall>x \<in> set (OwnedQuerysetMixin_get_queryset b (rows (CookSession_objects d'))). pk x \<noteq> Some k)
           \<and> CookSessionDetailView b k d' = Inl Http404))"
proof -
  have 1: "(get_object_or_404 (filter (owned_q u) (rows (Recipe_objects d))) k = Inr rr
          \<and> created_by rr = None \<longrightarrow>
        (\<exists>d'. RecipeUpdateView u k (POST (Some cr)) now d =
                 (Inr (HttpResponseRedirect (recipe_detail (Some k))), d')
           \<and> (RecipeForm_construct cr rr)\<lparr>created_by := Some u, updated_at := now\<rparr>
                 \<in> set (rows (Recipe_objects d'))
           \<and> (\<forall>x \<in> set (rows (Recipe_objects d')). pk x = Some k \<longrightarrow> created_by x = Some u)
           \<and> (\<forall>x \<in> set (OwnedQuerysetMixin_get_queryset b (rows (Recipe_objects d'))). pk x \<noteq> Some k)
           \<and> RecipeDetailView b k d' = Inl Http404))"
  proof (intro impI)
    assume a: "get_object_or_404 (filter (owned_q u) (rows (Recipe_objects d))) k = Inr rr
          \<and> created_by rr = None"
    let ?obj = "(RecipeForm_construct cr rr)\<lparr>created_by := Some u, updated_at := now\<rparr>"
    let ?rows = "map (\<lambda>x. if pk x = Some k then ?obj else x) (rows (Recipe_objects d))"
    let ?d' = "d\<lparr>Recipe_objects := (Recipe_objects d)\<lparr>rows := ?rows\<rparr>\<rparr>"
    have own: "created_by ?obj = Some u" by simp
    have v: "RecipeUpdateView u k (POST (Some cr)) now d =
                 (Inr (HttpResponseRedirect (recipe_detail (Some k))), ?d')"
      using a by (intro Recipe_edit_unowned) simp_all
    have r: "rows (Recipe_objects ?d') = ?rows" by simp
    have m: "?obj \<in> set (rows (Recipe_objects ?d'))" unfolding r
      using a by (intro replaced_row_mem lookup_in_rows(3) [of u _ k rr]) simp
    have o: "\<forall>x \<in> set (rows (Recipe_objects ?d')). pk x = Some k \<longrightarrow> created_by x = Some u" unfolding r
      by (rule replaced_row_owner [OF own])
    have h: "get_object_or_404 (filter (owned_q b) (rows (Recipe_objects ?d'))) k = Inl Http404" unfolding r
      by (rule replaced_row_hidden [OF assms own])
    have q: "\<forall>x \<in> set (OwnedQuerysetMixin_get_queryset b (rows (Recipe_objects ?d'))). pk x \<noteq> Some k"
      unfolding r using assms by (auto simp: OwnedQuerysetMixin_get_queryset_def owned_q_def)
    have dt: "RecipeDetailView b k ?d' = Inl Http404"
      using h by (simp add: RecipeDetailView_def)
    show "(\<exists>d'. RecipeUpdateView u k (POST (Some cr)) now d =
                 (Inr (HttpResponseRedirect (recipe_detail (Some k))), d')
           \<and> (RecipeForm_construct cr rr)\<lparr>created_by := Some u, updated_at := now\<rparr>
                 \<in> set (rows (Recipe_objects d'))
           \<and> (\<forall>x \<in> set (rows (Recipe_objects d')). pk x = Some k \<longrightarrow> created_by x = Some u)
           \<and> (\<forall>x \<in> set (OwnedQuerysetMixin_get_queryset b (rows (Recipe_objects d'))). pk x \<noteq> Some k)
           \<and> RecipeDetailView b k d' = Inl Http404)"
      using v m o q dt by blast
  qed
  have 2: "(get_object_or_404 (filter (owned_q u) (rows (Dish_objects d))) k = Inr rd
          \<and> created_by rd = None \<and> DishForm_is_valid u d cd
          \<and> uniq_dish_per_owner_name ((DishForm_construct cd rd)\<lparr>created_by := Some u\<rparr>) (rows (Dish_objects d)) \<longrightarrow>
        (\<exists>d'. DishUpdateView u k (POST (Some cd)) now d =
                 (Inr (HttpResponseRedirect (dish_detail (Some k))), d')
           \<and> (DishForm_construct cd rd)\<lparr>created_by := Some u, updated_at := now\<rparr>
                 \<in> set (rows (Dish_objects d'))
           \<and> (\<forall>x \<in> set (rows (Dish_objects d')). pk x = Some k \<longrightarrow> created_by x = Some u)
           \<and> (\<forall>x \<in> set (OwnedQuerysetMixin_get_queryset b (rows (Dish_objects d'))). pk x \<noteq> Some k)
           \<and> DishDetailView b k d' = Inl Http404))"
  proof (intro impI)
    assume a: "get_object_or_404 (filter (owned_q u) (rows (Dish_objects d))) k = Inr rd
          \<and> created_by rd = None \<and> DishForm_is_valid u d cd
          \<and> uniq_dish_per_owner_name ((DishForm_construct cd rd)\<lparr>created_by := Some u\<rparr>) (rows (Dish_objects d))"
    let ?obj = "(DishForm_construct cd rd)\<lparr>created_by := Some u, updated_at := now\<rparr>"
    let ?rows = "map (\<lambda>x. if pk x = Some k then ?obj else x) (rows (Dish_objects d))"
    let ?d' = "d\<lparr>Dish_objects := (Dish_objects d)\<lparr>rows := ?rows\<rparr>\<rparr>"
    have own: "created_by ?obj = Some u" by simp
    have v: "DishUpdateView u k (POST (Some cd)) now d =
                 (Inr (HttpResponseRedirect (dish_detail (Some k))), ?d')"
      using a by (intro Dish_edit_unowned) simp_all
    have r: "rows (Dish_objects ?d') = ?rows" by simp
    have m: "?obj \<in> set (rows (Dish_objects ?d'))" unfolding r
      using a by (intro replaced_row_mem lookup_in_rows(3) [of u _ k rd]) simp
    have o: "\<forall>x \<in> set (rows (Dish_objects ?d')). pk x = Some k \<longrightarrow> created_by x = Some u" unfolding r
      by (rule replaced_row_owner [OF own])
    have h: "get_object_or_404 (filter (owned_q b) (rows (Dish_objects ?d'))) k = Inl Http404" unfolding r
      by (rule replaced_row_hidden [OF assms own])
    have q: "\<forall>x \<in> set (OwnedQuerysetMixin_get_queryset b (rows (Dish_objects ?d'))). pk x \<noteq> Some k"
      unfolding r using assms by (auto simp: OwnedQuerysetMixin_get_queryset_def owned_q_def)
    have dt: "DishDetailView b k ?d' = Inl Http404"
      using h by (simp add: DishDetailView_def)
    show "(\<exists>d'. DishUpdateView u k (POST (Some cd)) now d =
                 (Inr (HttpResponseRedirect (dish_detail (Some k))), d')
           \<and> (DishForm_construct cd rd)\<lparr>created_by := Some u, updated_at := now\<rparr>
                 \<in> set (rows (Dish_objects d'))
           \<and> (\<forall>x \<in> set (rows (Dish_objects d')). pk x = Some k \<longrightarrow> created_by x = Some u)
           \<and> (\<forall>x \<in> set (OwnedQuerysetMixin_get_queryset b (rows (Dish_objects d'))). pk x \<noteq> Some k)
           \<and> DishDetailView b k d' = Inl Http404)"
      using v m o q dt by blast
  qed
  have 3: "(get_object_or_404 (filter (owned_q u) (rows (CookSession_objects d))) k = Inr rs
          \<and> created_by rs = None \<and> CookSessionForm_is_valid u d cs \<longrightarrow>
        (\<exists>d'. CookSessionUpdateView u k (POST (Some cs)) now d =
                 (Inr (HttpResponseRedirect (cooksession_detail (Some k))), d')
           \<and> (CookSessionForm_construct cs rs)\<lparr>created_by := Some u, updated_at := now\<rparr>
                 \<in> set (rows (CookSession_objects d'))
           \<and> (\<forall>x \<in> set (rows (CookSession_objects d')). pk x = Some k \<longrightarrow> created_by x = Some u)
           \<and> (\<forall>x \<in> set (OwnedQuerysetMixin_get_queryset b (rows (CookSession_objects d'))). pk x \<noteq> Some k)
           \<and> CookSessionDetailView b k d' = Inl Http404))"
  proof (intro impI)
    assume a: "get_object_or_404 (filter (owned_q u) (rows (CookSession_objects d))) k = Inr rs
          \<and> created_by rs = None \<and> CookSessionForm_is_valid u d cs"
    let ?obj = "(CookSessionForm_construct cs rs)\<lparr>created_by := Some u, updated_at := now\<rparr>"
    let ?rows = "map (\<lambda>x. if pk x = Some k then ?obj else x) (rows (CookSession_objects d))"
    let ?d' = "d\<lparr>CookSession_objects := (CookSession_objects d)\<lparr>rows := ?rows\<rparr>\<rparr>"
    have own: "created_by ?obj = Some u" by simp
    have v: "CookSessionUpdateView u k (POST (Some cs)) now d =
                 (Inr (HttpResponseRedirect (cooksession_detail (Some k))), ?d')"
      using a by (intro CookSession_edit_unowned) simp_all
    have r: "rows (CookSession_objects ?d') = ?rows" by simp
    have m: "?obj \<in> set (rows (CookSession_objects ?d'))" unfolding r
      using a by (intro replaced_row_mem lookup_in_rows(3) [of u _ k rs]) simp
    have o: "\<forall>x \<in> set (rows (CookSession_objects ?d')). pk x = Some k \<longrightarrow> created_by x = Some u" unfolding r
      by (rule replaced_row_owner [OF own])
    have h: "get_object_or_404 (filter (owned_q b) (rows (CookSession_objects ?d'))) k = Inl Http404" unfolding r
      by (rule replaced_row_hidden [OF assms own])
    have q: "\<forall>x \<in> set (OwnedQuerysetMixin_get_queryset b (rows (CookSession_objects ?d'))). pk x \<noteq> Some k"
      unfolding r using assms by (auto simp: OwnedQuerysetMixin_get_queryset_def owned_q_def)
    have dt: "CookSessionDetailView b k ?d' = Inl Http404"
      using h by (simp add: CookSessionDetailView_def)
    show "(\<exists>d'. CookSessionUpdateView u k (POST (Some cs)) now d =
                 (Inr (HttpResponseRedirect (cooksession_detail (Some k))), d')
           \<and> (CookSessionForm_construct cs rs)\<lparr>created_by := Some u, updated_at := now\<rparr>
                 \<in> set (rows (CookSession_objects d'))
           \<and> (\<forall>x \<in> set (rows (CookSession_objects d')). pk x = Some k \<longrightarrow> created_by x = Some u)
           \<and> (\<forall>x \<in> set (OwnedQuerysetMixin_get_queryset b (rows (CookSession_objects d'))). pk x \<noteq> Some k)
           \<and> CookSessionDetailView b k d' = Inl Http404)"
      using v m o q dt by blast
  qed
  from 1 2 3 show ?thesis by blast
qed

text \<open>
  Claim C9, an instance: recipe 2 of the example database has no owner, and user 1 can open it;
  user 2 edits it; afterwards user 1 gets a 404 for it.
\<close>

theorem edit_transfers_ownership_witness:
  "RecipeDetailView 1 2 ex_db = Inr (ex_recipe 2 None)
   \<and> fst (RecipeUpdateView 2 2 (POST (Some (ex_recipe 0 None))) 50 ex_db)
       = Inr (HttpResponseRedirect (recipe_detail (Some 2)))
   \<and> RecipeDetailView 1 2 (snd (RecipeUpdateView 2 2 (POST (Some (ex_recipe 0 None))) 50 ex_db))
       = Inl Http404
   \<and> fst (DishUpdateView 2 2 (POST (Some (ex_dish None None ''Stew'' (Some 2)))) 50 ex_db)
       = Inr (HttpResponseRedirect (dish_detail (Some 2)))
   \<and> DishDetailView 1 2 (snd (DishUpdateView 2 2 (POST (Some (ex_dish None None ''Stew'' (Some 2)))) 50 ex_db))
       = Inl Http404
   \<and> fst (CookSessionUpdateView 2 2 (POST (Some (ex_session 0 None 2 (Some 2) 738010))) 50 ex_db)
       = Inr (HttpResponseRedirect (cooksession_detail (Some 2)))
   \<and> CookSessionDetailView 1 2
        (snd (CookSessionUpdateView 2 2 (POST (Some (ex_session 0 None 2 (Some 2) 738010))) 50 ex_db))
       = Inl Http404"
proof -
  have h0: "(1::int) \<noteq> 2" by simp
  have h1: "get_object_or_404 (filter (owned_q 2) (rows (Recipe_objects ex_db))) 2 = Inr (ex_recipe 2 None)
            \<and> created_by (ex_recipe 2 None) = None"
    by (simp add: ex_db_simps get_object_or_404_def qs_get_def owned_q_def ex_recipe_def)
  have h2: "get_object_or_404 (filter (owned_q 2) (rows (Dish_objects ex_db))) 2
              = Inr (ex_dish (Some 2) None ''Soup'' (Some 1))
            \<and> created_by (ex_dish (Some 2) None ''Soup'' (Some 1)) = None
            \<and> DishForm_is_valid 2 ex_db (ex_dish None None ''Stew'' (Some 2))
            \<and> uniq_dish_per_owner_name
                 ((DishForm_construct (ex_dish None None ''Stew'' (Some 2))
                     (ex_dish (Some 2) None ''Soup'' (Some 1)))\<lparr>created_by := Some 2\<rparr>)
                 (rows (Dish_objects ex_db))"
    by (simp add: ex_db_simps get_object_or_404_def qs_get_def owned_q_def ex_dish_def ex_recipe_def
        DishForm_is_valid_def uniq_dish_per_owner_name_def DishForm_construct_def)
  have h3: "get_object_or_404 (filter (owned_q 2) (rows (CookSession_objects ex_db))) 2
              = Inr (ex_session 2 None 2 (Some 1) 738005)
            \<and> created_by (ex_session 2 None 2 (Some 1) 738005) = None
            \<and> CookSessionForm_is_valid 2 ex_db (ex_session 0 None 2 (Some 2) 738010)"
    by (simp add: ex_db_simps get_object_or_404_def qs_get_def owned_q_def ex_session_def ex_dish_def
        ex_recipe_def CookSessionForm_is_valid_def)
  have before: "RecipeDetailView 1 2 ex_db = Inr (ex_recipe 2 None)"
    by (simp add: RecipeDetailView_def ex_db_simps get_object_or_404_def qs_get_def owned_q_def
        ex_recipe_def)
  note t = edit_transfers_ownership [OF h0, of ex_db 2 _ _ 50]
  from t [THEN conjunct1, rule_format, OF h1, of "ex_recipe 0 None"]
  obtain d1 where
    "RecipeUpdateView 2 2 (POST (Some (ex_recipe 0 None))) 50 ex_db =
       (Inr (HttpResponseRedirect (recipe_detail (Some 2))), d1)"
    and "RecipeDetailView 1 2 d1 = Inl Http404" by blast
  then have r: "fst (RecipeUpdateView 2 2 (POST (Some (ex_recipe 0 None))) 50 ex_db)
       = Inr (HttpResponseRedirect (recipe_detail (Some 2)))
     \<and> RecipeDetailView 1 2 (snd (RecipeUpdateView 2 2 (POST (Some (ex_recipe 0 None))) 50 ex_db))
       = Inl Http404" by simp
  from t [THEN conjunct2, THEN conjunct1, rule_format, OF h2]
  obtain d2 where
    "DishUpdateView 2 2 (POST (Some (ex_dish None None ''Stew'' (Some 2)))) 50 ex_db =
       (Inr (HttpResponseRedirect (dish_detail (Some 2))), d2)"
    and "DishDetailView 1 2 d2 = Inl Http404" by blast
  then have d: "fst (DishUpdateView 2 2 (POST (Some (ex_dish None None ''Stew'' (Some 2)))) 50 ex_db)
       = Inr (HttpResponseRedirect (dish_detail (Some 2)))
     \<and> DishDetailView 1 2 (snd (DishUpdateView 2 2 (POST (Some (ex_dish None None ''Stew'' (Some 2)))) 50 ex_db))
       = Inl Http404" by simp
  from t [THEN conjunct2, THEN conjunct2, rule_format, OF h3]
  obtain d3 where
    "CookSessionUpdateView 2 2 (POST (Some (ex_session 0 None 2 (Some 2) 738010))) 50 ex_db =
       (Inr (HttpResponseRedirect (cooksession_detail (Some 2))), d3)"
    and "CookSessionDetailView 1 2 d3 = Inl Http404" by blast
  then have c: "fst (CookSessionUpdateView 2 2 (POST (Some (ex_session 0 None 2 (Some 2) 738010))) 50 ex_db)
       = Inr (HttpResponseRedirect (cooksession_detail (Some 2)))
     \<and> CookSessionDetailView 1 2
        (snd (CookSessionUpdateView 2 2 (POST (Some (ex_session 0 None 2 (Some 2) 738010))) 50 ex_db))
       = Inl Http404" by simp
  from before r d c show ?thesis by blast
qed

section \<open>Binding an attachment to its target\<close>

lemma digit_char_value: "n < 10 \<Longrightarrow> of_char (digit_char n) = 48 + n"
  by (simp add: digit_char_def)

declare str_nat.simps [simp del]

lemma decimal_value_str_nat: "decimal_value (str_nat n) = n"
proof (induction n rule: str_nat.induct)
  case (1 n)
  show ?case
  proof (cases "n < 10")
    case True
    then have "str_nat n = [digit_char n]" by (subst str_nat.simps) simp
    with True show ?thesis by (simp add: decimal_value_def digit_char_value)
  next
    case False
    then have ih: "decimal_value (str_nat (n div 10)) = n div 10" by (rule "1.IH")
    have "n mod 10 < 10" by simp
    then have dg: "of_char (digit_char (n mod 10)) = 48 + n mod 10" by (rule digit_char_value)
    have "str_nat n = str_nat (n div 10) @ [digit_char (n mod 10)]"
      using False by (subst str_nat.simps) simp
    then have "decimal_value (str_nat n) = 10 * decimal_value (str_nat (n div 10)) + n mod 10"
      by (simp add: decimal_value_def dg)
    then show ?thesis by (simp add: ih)
  qed
qed

lemma decimal_value_py_str: "0 \<le> i \<Longrightarrow> decimal_value (py_str i) = nat i"
  by (simp add: py_str_def decimal_value_str_nat)

lemma owned_object_or_404_Inr:
  assumes "owned_object_or_404 model u k d = Inr t"
  shows "target_class t = model" and "target_pk t = Some k"
    and "target_created_by t = Some u \<or> target_created_by t = None"
    and "t \<in> set (model_objects model d)"
proof -
  have "target_class t = model \<and> target_pk t = Some k
        \<and> (target_created_by t = Some u \<or> target_created_by t = None)
        \<and> t \<in> set (model_objects model d)"
  proof (cases model)
    case Recipe
    with assms obtain r where g: "get_object_or_404 (filter (owned_q u) (rows (Recipe_objects d))) k = Inr r"
      and t: "t = RecipeObj r"
      by (cases "get_object_or_404 (filter (owned_q u) (rows (Recipe_objects d))) k") auto
    from get_object_or_404_mem [OF g] t Recipe show ?thesis by (auto simp: owned_q_def)
  next
    case Dish
    with assms obtain r where g: "get_object_or_404 (filter (owned_q u) (rows (Dish_objects d))) k = Inr r"
      and t: "t = DishObj r"
      by (cases "get_object_or_404 (filter (owned_q u) (rows (Dish_objects d))) k") auto
    from get_object_or_404_mem [OF g] t Dish show ?thesis by (auto simp: owned_q_def)
  next
    case CookSession
    with assms obtain r where g: "get_object_or_404 (filter (owned_q u) (rows (CookSession_objects d))) k = Inr r"
      and t: "t = CookSessionObj r"
      by (cases "get_object_or_404 (filter (owned_q u) (rows (CookSession_objects d))) k") auto
    from get_object_or_404_mem [OF g] t CookSession show ?thesis by (auto simp: owned_q_def)
  next
    case CookResult
    with assms obtain r where g: "get_object_or_404 (filter (owned_q u) (rows (CookResult_objects d))) k = Inr r"
      and t: "t = CookResultObj r"
      by (cases "get_object_or_404 (filter (owned_q u) (rows (CookResult_objects d))) k") auto
    from get_object_or_404_mem [OF g] t CookResult show ?thesis by (auto simp: owned_q_def)
  qed
  then show "target_class t = model" and "target_pk t = Some k"
    and "target_created_by t = Some u \<or> target_created_by t = None"
    and "t \<in> set (model_objects model d)" by simp_all
qed

lemma dispatch_Inr:
  assumes "TargetContextMixin_dispatch u model_key k d = Inr (t, ct)"
  shows "get_target_or_404 u model_key k d = Inr t"
    and "ALLOWED_TARGET_MODELS model_key = Some (target_class t)"
    and "ct = get_for_model (target_class t)" and "target_pk t = Some k"
    and "target_created_by t = Some u \<or> target_created_by t = None"
    and "t \<in> set (model_objects (target_class t) d)"
proof -
  from assms have g: "get_target_or_404 u model_key k d = Inr t"
    and c: "ct = get_for_model (target_class t)"
    by (auto simp: TargetContextMixin_dispatch_def split: sum.splits)
  from g obtain model where m: "ALLOWED_TARGET_MODELS model_key = Some model"
    and o: "owned_object_or_404 model u k d = Inr t"
    by (auto simp: get_target_or_404_def split: option.splits)
  note p = owned_object_or_404_Inr [OF o]
  show "get_target_or_404 u model_key k d = Inr t" by (rule g)
  show "ALLOWED_TARGET_MODELS model_key = Some (target_class t)" using m p(1) by simp
  show "ct = get_for_model (target_class t)" by (rule c)
  show "target_pk t = Some k" by (rule p(2))
  show "target_created_by t = Some u \<or> target_created_by t = None" by (rule p(3))
  show "t \<in> set (model_objects (target_class t) d)" using p(4) p(1) by simp
qed

lemma TargetCreateView_post_Inr:
  assumes "TargetCreateView new construct save u model_key k (POST (Some cleaned)) d = (Inr resp, d')"
  shows "\<exists>t ct obj. TargetContextMixin_dispatch u model_key k d = Inr (t, ct)
           \<and> save (target_form_bind u t ct (construct cleaned new)) d = (Inr obj, d')
           \<and> resp = HttpResponseRedirect (target_detail model_key (target_pk t))"
  using assms
  by (auto simp: TargetCreateView_def split: sum.splits prod.splits)

lemma target_form_bind_new:
  assumes "created_by obj = None"
  shows "target_form_bind u t ct obj =
           obj\<lparr>content_type := ct, object_id := py_str_pk (target_pk t), created_by := Some u\<rparr>"
  using assms by (simp add: target_form_bind_def Let_def)

lemma model_save_insert:
  assumes "pk obj = None"
  shows "model_save now obj t =
           (obj\<lparr>updated_at := now, pk := Some (seq t + 1)\<rparr>,
            t\<lparr>rows := rows t @ [obj\<lparr>updated_at := now, pk := Some (seq t + 1)\<rparr>], seq := seq t + 1\<rparr>)"
  using assms by (simp add: model_save_def Let_def)

lemma Note_save_appends:
  assumes "Note_save now x d = (Inr obj, d')" and "pk x = None"
  shows "rows (Note_objects d') = rows (Note_objects d) @ [obj]
       \<and> content_type obj = content_type x \<and> object_id obj = object_id x
       \<and> created_by obj = created_by x"
  using assms by (auto simp: Note_save_def model_save_insert)

lemma ReferenceURL_save_appends:
  assumes "ReferenceURL_save now x d = (Inr obj, d')" and "pk x = None"
  shows "rows (ReferenceURL_objects d') = rows (ReferenceURL_objects d) @ [obj]
       \<and> content_type obj = content_type x \<and> object_id obj = object_id x
       \<and> created_by obj = created_by x"
  using assms by (auto simp: ReferenceURL_save_def model_save_insert)

lemma TrackedImage_save_appends:
  assumes "TrackedImage_save storage now x d = (Inr obj, d')" and "pk x = None"
  shows "rows (TrackedImage_objects d') = rows (TrackedImage_objects d) @ [obj]
       \<and> content_type obj = content_type x \<and> object_id obj = object_id x
       \<and> created_by obj = created_by x"
  using assms by (auto simp: TrackedImage_save_def model_save_insert Let_def split: if_splits)

lemma PDFDocument_save_appends:
  assumes "PDFDocument_save storage now x d = (Inr obj, d')" and "pk x = None"
  shows "rows (PDFDocument_objects d') = rows (PDFDocument_objects d) @ [obj]
       \<and> content_type obj = content_type x \<and> object_id obj = object_id x
       \<and> created_by obj = created_by x"
proof -
  let ?x1 = "PDFDocument_set_original_filename x"
  have p: "pk ?x1 = None" "content_type ?x1 = content_type x" "object_id ?x1 = object_id x"
    "created_by ?x1 = created_by x"
    using assms(2) by (simp_all add: PDFDocument_set_original_filename_def)
  have "PDFDocument_super_save storage now ?x1 d = (Inr obj, d')"
    using assms(1) by (simp add: PDFDocument_save_def)
  then have "rows (PDFDocument_objects d') = rows (PDFDocument_objects d) @ [obj]
       \<and> content_type obj = content_type ?x1 \<and> object_id obj = object_id ?x1
       \<and> created_by obj = created_by ?x1"
    using p(1) by (auto simp: PDFDocument_super_save_def model_save_insert Let_def split: if_splits)
  then show ?thesis by (simp add: p)
qed

lemma new_unbound:
  "pk (NoteForTargetForm_construct cn (Note_new now)) = None"
  "created_by (NoteForTargetForm_construct cn (Note_new now)) = None"
  "pk (ReferenceURLForTargetForm_construct cu (ReferenceURL_new now)) = None"
  "created_by (ReferenceURLForTargetForm_construct cu (ReferenceURL_new now)) = None"
  "pk (TrackedImageForTargetForm_construct ci (TrackedImage_new now uuid)) = None"
  "created_by (TrackedImageForTargetForm_construct ci (TrackedImage_new now uuid)) = None"
  "pk (PDFDocumentForTargetForm_construct cp (PDFDocument_new now uuid)) = None"
  "created_by (PDFDocumentForTargetForm_construct cp (PDFDocument_new now uuid)) = None"
  by (simp_all add: NoteForTargetForm_construct_def Note_new_def
      ReferenceURLForTargetForm_construct_def ReferenceURL_new_def
      TrackedImageForTargetForm_construct_def TrackedImage_new_def
      PDFDocumentForTargetForm_construct_def PDFDocument_new_def)

text \<open>
  What a successful POST to a create view for a target has done, given what the save of the
  bound new instance does to its table.
\<close>

lemma TargetCreateView_bound:
  assumes view: "TargetCreateView new construct save u model_key k (POST (Some cleaned)) d = (Inr resp, d')"
    and unbound: "pk (construct cleaned new) = None" "created_by (construct cleaned new) = None"
    and appends: "\<And>x obj. save x d = (Inr obj, d') \<Longrightarrow> pk x = None \<Longrightarrow>
        tbl d' = tbl d @ [obj] \<and> content_type obj = content_type x \<and> object_id obj = object_id x
        \<and> created_by obj = created_by x"
  shows "\<exists>t obj. get_target_or_404 u model_key k d = Inr t
           \<and> ALLOWED_TARGET_MODELS model_key = Some (target_class t)
           \<and> target_pk t = Some k
           \<and> resp = HttpResponseRedirect (target_detail model_key (Some k))
           \<and> tbl d' = tbl d @ [obj]
           \<and> content_type obj = get_for_model (target_class t)
           \<and> object_id obj = py_str k
           \<and> created_by obj = Some u"
proof -
  from TargetCreateView_post_Inr [OF view] obtain t ct obj where
    dsp: "TargetContextMixin_dispatch u model_key k d = Inr (t, ct)"
    and sv: "save (target_form_bind u t ct (construct cleaned new)) d = (Inr obj, d')"
    and rs: "resp = HttpResponseRedirect (target_detail model_key (target_pk t))" by blast
  note dp = dispatch_Inr [OF dsp]
  let ?x = "target_form_bind u t ct (construct cleaned new)"
  have x: "?x = (construct cleaned new)\<lparr>content_type := ct, object_id := py_str_pk (target_pk t),
                   created_by := Some u\<rparr>"
    using unbound(2) by (rule target_form_bind_new)
  have px: "pk ?x = None" unfolding x using unbound(1) by simp
  from appends [OF sv px] have
    "tbl d' = tbl d @ [obj] \<and> content_type obj = content_type ?x \<and> object_id obj = object_id ?x
        \<and> created_by obj = created_by ?x" .
  then have "tbl d' = tbl d @ [obj] \<and> content_type obj = ct
      \<and> object_id obj = py_str_pk (target_pk t) \<and> created_by obj = Some u"
    unfolding x by simp
  then have "tbl d' = tbl d @ [obj] \<and> content_type obj = get_for_model (target_class t)
      \<and> object_id obj = py_str k \<and> created_by obj = Some u"
    using dp(3) dp(4) by (simp add: py_str_pk_def)
  with dp(1) dp(2) dp(4) rs show ?thesis by auto
qed

text \<open>The content type of a model of the allow-list carries the key of the model.\<close>

lemma allowed_content_type:
  assumes "ALLOWED_TARGET_MODELS model_key = Some m"
  shows "get_for_model m = (''cooking_companion'', model_key)"
  using assms by (auto simp: ALLOWED_TARGET_MODELS_def split: if_splits)

lemma get_target_or_404_Inr:
  assumes "get_target_or_404 u model_key k d = Inr t"
  shows "TargetContextMixin_dispatch u model_key k d = Inr (t, get_for_model (target_class t))"
    and "ALLOWED_TARGET_MODELS model_key = Some (target_class t)"
    and "target_pk t = Some k"
    and "get_for_model (target_class t) = (''cooking_companion'', model_key)"
proof -
  show dsp: "TargetContextMixin_dispatch u model_key k d = Inr (t, get_for_model (target_class t))"
    using assms by (simp add: TargetContextMixin_dispatch_def)
  note dp = dispatch_Inr [OF dsp]
  show "ALLOWED_TARGET_MODELS model_key = Some (target_class t)" by (rule dp(2))
  show "target_pk t = Some k" by (rule dp(4))
  show "get_for_model (target_class t) = (''cooking_companion'', model_key)"
    using dp(2) by (rule allowed_content_type)
qed

text \<open>What the save of a new instance does, when it does not hit a unique column.\<close>

lemma Note_save_new:
  assumes "pk x = None"
  shows "\<exists>obj d'. Note_save now x d = (Inr obj, d')
       \<and> rows (Note_objects d') = rows (Note_objects d) @ [obj]
       \<and> content_type obj = content_type x \<and> object_id obj = object_id x
       \<and> created_by obj = created_by x"
  using assms by (simp add: Note_save_def model_save_insert)

lemma ReferenceURL_save_new:
  assumes "pk x = None"
  shows "\<exists>obj d'. ReferenceURL_save now x d = (Inr obj, d')
       \<and> rows (ReferenceURL_objects d') = rows (ReferenceURL_objects d) @ [obj]
       \<and> content_type obj = content_type x \<and> object_id obj = object_id x
       \<and> created_by obj = created_by x"
  using assms by (simp add: ReferenceURL_save_def model_save_insert)

lemma TrackedImage_save_new:
  assumes "pk x = None"
    and "\<not> list_ex (\<lambda>r. pk r \<noteq> None \<and> image_uuid r = image_uuid x) (rows (TrackedImage_objects d))"
  shows "\<exists>obj d'. TrackedImage_save storage now x d = (Inr obj, d')
       \<and> rows (TrackedImage_objects d') = rows (TrackedImage_objects d) @ [obj]
       \<and> content_type obj = content_type x \<and> object_id obj = object_id x
       \<and> created_by obj = created_by x"
  using assms by (simp add: TrackedImage_save_def model_save_insert Let_def)

lemma PDFDocument_save_new:
  assumes "pk x = None"
    and "\<not> list_ex (\<lambda>r. pk r \<noteq> None \<and> pdf_uuid r = pdf_uuid x) (rows (PDFDocument_objects d))"
  shows "\<exists>obj d'. PDFDocument_save storage now x d = (Inr obj, d')
       \<and> rows (PDFDocument_objects d') = rows (PDFDocument_objects d) @ [obj]
       \<and> content_type obj = content_type x \<and> object_id obj = object_id x
       \<and> created_by obj = created_by x"
proof -
  let ?x1 = "PDFDocument_set_original_filename x"
  have p: "pk ?x1 = None" "content_type ?x1 = content_type x" "object_id ?x1 = object_id x"
    "created_by ?x1 = created_by x" "pdf_uuid ?x1 = pdf_uuid x"
    using assms(1) by (simp_all add: PDFDocument_set_original_filename_def)
  have "\<exists>obj d'. PDFDocument_super_save storage now ?x1 d = (Inr obj, d')
       \<and> rows (PDFDocument_objects d') = rows (PDFDocument_objects d) @ [obj]
       \<and> content_type obj = content_type ?x1 \<and> object_id obj = object_id ?x1
       \<and> created_by obj = created_by ?x1"
    using assms(2) p(1) by (simp add: PDFDocument_super_save_def model_save_insert Let_def p(5))
  then show ?thesis by (simp add: PDFDocument_save_def p)
qed

lemma new_uuid:
  "image_uuid (TrackedImageForTargetForm_construct ci (TrackedImage_new now uuid)) = uuid"
  "pdf_uuid (PDFDocumentForTargetForm_construct cp (PDFDocument_new now uuid)) = uuid"
  by (simp_all add: TrackedImageForTargetForm_construct_def TrackedImage_new_def
      PDFDocumentForTargetForm_construct_def PDFDocument_new_def)

text \<open>
  A valid POST to a create view for a target that resolves: the view saves the new instance,
  bound to the target, and redirects to the page of the target.
\<close>

lemma TargetCreateView_success:
  assumes tgt: "get_target_or_404 u model_key k d = Inr t"
    and unbound: "pk (construct cleaned new) = None" "created_by (construct cleaned new) = None"
    and saves: "\<And>x. x = (construct cleaned new)\<lparr>content_type := get_for_model (target_class t),
                      object_id := py_str k, created_by := Some u\<rparr> \<Longrightarrow>
        \<exists>obj d'. save x d = (Inr obj, d') \<and> tbl d' = tbl d @ [obj]
          \<and> content_type obj = content_type x \<and> object_id obj = object_id x
          \<and> created_by obj = created_by x"
  shows "\<exists>obj d'. TargetCreateView new construct save u model_key k (POST (Some cleaned)) d
                     = (Inr (HttpResponseRedirect (target_detail model_key (Some k))), d')
           \<and> tbl d' = tbl d @ [obj]
           \<and> content_type obj = get_for_model (target_class t)
           \<and> content_type obj = (''cooking_companion'', model_key)
           \<and> object_id obj = py_str k
           \<and> created_by obj = Some u"
proof -
  note g = get_target_or_404_Inr [OF tgt]
  let ?x = "(construct cleaned new)\<lparr>content_type := get_for_model (target_class t),
                      object_id := py_str k, created_by := Some u\<rparr>"
  have x: "target_form_bind u t (get_for_model (target_class t)) (construct cleaned new) = ?x"
    using target_form_bind_new [OF unbound(2)] by (simp add: g(3) py_str_pk_def)
  from saves [OF refl] obtain obj d' where sv: "save ?x d = (Inr obj, d')"
    and r: "tbl d' = tbl d @ [obj]" and c: "content_type obj = content_type ?x"
    and o: "object_id obj = object_id ?x" and b: "created_by obj = created_by ?x" by blast
  have v: "TargetCreateView new construct save u model_key k (POST (Some cleaned)) d
             = (Inr (HttpResponseRedirect (target_detail model_key (Some k))), d')"
    by (simp add: TargetCreateView_def g(1) x sv g(3))
  have c1: "content_type obj = get_for_model (target_class t)" using c by simp
  have c2: "content_type obj = (''cooking_companion'', model_key)" using c1 g(4) by simp
  have o1: "object_id obj = py_str k" using o by simp
  have b1: "created_by obj = Some u" using b by simp
  from v r c1 c2 o1 b1 show ?thesis by blast
qed

text \<open>
  Claim C7. A valid POST to one of the four attachment create views, for a target that
  resolves for the requesting user (and, for an image or a document, a fresh uuid that no
  stored row has), succeeds: the view redirects to the page of the target, and the table of
  the attachment has gained exactly one row, at its end, whose content type is the content
  type of the target's model, that is the application's label with the model key of the
  request, whose object id is \<^verbatim>\<open>str\<close> of the target's primary key, and whose created_by
  is the requesting user. Conversely, whenever such a POST succeeds, the target was resolved
  through the allow-list under the ownership filter and the new row is bound in this way.
  The lines that bind the instance stamp created_by when it is absent (\<^verbatim>\<open>None\<close>, or 0)
  and keep any other value. For a primary key that is not negative, the object id read as a
  decimal numeral is the key.
\<close>

theorem attachment_bound_to_target:
  "(get_target_or_404 u model_key k d = Inr t \<longrightarrow>
      (\<exists>obj d'. TargetNoteCreateView u model_key k (POST (Some cn)) now d
                   = (Inr (HttpResponseRedirect (target_detail model_key (Some k))), d')
         \<and> rows (Note_objects d') = rows (Note_objects d) @ [obj]
         \<and> content_type obj = get_for_model (target_class t)
         \<and> content_type obj = (''cooking_companion'', model_key)
         \<and> object_id obj = py_str k \<and> created_by obj = Some u))
   \<and> (get_target_or_404 u model_key k d = Inr t \<longrightarrow>
      (\<exists>obj d'. TargetReferenceURLCreateView u model_key k (POST (Some cu)) now d
                   = (Inr (HttpResponseRedirect (target_detail model_key (Some k))), d')
         \<and> rows (ReferenceURL_objects d') = rows (ReferenceURL_objects d) @ [obj]
         \<and> content_type obj = get_for_model (target_class t)
         \<and> content_type obj = (''cooking_companion'', model_key)
         \<and> object_id obj = py_str k \<and> created_by obj = Some u))
   \<and> (get_target_or_404 u model_key k d = Inr t
        \<and> \<not> list_ex (\<lambda>r. pk r \<noteq> None \<and> image_uuid r = fresh_uuid) (rows (TrackedImage_objects d)) \<longrightarrow>
      (\<exists>obj d'. TargetTrackedImageCreateView storage fresh_uuid u model_key k (POST (Some ci)) now d
                   = (Inr (HttpResponseRedirect (target_detail model_key (Some k))), d')
         \<and> rows (TrackedImage_objects d') = rows (TrackedImage_objects d) @ [obj]
         \<and> content_type obj = get_for_model (target_class t)
         \<and> content_type obj = (''cooking_companion'', model_key)
         \<and> object_id obj = py_str k \<and> created_by obj = Some u))
   \<and> (get_target_or_404 u model_key k d = Inr t
        \<and> \<not> list_ex (\<lambda>r. pk r \<noteq> None \<and> pdf_uuid r = fresh_uuid) (rows (PDFDocument_objects d)) \<longrightarrow>
      (\<exists>obj d'. TargetPDFDocumentCreateView storage fresh_uuid u model_key k (POST (Some cp)) now d
                   = (Inr (HttpResponseRedirect (target_detail model_key (Some k))), d')
         \<and> rows (PDFDocument_objects d') = rows (PDFDocument_objects d) @ [obj]
         \<and> content_type obj = get_for_model (target_class t)
         \<and> content_type obj = (''cooking_companion'', model_key)
         \<and> object_id obj = py_str k \<and> created_by obj = Some u))
   \<and> (TargetNoteCreateView u model_key k (POST (Some cn)) now d = (Inr resp, e) \<longrightarrow>
      (\<exists>t obj. get_target_or_404 u model_key k d = Inr t
         \<and> ALLOWED_TARGET_MODELS model_key = Some (target_class t) \<and> target_pk t = Some k
         \<and> resp = HttpResponseRedirect (target_detail model_key (Some k))
         \<and> rows (Note_objects e) = rows (Note_objects d) @ [obj]
         \<and> content_type obj = get_for_model (target_class t)
         \<and> object_id obj = py_str k \<and> created_by obj = Some u))
   \<and> (TargetReferenceURLCreateView u model_key k (POST (Some cu)) now d = (Inr resp, e) \<longrightarrow>
      (\<exists>t obj. get_target_or_404 u model_key k d = Inr t
         \<and> ALLOWED_TARGET_MODELS model_key = Some (target_class t) \<and> target_pk t = Some k
         \<and> resp = HttpResponseRedirect (target_detail model_key (Some k))
         \<and> rows (ReferenceURL_objects e) = rows (ReferenceURL_objects d) @ [obj]
         \<and> content_type obj = get_for_model (target_class t)
         \<and> object_id obj = py_str k \<and> created_by obj = Some u))
   \<and> (TargetTrackedImageCreateView storage fresh_uuid u model_key k (POST (Some ci)) now d = (Inr resp, e) \<longrightarrow>
      (\<exists>t obj. get_target_or_404 u model_key k d = Inr t
         \<and> ALLOWED_TARGET_MODELS model_key = Some (target_class t) \<and> target_pk t = Some k
         \<and> resp = HttpResponseRedirect (target_detail model_key (Some k))
         \<and> rows (TrackedImage_objects e) = rows (TrackedImage_objects d) @ [obj]
         \<and> content_type obj = get_for_model (target_class t)
         \<and> object_id obj = py_str k \<and> created_by obj = Some u))
   \<and> (TargetPDFDocumentCreateView storage fresh_uuid u model_key k (POST (Some cp)) now d = (Inr resp, e) \<longrightarrow>
      (\<exists>t obj. get_target_or_404 u model_key k d = Inr t
         \<and> ALLOWED_TARGET_MODELS model_key = Some (target_class t) \<and> target_pk t = Some k
         \<and> resp = HttpResponseRedirect (target_detail model_key (Some k))
         \<and> rows (PDFDocument_objects e) = rows (PDFDocument_objects d) @ [obj]
         \<and> content_type obj = get_for_model (target_class t)
         \<and> object_id obj = py_str k \<and> created_by obj = Some u))
   \<and> (created_by (x :: note_model) = None \<or> created_by x = Some 0 \<longrightarrow>
        created_by (target_form_bind u t ct x) = Some u)
   \<and> (created_by x = Some w \<and> w \<noteq> 0 \<longrightarrow> created_by (target_form_bind u t ct x) = Some w)
   \<and> (0 \<le> k \<longrightarrow> decimal_value (py_str k) = nat k)"
proof -
  have n1: "\<exists>obj d'. TargetNoteCreateView u model_key k (POST (Some cn)) now d
                   = (Inr (HttpResponseRedirect (target_detail model_key (Some k))), d')
         \<and> rows (Note_objects d') = rows (Note_objects d) @ [obj]
         \<and> content_type obj = get_for_model (target_class t)
         \<and> content_type obj = (''cooking_companion'', model_key)
         \<and> object_id obj = py_str k \<and> created_by obj = Some u"
    if tgt: "get_target_or_404 u model_key k d = Inr t"
    unfolding TargetNoteCreateView_def
    by (rule TargetCreateView_success [where tbl = "\<lambda>d. rows (Note_objects d)"
          and construct = NoteForTargetForm_construct and new = "Note_new now" and cleaned = cn
          and save = "Note_save now", OF tgt new_unbound(1,2)])
      (rule Note_save_new, simp add: new_unbound(1))
  have u1: "\<exists>obj d'. TargetReferenceURLCreateView u model_key k (POST (Some cu)) now d
                   = (Inr (HttpResponseRedirect (target_detail model_key (Some k))), d')
         \<and> rows (ReferenceURL_objects d') = rows (ReferenceURL_objects d) @ [obj]
         \<and> content_type obj = get_for_model (target_class t)
         \<and> content_type obj = (''cooking_companion'', model_key)
         \<and> object_id obj = py_str k \<and> created_by obj = Some u"
    if tgt: "get_target_or_404 u model_key k d = Inr t"
    unfolding TargetReferenceURLCreateView_def
    by (rule TargetCreateView_success [where tbl = "\<lambda>d. rows (ReferenceURL_objects d)"
          and construct = ReferenceURLForTargetForm_construct and new = "ReferenceURL_new now"
          and cleaned = cu and save = "ReferenceURL_save now", OF tgt new_unbound(3,4)])
      (rule ReferenceURL_save_new, simp add: new_unbound(3))
  have i1: "\<exists>obj d'. TargetTrackedImageCreateView storage fresh_uuid u model_key k (POST (Some ci)) now d
                   = (Inr (HttpResponseRedirect (target_detail model_key (Some k))), d')
         \<and> rows (TrackedImage_objects d') = rows (TrackedImage_objects d) @ [obj]
         \<and> content_type obj = get_for_model (target_class t)
         \<and> content_type obj = (''cooking_companion'', model_key)
         \<and> object_id obj = py_str k \<and> created_by obj = Some u"
    if h: "get_target_or_404 u model_key k d = Inr t
        \<and> \<not> list_ex (\<lambda>r. pk r \<noteq> None \<and> image_uuid r = fresh_uuid) (rows (TrackedImage_objects d))"
    unfolding TargetTrackedImageCreateView_def
  proof (rule TargetCreateView_success [where tbl = "\<lambda>d. rows (TrackedImage_objects d)"
          and construct = TrackedImageForTargetForm_construct
          and new = "TrackedImage_new now fresh_uuid" and cleaned = ci
          and save = "TrackedImage_save storage now", OF h [THEN conjunct1] new_unbound(5,6)])
    fix x :: tracked_image
    assume x: "x = (TrackedImageForTargetForm_construct ci (TrackedImage_new now fresh_uuid))
                 \<lparr>content_type := get_for_model (target_class t), object_id := py_str k,
                  created_by := Some u\<rparr>"
    have p: "pk x = None" unfolding x by (simp add: new_unbound(5))
    have q: "image_uuid x = fresh_uuid" unfolding x by (simp add: new_uuid(1))
    show "\<exists>obj d'. TrackedImage_save storage now x d = (Inr obj, d')
          \<and> rows (TrackedImage_objects d') = rows (TrackedImage_objects d) @ [obj]
          \<and> content_type obj = content_type x \<and> object_id obj = object_id x
          \<and> created_by obj = created_by x"
      using p h [THEN conjunct2] unfolding q [symmetric] by (rule TrackedImage_save_new)
  qed
  have p1: "\<exists>obj d'. TargetPDFDocumentCreateView storage fresh_uuid u model_key k (POST (Some cp)) now d
                   = (Inr (HttpResponseRedirect (target_detail model_key (Some k))), d')
         \<and> rows (PDFDocument_objects d') = rows (PDFDocument_objects d) @ [obj]
         \<and> content_type obj = get_for_model (target_class t)
         \<and> content_type obj = (''cooking_companion'', model_key)
         \<and> object_id obj = py_str k \<and> created_by obj = Some u"
    if h: "get_target_or_404 u model_key k d = Inr t
        \<and> \<not> list_ex (\<lambda>r. pk r \<noteq> None \<and> pdf_uuid r = fresh_uuid) (rows (PDFDocument_objects d))"
    unfolding TargetPDFDocumentCreateView_def
  proof (rule TargetCreateView_success [where tbl = "\<lambda>d. rows (PDFDocument_objects d)"
          and construct = PDFDocumentForTargetForm_construct
          and new = "PDFDocument_new now fresh_uuid" and cleaned = cp
          and save = "PDFDocument_save storage now", OF h [THEN conjunct1] new_unbound(7,8)])
    fix x :: pdf_document
    assume x: "x = (PDFDocumentForTargetForm_construct cp (PDFDocument_new now fresh_uuid))
                 \<lparr>content_type := get_for_model (target_class t), object_id := py_str k,
                  created_by := Some u\<rparr>"
    have p: "pk x = None" unfolding x by (simp add: new_unbound(7))
    have q: "pdf_uuid x = fresh_uuid" unfolding x by (simp add: new_uuid(2))
    show "\<exists>obj d'. PDFDocument_save storage now x d = (Inr obj, d')
          \<and> rows (PDFDocument_objects d') = rows (PDFDocument_objects d) @ [obj]
          \<and> content_type obj = content_type x \<and> object_id obj = object_id x
          \<and> created_by obj = created_by x"
      using p h [THEN conjunct2] unfolding q [symmetric] by (rule PDFDocument_save_new)
  qed
  have n2: "\<exists>t obj. get_target_or_404 u model_key k d = Inr t
         \<and> ALLOWED_TARGET_MODELS model_key = Some (target_class t) \<and> target_pk t = Some k
         \<and> resp = HttpResponseRedirect (target_detail model_key (Some k))
         \<and> rows (Note_objects e) = rows (Note_objects d) @ [obj]
         \<and> content_type obj = get_for_model (target_class t)
         \<and> object_id obj = py_str k \<and> created_by obj = Some u"
    if "TargetNoteCreateView u model_key k (POST (Some cn)) now d = (Inr resp, e)"
  proof -
    from that have v: "TargetCreateView (Note_new now) NoteForTargetForm_construct (Note_save now)
        u model_key k (POST (Some cn)) d = (Inr resp, e)"
      by (simp add: TargetNoteCreateView_def)
    show ?thesis
      by (rule TargetCreateView_bound [where tbl = "\<lambda>d. rows (Note_objects d)", OF v new_unbound(1,2)])
        (rule Note_save_appends)
  qed
  have u2: "\<exists>t obj. get_target_or_404 u model_key k d = Inr t
         \<and> ALLOWED_TARGET_MODELS model_key = Some (target_class t) \<and> target_pk t = Some k
         \<and> resp = HttpResponseRedirect (target_detail model_key (Some k))
         \<and> rows (ReferenceURL_objects e) = rows (ReferenceURL_objects d) @ [obj]
         \<and> content_type obj = get_for_model (target_class t)
         \<and> object_id obj = py_str k \<and> created_by obj = Some u"
    if "TargetReferenceURLCreateView u model_key k (POST (Some cu)) now d = (Inr resp, e)"
  proof -
    from that have v: "TargetCreateView (ReferenceURL_new now) ReferenceURLForTargetForm_construct
        (ReferenceURL_save now) u model_key k (POST (Some cu)) d = (Inr resp, e)"
      by (simp add: TargetReferenceURLCreateView_def)
    show ?thesis
      by (rule TargetCreateView_bound [where tbl = "\<lambda>d. rows (ReferenceURL_objects d)", OF v new_unbound(3,4)])
        (rule ReferenceURL_save_appends)
  qed
  have i2: "\<exists>t obj. get_target_or_404 u model_key k d = Inr t
         \<and> ALLOWED_TARGET_MODELS model_key = Some (target_class t) \<and> target_pk t = Some k
         \<and> resp = HttpResponseRedirect (target_detail model_key (Some k))
         \<and> rows (TrackedImage_objects e) = rows (TrackedImage_objects d) @ [obj]
         \<and> content_type obj = get_for_model (target_class t)
         \<and> object_id obj = py_str k \<and> created_by obj = Some u"
    if "TargetTrackedImageCreateView storage fresh_uuid u model_key k (POST (Some ci)) now d = (Inr resp, e)"
  proof -
    from that have v: "TargetCreateView (TrackedImage_new now fresh_uuid) TrackedImageForTargetForm_construct
        (TrackedImage_save storage now) u model_key k (POST (Some ci)) d = (Inr resp, e)"
      by (simp add: TargetTrackedImageCreateView_def)
    show ?thesis
      by (rule TargetCreateView_bound [where tbl = "\<lambda>d. rows (TrackedImage_objects d)", OF v new_unbound(5,6)])
        (rule TrackedImage_save_appends)
  qed
  have p2: "\<exists>t obj. get_target_or_404 u model_key k d = Inr t
         \<and> ALLOWED_TARGET_MODELS model_key = Some (target_class t) \<and> target_pk t = Some k
         \<and> resp = HttpResponseRedirect (target_detail model_key (Some k))
         \<and> rows (PDFDocument_objects e) = rows (PDFDocument_objects d) @ [obj]
         \<and> content_type obj = get_for_model (target_class t)
         \<and> object_id obj = py_str k \<and> created_by obj = Some u"
    if "TargetPDFDocumentCreateView storage fresh_uuid u model_key k (POST (Some cp)) now d = (Inr resp, e)"
  proof -
    from that have v: "TargetCreateView (PDFDocument_new now fresh_uuid) PDFDocumentForTargetForm_construct
        (PDFDocument_save storage now) u model_key k (POST (Some cp)) d = (Inr resp, e)"
      by (simp add: TargetPDFDocumentCreateView_def)
    show ?thesis
      by (rule TargetCreateView_bound [where tbl = "\<lambda>d. rows (PDFDocument_objects d)", OF v new_unbound(7,8)])
        (rule PDFDocument_save_appends)
  qed
  have b1: "created_by (target_form_bind u t ct x) = Some u"
    if "created_by x = None \<or> created_by x = Some 0"
    using that by (auto simp: target_form_bind_def Let_def)
  have b2: "created_by (target_form_bind u t ct x) = Some w"
    if "created_by x = Some w \<and> w \<noteq> 0"
    using that by (simp add: target_form_bind_def Let_def)
  have dv: "decimal_value (py_str k) = nat k" if "0 \<le> k"
    using that by (rule decimal_value_py_str)
  from n1 u1 i1 p1 n2 u2 i2 p2 b1 b2 dv show ?thesis by blast
qed

lemma created_row:
  assumes "\<exists>obj d'. v = (Inr r, d') \<and> tbl d' = xs @ [obj] \<and> content_type obj = ct0
             \<and> content_type obj = ct \<and> object_id obj = oid \<and> created_by obj = b"
  shows "fst v = Inr r \<and> length (tbl (snd v)) = length xs + 1
       \<and> content_type (last (tbl (snd v))) = ct \<and> object_id (last (tbl (snd v))) = oid
       \<and> created_by (last (tbl (snd v))) = b"
proof -
  from assms obtain obj d' where "v = (Inr r, d')" "tbl d' = xs @ [obj]" "content_type obj = ct"
    "object_id obj = oid" "created_by obj = b" by blast
  then show ?thesis by simp
qed

lemma py_str_1_2: "py_str 1 = ''1''" "py_str 2 = ''2''"
  by code_simp+

lemma ex_targets:
  "get_target_or_404 1 ''dish'' 2 ex_db = Inr (DishObj (ex_dish (Some 2) None ''Soup'' (Some 1)))"
  "get_target_or_404 1 ''cooksession'' 1 ex_db
     = Inr (CookSessionObj (ex_session 1 (Some 1) 1 (Some 1) 738000))"
  "get_target_or_404 2 ''cookresult'' 1 ex_db_with_result = Inl Http404"
  "get_target_or_404 1 ''cookresult'' 1 ex_db_with_result
     = Inr (CookResultObj (ex_result 1 (Some 1) 2 ''experiment''))"
  "get_target_or_404 2 ''recipe'' 2 ex_db = Inr (RecipeObj (ex_recipe 2 None))"
  by code_simp+

lemma ex_no_files:
  "rows (ReferenceURL_objects ex_db) = []"
  "rows (TrackedImage_objects ex_db_with_result) = []"
  "rows (PDFDocument_objects ex_db) = []"
  by (simp_all add: ex_db_def ex_db_with_result_def empty_db_def empty_table_def)

lemma note_on_recipe_2:
  "TargetNoteCreateView 1 ''recipe'' 2 (POST (Some (ex_note 0 None ([], []) []))) 50 ex_db
     = (Inr (HttpResponseRedirect (target_detail ''recipe'' (Some 2))),
        snd (TargetNoteCreateView 1 ''recipe'' 2 (POST (Some (ex_note 0 None ([], []) []))) 50 ex_db))"
proof -
  have "fst (TargetNoteCreateView 1 ''recipe'' 2 (POST (Some (ex_note 0 None ([], []) []))) 50 ex_db)
     = Inr (HttpResponseRedirect (target_detail ''recipe'' (Some 2)))"
    by code_simp
  then show ?thesis
    by (cases "TargetNoteCreateView 1 ''recipe'' 2 (POST (Some (ex_note 0 None ([], []) []))) 50 ex_db")
      simp
qed

text \<open>
  Claim C7, instances, one for each kind of attachment and each kind of target: in the
  example database user 1 posts a note for dish 2, which has no owner, and a URL for the
  user's own cook session 1; user 1 posts an image for the user's own cook result 1; user 2
  posts a document for recipe 2, which has no owner. Each view redirects to the target and
  the new row is the last of its table, bound to the target and stamped with the user. For
  the note that user 1 posts for recipe 2, the success of the view gives the same. The
  lines that bind an instance keep the created_by of a note of user 1.
\<close>

theorem attachment_bound_to_target_witness:
  "fst (TargetNoteCreateView 1 ''dish'' 2 (POST (Some (ex_note 0 None ([], []) []))) 50 ex_db)
       = Inr (HttpResponseRedirect (target_detail ''dish'' (Some 2)))
   \<and> length (rows (Note_objects (snd (TargetNoteCreateView 1 ''dish'' 2 (POST (Some (ex_note 0 None ([], []) []))) 50 ex_db)))) = 3
   \<and> content_type (last (rows (Note_objects (snd (TargetNoteCreateView 1 ''dish'' 2 (POST (Some (ex_note 0 None ([], []) []))) 50 ex_db)))))
       = (''cooking_companion'', ''dish'')
   \<and> object_id (last (rows (Note_objects (snd (TargetNoteCreateView 1 ''dish'' 2 (POST (Some (ex_note 0 None ([], []) []))) 50 ex_db))))) = ''2''
   \<and> created_by (last (rows (Note_objects (snd (TargetNoteCreateView 1 ''dish'' 2 (POST (Some (ex_note 0 None ([], []) []))) 50 ex_db))))) = Some 1
   \<and> fst (TargetReferenceURLCreateView 1 ''cooksession'' 1 (POST (Some ((ReferenceURL_new 0)\<lparr>url := ''https://example.org/bacon''\<rparr>))) 50 ex_db)
       = Inr (HttpResponseRedirect (target_detail ''cooksession'' (Some 1)))
   \<and> length (rows (ReferenceURL_objects (snd (TargetReferenceURLCreateView 1 ''cooksession'' 1 (POST (Some ((ReferenceURL_new 0)\<lparr>url := ''https://example.org/bacon''\<rparr>))) 50 ex_db)))) = 1
   \<and> content_type (last (rows (ReferenceURL_objects (snd (TargetReferenceURLCreateView 1 ''cooksession'' 1 (POST (Some ((ReferenceURL_new 0)\<lparr>url := ''https://example.org/bacon''\<rparr>))) 50 ex_db)))))
       = (''cooking_companion'', ''cooksession'')
   \<and> object_id (last (rows (ReferenceURL_objects (snd (TargetReferenceURLCreateView 1 ''cooksession'' 1 (POST (Some ((ReferenceURL_new 0)\<lparr>url := ''https://example.org/bacon''\<rparr>))) 50 ex_db))))) = ''1''
   \<and> created_by (last (rows (ReferenceURL_objects (snd (TargetReferenceURLCreateView 1 ''cooksession'' 1 (POST (Some ((ReferenceURL_new 0)\<lparr>url := ''https://example.org/bacon''\<rparr>))) 50 ex_db))))) = Some 1
   \<and> fst (TargetTrackedImageCreateView (\<lambda>n. n) ''u7'' 1 ''cookresult'' 1 (POST (Some ((TrackedImage_new 0 [])\<lparr>image := \<lparr>file_name = ''bacon.jpg'', committed = False\<rparr>\<rparr>))) 50 ex_db_with_result)
       = Inr (HttpResponseRedirect (target_detail ''cookresult'' (Some 1)))
   \<and> length (rows (TrackedImage_objects (snd (TargetTrackedImageCreateView (\<lambda>n. n) ''u7'' 1 ''cookresult'' 1 (POST (Some ((TrackedImage_new 0 [])\<lparr>image := \<lparr>file_name = ''bacon.jpg'', committed = False\<rparr>\<rparr>))) 50 ex_db_with_result)))) = 1
   \<and> content_type (last (rows (TrackedImage_objects (snd (TargetTrackedImageCreateView (\<lambda>n. n) ''u7'' 1 ''cookresult'' 1 (POST (Some ((TrackedImage_new 0 [])\<lparr>image := \<lparr>file_name = ''bacon.jpg'', committed = False\<rparr>\<rparr>))) 50 ex_db_with_result)))))
       = (''cooking_companion'', ''cookresult'')
   \<and> object_id (last (rows (TrackedImage_objects (snd (TargetTrackedImageCreateView (\<lambda>n. n) ''u7'' 1 ''cookresult'' 1 (POST (Some ((TrackedImage_new 0 [])\<lparr>image := \<lparr>file_name = ''bacon.jpg'', committed = False\<rparr>\<rparr>))) 50 ex_db_with_result))))) = ''1''
   \<and> created_by (last (rows (TrackedImage_objects (snd (TargetTrackedImageCreateView (\<lambda>n. n) ''u7'' 1 ''cookresult'' 1 (POST (Some ((TrackedImage_new 0 [])\<lparr>image := \<lparr>file_name = ''bacon.jpg'', committed = False\<rparr>\<rparr>))) 50 ex_db_with_result))))) = Some 1
   \<and> fst (TargetPDFDocumentCreateView (\<lambda>n. n) ''u8'' 2 ''recipe'' 2 (POST (Some (ex_pdf ''card.pdf'' []))) 50 ex_db)
       = Inr (HttpResponseRedirect (target_detail ''recipe'' (Some 2)))
   \<and> length (rows (PDFDocument_objects (snd (TargetPDFDocumentCreateView (\<lambda>n. n) ''u8'' 2 ''recipe'' 2 (POST (Some (ex_pdf ''card.pdf'' []))) 50 ex_db)))) = 1
   \<and> content_type (last (rows (PDFDocument_objects (snd (TargetPDFDocumentCreateView (\<lambda>n. n) ''u8'' 2 ''recipe'' 2 (POST (Some (ex_pdf ''card.pdf'' []))) 50 ex_db)))))
       = (''cooking_companion'', ''recipe'')
   \<and> object_id (last (rows (PDFDocument_objects (snd (TargetPDFDocumentCreateView (\<lambda>n. n) ''u8'' 2 ''recipe'' 2 (POST (Some (ex_pdf ''card.pdf'' []))) 50 ex_db))))) = ''2''
   \<and> created_by (last (rows (PDFDocument_objects (snd (TargetPDFDocumentCreateView (\<lambda>n. n) ''u8'' 2 ''recipe'' 2 (POST (Some (ex_pdf ''card.pdf'' []))) 50 ex_db))))) = Some 2
   \<and> (\<exists>obj. rows (Note_objects (snd (TargetNoteCreateView 1 ''recipe'' 2
                 (POST (Some (ex_note 0 None ([], []) []))) 50 ex_db)))
               = rows (Note_objects ex_db) @ [obj]
          \<and> content_type obj = (''cooking_companion'', ''recipe'')
          \<and> object_id obj = ''2'' \<and> created_by obj = Some 1)
   \<and> created_by (target_form_bind 2 (RecipeObj (ex_recipe 2 None)) (''cooking_companion'', ''recipe'')
        (ex_note 1 None ([], []) [])) = Some 2
   \<and> created_by (target_form_bind 2 (RecipeObj (ex_recipe 2 None)) (''cooking_companion'', ''recipe'')
        (ex_note 1 (Some 1) ([], []) [])) = Some 1
   \<and> decimal_value (py_str 2) = 2"
proof -
  have hi: "get_target_or_404 1 ''cookresult'' 1 ex_db_with_result
              = Inr (CookResultObj (ex_result 1 (Some 1) 2 ''experiment''))
            \<and> \<not> list_ex (\<lambda>r. pk r \<noteq> None \<and> image_uuid r = ''u7'')
                  (rows (TrackedImage_objects ex_db_with_result))"
    by (simp add: ex_targets ex_no_files)
  have hp: "get_target_or_404 2 ''recipe'' 2 ex_db = Inr (RecipeObj (ex_recipe 2 None))
            \<and> \<not> list_ex (\<lambda>r. pk r \<noteq> None \<and> pdf_uuid r = ''u8'') (rows (PDFDocument_objects ex_db))"
    by (simp add: ex_targets ex_no_files)
  note n = attachment_bound_to_target [where d = ex_db and now = 50
      and cn = "ex_note 0 None ([], []) []", THEN conjunct1, THEN mp, OF ex_targets(1)]
  note u = attachment_bound_to_target [where d = ex_db and now = 50
      and cu = "(ReferenceURL_new 0)\<lparr>url := ''https://example.org/bacon''\<rparr>",
      THEN conjunct2, THEN conjunct1, THEN mp, OF ex_targets(2)]
  note i = attachment_bound_to_target [where d = ex_db_with_result and now = 50
      and storage = "\<lambda>n. n"
      and ci = "(TrackedImage_new 0 [])\<lparr>image := \<lparr>file_name = ''bacon.jpg'', committed = False\<rparr>\<rparr>",
      THEN conjunct2, THEN conjunct2, THEN conjunct1, THEN mp, OF hi]
  note p = attachment_bound_to_target [where d = ex_db and now = 50 and storage = "\<lambda>n. n"
      and cp = "ex_pdf ''card.pdf'' []",
      THEN conjunct2, THEN conjunct2, THEN conjunct2, THEN conjunct1, THEN mp, OF hp]
  note c = attachment_bound_to_target [where d = ex_db and now = 50
      and cn = "ex_note 0 None ([], []) []",
      THEN conjunct2, THEN conjunct2, THEN conjunct2, THEN conjunct2, THEN conjunct1, THEN mp,
      OF note_on_recipe_2]
  have b1: "created_by (target_form_bind 2 (RecipeObj (ex_recipe 2 None)) (''cooking_companion'', ''recipe'')
        (ex_note 1 None ([], []) [])) = Some 2"
    by (rule attachment_bound_to_target [where u = 2 and t = "RecipeObj (ex_recipe 2 None)"
          and ct = "(''cooking_companion'', ''recipe'')" and x = "ex_note 1 None ([], []) []",
          THEN conjunct2, THEN conjunct2, THEN conjunct2, THEN conjunct2, THEN conjunct2,
          THEN conjunct2, THEN conjunct2, THEN conjunct2, THEN conjunct1, THEN mp])
      (simp add: ex_note_def)
  have b2: "created_by (target_form_bind 2 (RecipeObj (ex_recipe 2 None)) (''cooking_companion'', ''recipe'')
        (ex_note 1 (Some 1) ([], []) [])) = Some 1"
    by (rule attachment_bound_to_target [where u = 2 and t = "RecipeObj (ex_recipe 2 None)"
          and ct = "(''cooking_companion'', ''recipe'')" and x = "ex_note 1 (Some 1) ([], []) []"
          and w = 1,
          THEN conjunct2, THEN conjunct2, THEN conjunct2, THEN conjunct2, THEN conjunct2,
          THEN conjunct2, THEN conjunct2, THEN conjunct2, THEN conjunct2, THEN conjunct1, THEN mp])
      (simp add: ex_note_def)
  have dv: "decimal_value (py_str 2) = 2"
    using attachment_bound_to_target [where k = 2,
          THEN conjunct2, THEN conjunct2, THEN conjunct2, THEN conjunct2, THEN conjunct2,
          THEN conjunct2, THEN conjunct2, THEN conjunct2, THEN conjunct2, THEN conjunct2, THEN mp]
    by simp
  from c obtain t obj where a: "ALLOWED_TARGET_MODELS ''recipe'' = Some (target_class t)"
    and r: "rows (Note_objects (snd (TargetNoteCreateView 1 ''recipe'' 2
                 (POST (Some (ex_note 0 None ([], []) []))) 50 ex_db)))
               = rows (Note_objects ex_db) @ [obj]"
    and ct: "content_type obj = get_for_model (target_class t)"
    and o: "object_id obj = py_str 2" and b: "created_by obj = Some 1" by blast
  from a have "get_for_model (target_class t) = (''cooking_companion'', ''recipe'')"
    by (rule allowed_content_type)
  with ct have ct': "content_type obj = (''cooking_companion'', ''recipe'')" by simp
  have c': "\<exists>obj. rows (Note_objects (snd (TargetNoteCreateView 1 ''recipe'' 2
                 (POST (Some (ex_note 0 None ([], []) []))) 50 ex_db)))
               = rows (Note_objects ex_db) @ [obj]
          \<and> content_type obj = (''cooking_companion'', ''recipe'')
          \<and> object_id obj = ''2'' \<and> created_by obj = Some 1"
    using r ct' o b by (auto simp: py_str_1_2)
  note n' = created_row [where tbl = "\<lambda>d. rows (Note_objects d)", OF n]
  note u' = created_row [where tbl = "\<lambda>d. rows (ReferenceURL_objects d)", OF u]
  note i' = created_row [where tbl = "\<lambda>d. rows (TrackedImage_objects d)", OF i]
  note p' = created_row [where tbl = "\<lambda>d. rows (PDFDocument_objects d)", OF p]
  have n'': "fst (TargetNoteCreateView 1 ''dish'' 2 (POST (Some (ex_note 0 None ([], []) []))) 50 ex_db)
       = Inr (HttpResponseRedirect (target_detail ''dish'' (Some 2)))
   \<and> length (rows (Note_objects (snd (TargetNoteCreateView 1 ''dish'' 2 (POST (Some (ex_note 0 None ([], []) []))) 50 ex_db)))) = 3
   \<and> content_type (last (rows (Note_objects (snd (TargetNoteCreateView 1 ''dish'' 2 (POST (Some (ex_note 0 None ([], []) []))) 50 ex_db)))))
       = (''cooking_companion'', ''dish'')
   \<and> object_id (last (rows (Note_objects (snd (TargetNoteCreateView 1 ''dish'' 2 (POST (Some (ex_note 0 None ([], []) []))) 50 ex_db))))) = ''2''
   \<and> created_by (last (rows (Note_objects (snd (TargetNoteCreateView 1 ''dish'' 2 (POST (Some (ex_note 0 None ([], []) []))) 50 ex_db))))) = Some 1"
    using n' by (simp add: py_str_1_2 ex_db_simps)
  have u'': "fst (TargetReferenceURLCreateView 1 ''cooksession'' 1 (POST (Some ((ReferenceURL_new 0)\<lparr>url := ''https://example.org/bacon''\<rparr>))) 50 ex_db)
       = Inr (HttpResponseRedirect (target_detail ''cooksession'' (Some 1)))
   \<and> length (rows (ReferenceURL_objects (snd (TargetReferenceURLCreateView 1 ''cooksession'' 1 (POST (Some ((ReferenceURL_new 0)\<lparr>url := ''https://example.org/bacon''\<rparr>))) 50 ex_db)))) = 1
   \<and> content_type (last (rows (ReferenceURL_objects (snd (TargetReferenceURLCreateView 1 ''cooksession'' 1 (POST (Some ((ReferenceURL_new 0)\<lparr>url := ''https://example.org/bacon''\<rparr>))) 50 ex_db)))))
       = (''cooking_companion'', ''cooksession'')
   \<and> object_id (last (rows (ReferenceURL_objects (snd (TargetReferenceURLCreateView 1 ''cooksession'' 1 (POST (Some ((ReferenceURL_new 0)\<lparr>url := ''https://example.org/bacon''\<rparr>))) 50 ex_db))))) = ''1''
   \<and> created_by (last (rows (ReferenceURL_objects (snd (TargetReferenceURLCreateView 1 ''cooksession'' 1 (POST (Some ((ReferenceURL_new 0)\<lparr>url := ''https://example.org/bacon''\<rparr>))) 50 ex_db))))) = Some 1"
    using u' by (simp add: py_str_1_2 ex_no_files)
  have i'': "fst (TargetTrackedImageCreateView (\<lambda>n. n) ''u7'' 1 ''cookresult'' 1 (POST (Some ((TrackedImage_new 0 [])\<lparr>image := \<lparr>file_name = ''bacon.jpg'', committed = False\<rparr>\<rparr>))) 50 ex_db_with_result)
       = Inr (HttpResponseRedirect (target_detail ''cookresult'' (Some 1)))
   \<and> length (rows (TrackedImage_objects (snd (TargetTrackedImageCreateView (\<lambda>n. n) ''u7'' 1 ''cookresult'' 1 (POST (Some ((TrackedImage_new 0 [])\<lparr>image := \<lparr>file_name = ''bacon.jpg'', committed = False\<rparr>\<rparr>))) 50 ex_db_with_result)))) = 1
   \<and> content_type (last (rows (TrackedImage_objects (snd (TargetTrackedImageCreateView (\<lambda>n. n) ''u7'' 1 ''cookresult'' 1 (POST (Some ((TrackedImage_new 0 [])\<lparr>image := \<lparr>file_name = ''bacon.jpg'', committed = False\<rparr>\<rparr>))) 50 ex_db_with_result)))))
       = (''cooking_companion'', ''cookresult'')
   \<and> object_id (last (rows (TrackedImage_objects (snd (TargetTrackedImageCreateView (\<lambda>n. n) ''u7'' 1 ''cookresult'' 1 (POST (Some ((TrackedImage_new 0 [])\<lparr>image := \<lparr>file_name = ''bacon.jpg'', committed = False\<rparr>\<rparr>))) 50 ex_db_with_result))))) = ''1''
   \<and> created_by (last (rows (TrackedImage_objects (snd (TargetTrackedImageCreateView (\<lambda>n. n) ''u7'' 1 ''cookresult'' 1 (POST (Some ((TrackedImage_new 0 [])\<lparr>image := \<lparr>file_name = ''bacon.jpg'', committed = False\<rparr>\<rparr>))) 50 ex_db_with_result))))) = Some 1"
    using i' by (simp add: py_str_1_2 ex_no_files)
  have p'': "fst (TargetPDFDocumentCreateView (\<lambda>n. n) ''u8'' 2 ''recipe'' 2 (POST (Some (ex_pdf ''card.pdf'' []))) 50 ex_db)
       = Inr (HttpResponseRedirect (target_detail ''recipe'' (Some 2)))
   \<and> length (rows (PDFDocument_objects (snd (TargetPDFDocumentCreateView (\<lambda>n. n) ''u8'' 2 ''recipe'' 2 (POST (Some (ex_pdf ''card.pdf'' []))) 50 ex_db)))) = 1
   \<and> content_type (last (rows (PDFDocument_objects (snd (TargetPDFDocumentCreateView (\<lambda>n. n) ''u8'' 2 ''recipe'' 2 (POST (Some (ex_pdf ''card.pdf'' []))) 50 ex_db)))))
       = (''cooking_companion'', ''recipe'')
   \<and> object_id (last (rows (PDFDocument_objects (snd (TargetPDFDocumentCreateView (\<lambda>n. n) ''u8'' 2 ''recipe'' 2 (POST (Some (ex_pdf ''card.pdf'' []))) 50 ex_db))))) = ''2''
   \<and> created_by (last (rows (PDFDocument_objects (snd (TargetPDFDocumentCreateView (\<lambda>n. n) ''u8'' 2 ''recipe'' 2 (POST (Some (ex_pdf ''card.pdf'' []))) 50 ex_db))))) = Some 2"
    using p' by (simp add: py_str_1_2 ex_no_files)
  from n'' u'' i'' p'' c' b1 b2 dv show ?thesis by blast
qed

section \<open>The unique constraint of dishes\<close>

lemma Dish_save_rejects:
  assumes "x \<in> set (rows (Dish_objects d))" and "pk x \<noteq> pk obj"
    and "created_by obj = Some owner" and "created_by x = Some owner"
    and "dish_name x = dish_name obj"
  shows "Dish_save now obj d = (Inl IntegrityError, d)"
proof -
  have "list_ex (\<lambda>r. pk r \<noteq> pk obj \<and> created_by r \<noteq> None \<and> created_by r = created_by obj
                      \<and> dish_name r = dish_name obj) (rows (Dish_objects d))"
    using assms by (auto simp: list_ex_iff)
  then show ?thesis by (simp add: Dish_save_def uniq_dish_per_owner_name_def)
qed

lemma Dish_save_accepts:
  assumes "\<forall>x \<in> set (rows (Dish_objects d)).
             pk x \<noteq> pk obj \<and> dish_name x = dish_name obj \<longrightarrow>
               created_by x = None \<or> created_by obj = None \<or> created_by x \<noteq> created_by obj"
    and "fk_null_or_exists (default_recipe_id obj) (rows (Recipe_objects d))"
  shows "uniq_dish_per_owner_name obj (rows (Dish_objects d))"
    and "Dish_save now obj d =
           (Inr (fst (model_save now obj (Dish_objects d))),
            d\<lparr>Dish_objects := snd (model_save now obj (Dish_objects d))\<rparr>)"
proof -
  show u: "uniq_dish_per_owner_name obj (rows (Dish_objects d))"
    using assms(1) by (auto simp: uniq_dish_per_owner_name_def list_ex_iff)
  then show "Dish_save now obj d =
           (Inr (fst (model_save now obj (Dish_objects d))),
            d\<lparr>Dish_objects := snd (model_save now obj (Dish_objects d))\<rparr>)"
    using assms(2) by (simp add: Dish_save_def split_beta)
qed

lemma Dish_save_dangling:
  assumes "\<not> fk_null_or_exists (default_recipe_id obj) (rows (Recipe_objects d))"
  shows "Dish_save now obj d = (Inl IntegrityError, d)"
  using assms by (simp add: Dish_save_def)

lemma model_save_rows:
  "rows (snd (model_save now obj t)) =
     (if pk obj \<noteq> None \<and> list_ex (\<lambda>r. pk r = pk obj) (rows t)
      then map (\<lambda>r. if pk r = pk obj then obj\<lparr>updated_at := now\<rparr> else r) (rows t)
      else rows t @ [fst (model_save now obj t)])"
  by (cases "pk obj") (auto simp: model_save_def Let_def)

lemma model_save_table_ok:
  assumes "table_ok t" and "pk obj = None \<or> list_ex (\<lambda>r. pk r = pk obj) (rows t)"
  shows "table_ok (snd (model_save now obj t))"
proof (cases "pk obj")
  case None
  then have r: "rows (snd (model_save now obj t)) = rows t @ [obj\<lparr>updated_at := now, pk := Some (seq t + 1)\<rparr>]"
    and s: "seq (snd (model_save now obj t)) = seq t + 1"
    by (simp_all add: model_save_insert)
  show ?thesis
    using assms(1) unfolding table_ok_cols r s
    by (auto simp: list_all_iff split: option.splits)
next
  case (Some k)
  with assms(2) have ex: "list_ex (\<lambda>r. pk r = Some k) (rows t)" by simp
  have r: "rows (snd (model_save now obj t)) =
      map (\<lambda>r. if pk r = Some k then obj\<lparr>updated_at := now\<rparr> else r) (rows t)"
    and s: "seq (snd (model_save now obj t)) = seq t"
    by (simp_all add: model_save_update [OF Some ex])
  have m: "map pk (map (\<lambda>r. if pk r = Some k then obj\<lparr>updated_at := now\<rparr> else r) (rows t)) = map pk (rows t)"
    using Some by (simp add: comp_def cong: map_cong)
  from assms(1) show ?thesis
    unfolding table_ok_cols r s m .
qed

lemma Dish_save_keeps_unique:
  assumes ok: "table_ok (Dish_objects d)" and un: "dishes_unique (rows (Dish_objects d))"
    and known: "pk obj = None \<or> list_ex (\<lambda>r. pk r = pk obj) (rows (Dish_objects d))"
  shows "table_ok (Dish_objects (snd (Dish_save now obj d)))"
    and "dishes_unique (rows (Dish_objects (snd (Dish_save now obj d))))"
proof -
  let ?rows = "rows (Dish_objects d)"
  let ?pass = "uniq_dish_per_owner_name obj ?rows
                 \<and> fk_null_or_exists (default_recipe_id obj) (rows (Recipe_objects d))"
  show "table_ok (Dish_objects (snd (Dish_save now obj d)))"
  proof (cases ?pass)
    case False
    then have "Dish_save now obj d = (Inl IntegrityError, d)"
      unfolding Dish_save_def by (rule if_not_P)
    then have "snd (Dish_save now obj d) = d" by simp
    with ok show ?thesis by simp
  next
    case True
    then have "Dish_objects (snd (Dish_save now obj d)) = snd (model_save now obj (Dish_objects d))"
      by (simp add: Dish_save_def split_beta)
    with model_save_table_ok [OF ok known, of now] show ?thesis by simp
  qed
  show "dishes_unique (rows (Dish_objects (snd (Dish_save now obj d))))"
  proof (cases ?pass)
    case False
    then have "Dish_save now obj d = (Inl IntegrityError, d)"
      unfolding Dish_save_def by (rule if_not_P)
    then have "snd (Dish_save now obj d) = d" by simp
    then show ?thesis using un by simp
  next
    case True
    then have chk: "\<And>y. y \<in> set ?rows \<Longrightarrow> pk y \<noteq> pk obj \<Longrightarrow> created_by y \<noteq> None \<Longrightarrow>
        created_by y = created_by obj \<Longrightarrow> dish_name y \<noteq> dish_name obj"
      by (auto simp: uniq_dish_per_owner_name_def list_ex_iff)
    have U: "pk x = pk y"
      if "x \<in> set ?rows" "y \<in> set ?rows" "created_by x \<noteq> None"
        "created_by x = created_by y" "dish_name x = dish_name y" for x y
      using un [unfolded dishes_unique_def, rule_format, OF that(1) that(2)] that(3,4,5) by blast
    let ?o = "fst (model_save now obj (Dish_objects d))"
    have o: "created_by ?o = created_by obj" "dish_name ?o = dish_name obj"
      by (simp_all add: model_save_fst)
    have e: "rows (Dish_objects (snd (Dish_save now obj d))) = rows (snd (model_save now obj (Dish_objects d)))"
      using True by (simp add: Dish_save_def split_beta)
    show ?thesis
    proof (cases "pk obj \<noteq> None \<and> list_ex (\<lambda>r. pk r = pk obj) ?rows")
      case upd: True
      let ?o1 = "obj\<lparr>updated_at := now\<rparr>"
      let ?f = "\<lambda>r. if pk r = pk obj then ?o1 else r"
      have r: "rows (Dish_objects (snd (Dish_save now obj d))) = map ?f ?rows"
        unfolding e using upd by (simp add: model_save_rows)
      have "pk (?f x) = pk (?f y)"
        if x: "x \<in> set ?rows" and y: "y \<in> set ?rows"
          and c: "created_by (?f x) \<noteq> None" "created_by (?f x) = created_by (?f y)"
            "dish_name (?f x) = dish_name (?f y)" for x y
      proof (cases "pk x = pk obj"; cases "pk y = pk obj")
        assume "pk x = pk obj" "pk y = pk obj"
        then show ?thesis by simp
      next
        assume a: "pk x = pk obj" "pk y \<noteq> pk obj"
        with c have "created_by y \<noteq> None" "created_by y = created_by obj" "dish_name y = dish_name obj"
          by simp_all
        with chk [OF y a(2)] show ?thesis by blast
      next
        assume a: "pk x \<noteq> pk obj" "pk y = pk obj"
        with c have "created_by x \<noteq> None" "created_by x = created_by obj" "dish_name x = dish_name obj"
          by simp_all
        with chk [OF x a(1)] show ?thesis by blast
      next
        assume a: "pk x \<noteq> pk obj" "pk y \<noteq> pk obj"
        with c have "created_by x \<noteq> None" "created_by x = created_by y" "dish_name x = dish_name y"
          by simp_all
        then have "pk x = pk y" by (rule U [OF x y])
        with a show ?thesis by simp
      qed
      note pair = this
      show ?thesis
        unfolding r dishes_unique_def
      proof (intro ballI impI)
        fix x' y'
        assume x': "x' \<in> set (map ?f ?rows)" and y': "y' \<in> set (map ?f ?rows)"
          and c: "created_by x' \<noteq> None \<and> created_by x' = created_by y' \<and> dish_name x' = dish_name y'"
        from x' obtain x where x: "x \<in> set ?rows" "x' = ?f x" by (auto simp only: set_map)
        from y' obtain y where y: "y \<in> set ?rows" "y' = ?f y" by (auto simp only: set_map)
        from c have "created_by (?f x) \<noteq> None" "created_by (?f x) = created_by (?f y)"
          "dish_name (?f x) = dish_name (?f y)" unfolding x(2) y(2) by blast+
        from pair [OF x(1) y(1) this] show "pk x' = pk y'" unfolding x(2) y(2) .
      qed
    next
      case ins: False
      have r: "rows (Dish_objects (snd (Dish_save now obj d))) = ?rows @ [?o]"
        unfolding e using ins by (simp add: model_save_rows)
      have fresh: "pk y \<noteq> pk obj" if "y \<in> set ?rows" for y
      proof (cases "pk obj")
        case None
        with table_ok_pk [OF ok that] show ?thesis by fastforce
      next
        case (Some k)
        with ins that show ?thesis unfolding list_ex_iff by blast
      qed
      have clash: False
        if y: "y \<in> set ?rows" and c: "created_by y \<noteq> None" "created_by y = created_by ?o"
          "dish_name y = dish_name ?o" for y
        using chk [OF y fresh [OF y] c(1)] c(2,3) o by simp
      have "pk x = pk y"
        if x: "x \<in> set (?rows @ [?o])" and y: "y \<in> set (?rows @ [?o])"
          and c: "created_by x \<noteq> None" "created_by x = created_by y" "dish_name x = dish_name y"
        for x y
      proof (cases "x = ?o"; cases "y = ?o")
        assume "x = ?o" "y = ?o"
        then show ?thesis by simp
      next
        assume a: "x = ?o" "y \<noteq> ?o"
        with y have y': "y \<in> set ?rows" by simp
        from clash [OF y'] c a show ?thesis by metis
      next
        assume a: "x \<noteq> ?o" "y = ?o"
        with x have x': "x \<in> set ?rows" by simp
        from clash [OF x'] c a show ?thesis by metis
      next
        assume a: "x \<noteq> ?o" "y \<noteq> ?o"
        with x y have "x \<in> set ?rows" "y \<in> set ?rows" by simp_all
        then show ?thesis using c by (rule U)
      qed
      then show ?thesis unfolding r dishes_unique_def by blast
    qed
  qed
qed

text \<open>
  Claim C5, as the code has it. The constraint covers the dishes that have an owner: saving
  a dish whose owner is not null is rejected with \<^verbatim>\<open>IntegrityError\<close>, and nothing is
  stored, when another row has the same owner and the same name; saving a dish succeeds
  when every other row of that name has a different owner, or no owner, or the dish itself
  has no owner, provided that its default recipe, when it has one, is a row of the recipe
  table; a dish whose default recipe is no row of the recipe table is rejected by the
  foreign key, with \<^verbatim>\<open>IntegrityError\<close> and nothing stored; and on a well-formed table
  the save of a new dish or of a row of the table keeps the table well formed and keeps
  owner and name unique among the dishes that have an owner. Dishes without owner are not
  covered: two of them may have the same name.
\<close>

theorem dish_unique_per_owner:
  "(x \<in> set (rows (Dish_objects d)) \<and> pk x \<noteq> pk obj \<and> created_by obj = Some owner
      \<and> created_by x = Some owner \<and> dish_name x = dish_name obj
      \<longrightarrow> Dish_save now obj d = (Inl IntegrityError, d))
   \<and> ((\<forall>y \<in> set (rows (Dish_objects d)).
          pk y \<noteq> pk obj \<and> dish_name y = dish_name obj \<longrightarrow>
            created_by y = None \<or> created_by obj = None \<or> created_by y \<noteq> created_by obj)
        \<and> fk_null_or_exists (default_recipe_id obj) (rows (Recipe_objects d))
      \<longrightarrow> (\<exists>saved d'. Dish_save now obj d = (Inr saved, d')
             \<and> saved \<in> set (rows (Dish_objects d'))
             \<and> created_by saved = created_by obj \<and> dish_name saved = dish_name obj))
   \<and> (\<not> fk_null_or_exists (default_recipe_id obj) (rows (Recipe_objects d))
      \<longrightarrow> Dish_save now obj d = (Inl IntegrityError, d))
   \<and> (table_ok (Dish_objects d) \<and> dishes_unique (rows (Dish_objects d))
        \<and> (pk obj = None \<or> list_ex (\<lambda>r. pk r = pk obj) (rows (Dish_objects d)))
      \<longrightarrow> table_ok (Dish_objects (snd (Dish_save now obj d)))
          \<and> dishes_unique (rows (Dish_objects (snd (Dish_save now obj d)))))"
proof (intro conjI impI)
  assume "x \<in> set (rows (Dish_objects d)) \<and> pk x \<noteq> pk obj \<and> created_by obj = Some owner
      \<and> created_by x = Some owner \<and> dish_name x = dish_name obj"
  then show "Dish_save now obj d = (Inl IntegrityError, d)"
    by (intro Dish_save_rejects [of x d obj owner]) simp_all
next
  assume a: "(\<forall>y \<in> set (rows (Dish_objects d)).
          pk y \<noteq> pk obj \<and> dish_name y = dish_name obj \<longrightarrow>
            created_by y = None \<or> created_by obj = None \<or> created_by y \<noteq> created_by obj)
        \<and> fk_null_or_exists (default_recipe_id obj) (rows (Recipe_objects d))"
  let ?r = "model_save now obj (Dish_objects d)"
  have e: "Dish_save now obj d = (Inr (fst ?r), d\<lparr>Dish_objects := snd ?r\<rparr>)"
    by (rule Dish_save_accepts(2) [OF a [THEN conjunct1] a [THEN conjunct2]])
  have m: "fst ?r \<in> set (rows (Dish_objects (d\<lparr>Dish_objects := snd ?r\<rparr>)))"
    using model_save_mem [of now obj "Dish_objects d"] by simp
  have f: "created_by (fst ?r) = created_by obj" "dish_name (fst ?r) = dish_name obj"
    by (simp_all add: model_save_fst)
  from e m f show "\<exists>saved d'. Dish_save now obj d = (Inr saved, d')
             \<and> saved \<in> set (rows (Dish_objects d'))
             \<and> created_by saved = created_by obj \<and> dish_name saved = dish_name obj"
    by blast
next
  assume "\<not> fk_null_or_exists (default_recipe_id obj) (rows (Recipe_objects d))"
  then show "Dish_save now obj d = (Inl IntegrityError, d)"
    by (rule Dish_save_dangling)
next
  assume a: "table_ok (Dish_objects d) \<and> dishes_unique (rows (Dish_objects d))
        \<and> (pk obj = None \<or> list_ex (\<lambda>r. pk r = pk obj) (rows (Dish_objects d)))"
  then show "table_ok (Dish_objects (snd (Dish_save now obj d)))"
    by (intro Dish_save_keeps_unique(1)) simp_all
  from a show "dishes_unique (rows (Dish_objects (snd (Dish_save now obj d))))"
    by (intro Dish_save_keeps_unique(2)) simp_all
qed

lemma ex_db_dishes_ok:
  "table_ok (Dish_objects ex_db)" "dishes_unique (rows (Dish_objects ex_db))"
  by (simp_all add: table_ok_def dishes_unique_def ex_db_def empty_db_def ex_dish_def)

text \<open>
  Claim C5, instances, on the example database, where user 1 has the dish Oven Bacon: a second
  Oven Bacon of user 1 is rejected; an Oven Bacon of user 2, with recipe 2 as its default
  recipe, and one without owner are stored; a dish of user 2 whose default recipe would be
  recipe 9, which does not exist, is rejected.
\<close>

theorem dish_unique_per_owner_witness:
  "Dish_save 5 (ex_dish None (Some 1) ''Oven Bacon'' None) ex_db = (Inl IntegrityError, ex_db)
   \<and> fst (Dish_save 5 (ex_dish None (Some 2) ''Oven Bacon'' (Some 2)) ex_db)
       = Inr ((ex_dish (Some 3) (Some 2) ''Oven Bacon'' (Some 2))\<lparr>updated_at := 5\<rparr>)
   \<and> fst (Dish_save 5 (ex_dish None None ''Oven Bacon'' None) ex_db)
       = Inr ((ex_dish (Some 3) None ''Oven Bacon'' None)\<lparr>updated_at := 5\<rparr>)
   \<and> Dish_save 5 (ex_dish None (Some 2) ''Stew'' (Some 9)) ex_db = (Inl IntegrityError, ex_db)
   \<and> dishes_unique (rows (Dish_objects (snd (Dish_save 5 (ex_dish None (Some 2) ''Oven Bacon'' (Some 2)) ex_db))))"
proof -
  have h1: "ex_dish (Some 1) (Some 1) ''Oven Bacon'' (Some 1) \<in> set (rows (Dish_objects ex_db))
      \<and> pk (ex_dish (Some 1) (Some 1) ''Oven Bacon'' (Some 1)) \<noteq> pk (ex_dish None (Some 1) ''Oven Bacon'' None)
      \<and> created_by (ex_dish None (Some 1) ''Oven Bacon'' None) = Some 1
      \<and> created_by (ex_dish (Some 1) (Some 1) ''Oven Bacon'' (Some 1)) = Some 1
      \<and> dish_name (ex_dish (Some 1) (Some 1) ''Oven Bacon'' (Some 1))
          = dish_name (ex_dish None (Some 1) ''Oven Bacon'' None)"
    by (simp add: ex_db_simps ex_dish_def)
  have h2: "(\<forall>y \<in> set (rows (Dish_objects ex_db)).
          pk y \<noteq> pk (ex_dish None (Some 2) ''Oven Bacon'' (Some 2))
            \<and> dish_name y = dish_name (ex_dish None (Some 2) ''Oven Bacon'' (Some 2)) \<longrightarrow>
            created_by y = None \<or> created_by (ex_dish None (Some 2) ''Oven Bacon'' (Some 2)) = None
            \<or> created_by y \<noteq> created_by (ex_dish None (Some 2) ''Oven Bacon'' (Some 2)))
        \<and> fk_null_or_exists (default_recipe_id (ex_dish None (Some 2) ''Oven Bacon'' (Some 2)))
            (rows (Recipe_objects ex_db))"
    by (simp add: ex_db_simps ex_dish_def ex_recipe_def fk_null_or_exists_def fk_exists_def)
  have h3: "table_ok (Dish_objects ex_db) \<and> dishes_unique (rows (Dish_objects ex_db))
        \<and> (pk (ex_dish None (Some 2) ''Oven Bacon'' (Some 2)) = None
            \<or> list_ex (\<lambda>r. pk r = pk (ex_dish None (Some 2) ''Oven Bacon'' (Some 2))) (rows (Dish_objects ex_db)))"
    by (simp add: ex_db_dishes_ok ex_dish_def)
  have h4: "\<not> fk_null_or_exists (default_recipe_id (ex_dish None (Some 2) ''Stew'' (Some 9)))
            (rows (Recipe_objects ex_db))"
    by (simp add: ex_db_simps ex_dish_def ex_recipe_def fk_null_or_exists_def fk_exists_def)
  have 1: "Dish_save 5 (ex_dish None (Some 1) ''Oven Bacon'' None) ex_db = (Inl IntegrityError, ex_db)"
    by (rule dish_unique_per_owner [THEN conjunct1, THEN mp, OF h1])
  from dish_unique_per_owner [where now = 5, THEN conjunct2, THEN conjunct1, THEN mp, OF h2]
  obtain saved d' where sv: "Dish_save 5 (ex_dish None (Some 2) ''Oven Bacon'' (Some 2)) ex_db = (Inr saved, d')"
    by blast
  have "fst (Dish_save 5 (ex_dish None (Some 2) ''Oven Bacon'' (Some 2)) ex_db)
       = Inr ((ex_dish (Some 3) (Some 2) ''Oven Bacon'' (Some 2))\<lparr>updated_at := 5\<rparr>)
     \<or> fst (Dish_save 5 (ex_dish None (Some 2) ''Oven Bacon'' (Some 2)) ex_db) = Inl IntegrityError"
    by code_simp
  with sv have 2: "fst (Dish_save 5 (ex_dish None (Some 2) ''Oven Bacon'' (Some 2)) ex_db)
       = Inr ((ex_dish (Some 3) (Some 2) ''Oven Bacon'' (Some 2))\<lparr>updated_at := 5\<rparr>)"
    by simp
  have 3: "fst (Dish_save 5 (ex_dish None None ''Oven Bacon'' None) ex_db)
       = Inr ((ex_dish (Some 3) None ''Oven Bacon'' None)\<lparr>updated_at := 5\<rparr>)"
    by code_simp
  have 4: "Dish_save 5 (ex_dish None (Some 2) ''Stew'' (Some 9)) ex_db = (Inl IntegrityError, ex_db)"
    by (rule dish_unique_per_owner [THEN conjunct2, THEN conjunct2, THEN conjunct1, THEN mp, OF h4])
  have 5: "dishes_unique (rows (Dish_objects (snd (Dish_save 5 (ex_dish None (Some 2) ''Oven Bacon'' (Some 2)) ex_db))))"
    using dish_unique_per_owner [THEN conjunct2, THEN conjunct2, THEN conjunct2, THEN mp, OF h3] by simp
  from 1 2 3 4 5 show ?thesis by blast
qed

text \<open>
  Claim C5 as stated fails for dishes without owner. Two of them with the same name, saved
  one after the other into the empty database: both are stored, and the pair
  (created_by, name) is not unique.
\<close>

theorem dish_unique_null_owner_counterexample:
  "Dish_save 2 (ex_dish None None ''Soup'' None)
      (snd (Dish_save 1 (ex_dish None None ''Soup'' None) empty_db))
     = (Inr ((ex_dish (Some 2) None ''Soup'' None)\<lparr>updated_at := 2\<rparr>),
        empty_db\<lparr>Dish_objects :=
          \<lparr>rows = [ex_dish (Some 1) None ''Soup'' None,
                    (ex_dish (Some 2) None ''Soup'' None)\<lparr>updated_at := 2\<rparr>],
           seq = 2\<rparr>\<rparr>)
   \<and> created_by (ex_dish (Some 1) None ''Soup'' None)
       = created_by ((ex_dish (Some 2) None ''Soup'' None)\<lparr>updated_at := 2\<rparr>)
   \<and> dish_name (ex_dish (Some 1) None ''Soup'' None)
       = dish_name ((ex_dish (Some 2) None ''Soup'' None)\<lparr>updated_at := 2\<rparr>)
   \<and> pk (ex_dish (Some 1) None ''Soup'' None)
       \<noteq> pk ((ex_dish (Some 2) None ''Soup'' None)\<lparr>updated_at := 2\<rparr>)"
  by (simp add: Dish_save_def uniq_dish_per_owner_name_def fk_null_or_exists_def model_save_def
      empty_db_def empty_table_def ex_dish_def Let_def)

section \<open>The ownership filter in every query\<close>

lemma owned_q_not_other: "a \<noteq> b \<Longrightarrow> owned_q b r \<Longrightarrow> created_by r \<noteq> Some a"
  by (auto simp: owned_q_def)

lemma RecipeListView_owned:
  "r \<in> set (RecipeListView_get_queryset ic u params d) \<Longrightarrow>
     r \<in> set (rows (Recipe_objects d)) \<and> owned_q u r"
  by (auto simp: RecipeListView_get_queryset_def Let_def split: if_splits)

lemma DishListView_owned:
  "x \<in> set (DishListView_get_queryset ic u params d) \<Longrightarrow>
     fst x \<in> set (rows (Dish_objects d)) \<and> owned_q u (fst x)"
  by (auto simp: DishListView_get_queryset_def Let_def split: if_splits)

lemma when_filter_subset:
  "when_filter w today qs = Inr qs' \<Longrightarrow> set qs' \<subseteq> set qs"
  by (auto simp: when_filter_def split: if_splits sum.splits)

lemma CookSessionListView_owned:
  assumes "CookSessionListView_get_queryset ic u params today d = Inr qs" and "s \<in> set qs"
  shows "s \<in> set (rows (CookSession_objects d)) \<and> owned_q u s"
proof -
  let ?q = "py_strip (get_param params ''q'' [])"
  let ?qs0 = "filter (owned_q u) (rows (CookSession_objects d))"
  let ?qs1 = "if ?q \<noteq> []
                 then filter (\<lambda>s. related_icontains ic dish_name (rows (Dish_objects d))
                                    (Some (dish_id s)) ?q
                                  \<or> related_icontains ic recipe_title (rows (Recipe_objects d))
                                       (recipe_used_id s) ?q
                                  \<or> ic (summary s) ?q) ?qs0
                 else ?qs0"
  from assms(1) obtain qs2 where w: "when_filter (params ''when'') today ?qs1 = Inr qs2"
    and sub: "set qs \<subseteq> set qs2"
    by (auto simp: CookSessionListView_get_queryset_def Let_def split: sum.splits if_splits)
  from when_filter_subset [OF w] have "set qs2 \<subseteq> set ?qs0" by (auto split: if_splits)
  with sub assms(2) have "s \<in> set ?qs0" by blast
  then show ?thesis by simp
qed

lemma detail_owned:
  "get_object_or_404 (filter (owned_q u) objects) k = Inr r \<Longrightarrow>
     r \<in> set objects \<and> owned_q u r \<and> pk r = Some k"
  using get_object_or_404_mem [of "filter (owned_q u) objects" k r] by simp

lemma OwnedUpdateView_Http404:
  assumes "a \<noteq> b" and "\<forall>x \<in> set objects. pk x = Some k \<longrightarrow> created_by x = Some a"
  shows "OwnedUpdateView objects is_valid construct save success b k req d = (Inl Http404, d)"
proof -
  have "filter (\<lambda>r. pk r = Some k) (OwnedQuerysetMixin_get_queryset b objects) = []"
    using assms by (auto simp: OwnedQuerysetMixin_get_queryset_def filter_empty_conv owned_q_def)
  then have "get_object_or_404 (OwnedQuerysetMixin_get_queryset b objects) k = Inl Http404"
    by (rule get_object_or_404_Http404)
  then show ?thesis by (simp add: OwnedUpdateView_def)
qed

lemma target_attachments_not_other:
  "a \<noteq> b \<Longrightarrow> \<forall>x \<in> set (target_attachments b ct oid objects). created_by x \<noteq> Some a"
  by (auto simp: target_attachments_def owned_q_def)

lemma TargetDetailView_owned:
  assumes "a \<noteq> b" and "TargetDetailView b model_key k d = Inr ctx"
  shows "target_created_by (ctx_target_obj ctx) \<noteq> Some a
       \<and> (\<forall>x \<in> set (ctx_notes ctx). created_by x \<noteq> Some a)
       \<and> (\<forall>x \<in> set (ctx_urls ctx). created_by x \<noteq> Some a)
       \<and> (\<forall>x \<in> set (ctx_images ctx). created_by x \<noteq> Some a)
       \<and> (\<forall>x \<in> set (ctx_pdfs ctx). created_by x \<noteq> Some a)"
proof -
  from assms(2) obtain t ct where dsp: "TargetContextMixin_dispatch b model_key k d = Inr (t, ct)"
    and ctx: "ctx = \<lparr>ctx_target_model_key = model_key,
                   ctx_target_obj = t,
                   ctx_notes = target_attachments b ct (py_str_pk (target_pk t)) (rows (Note_objects d)),
                   ctx_urls = target_attachments b ct (py_str_pk (target_pk t)) (rows (ReferenceURL_objects d)),
                   ctx_images = target_attachments b ct (py_str_pk (target_pk t)) (rows (TrackedImage_objects d)),
                   ctx_pdfs = target_attachments b ct (py_str_pk (target_pk t)) (rows (PDFDocument_objects d))\<rparr>"
    by (auto simp: TargetDetailView_def Let_def split: sum.splits prod.splits)
  from dispatch_Inr(5) [OF dsp] assms(1) have "target_created_by t \<noteq> Some a" by auto
  then show ?thesis
    unfolding ctx by (simp add: target_attachments_not_other [OF assms(1)])
qed

lemma result_edit_needs_session:
  assumes "CookResultCreateUpdateView b k req now d = (Inr resp, d')"
  shows "session_visible b k d"
  using assms by (auto simp: CookResultCreateUpdateView_def session_visible_def split: sum.splits)

text \<open>
  Claim C1, as the code has it. For two different users a and b: no row of a is in b's
  recipe, dish or cook session list, whatever the query string; b's detail views of recipes,
  dishes, cook sessions and results never return a row of a; no row of a is in the queryset
  of b's update and delete views; b's update request for a key whose rows are a's is a 404
  that changes nothing; b's target page resolves no target of a and lists no attachment of
  a. The result-edit endpoint is the exception: it is filtered by the parent cook session,
  not by the result, so all it guarantees is that the session passes b's filter.
  A row without owner passes every user's ownership filter: it is in the queryset of the
  update and delete views, in the unfiltered lists, and among the attachments of its target.
\<close>

theorem ownership_filter_in_queries:
  assumes "a \<noteq> b"
  shows "(\<forall>r \<in> set (RecipeListView_get_queryset ic b params d). created_by r \<noteq> Some a)
     \<and> (\<forall>x \<in> set (DishListView_get_queryset ic b params d). created_by (fst x) \<noteq> Some a)
     \<and> (CookSessionListView_get_queryset ic b params today d = Inr qs \<longrightarrow>
        (\<forall>s \<in> set qs. created_by s \<noteq> Some a))
     \<and> (RecipeDetailView b k d = Inr r \<longrightarrow> created_by r \<noteq> Some a)
     \<and> (DishDetailView b k d = Inr dn \<longrightarrow> created_by (fst dn) \<noteq> Some a)
     \<and> (CookSessionDetailView b k d = Inr s \<longrightarrow> created_by s \<noteq> Some a)
     \<and> (CookResultDetailView b k d = Inr cr \<longrightarrow> created_by cr \<noteq> Some a)
     \<and> (\<forall>x \<in> set (OwnedQuerysetMixin_get_queryset b objs). created_by x \<noteq> Some a)
     \<and> ((\<forall>x \<in> set (rows (Recipe_objects d)). pk x = Some k \<longrightarrow> created_by x = Some a) \<longrightarrow>
        RecipeUpdateView b k req_recipe now d = (Inl Http404, d))
     \<and> ((\<forall>x \<in> set (rows (Dish_objects d)). pk x = Some k \<longrightarrow> created_by x = Some a) \<longrightarrow>
        DishUpdateView b k req_dish now d = (Inl Http404, d))
     \<and> ((\<forall>x \<in> set (rows (CookSession_objects d)). pk x = Some k \<longrightarrow> created_by x = Some a) \<longrightarrow>
        CookSessionUpdateView b k req_session now d = (Inl Http404, d))
     \<and> (TargetDetailView b model_key k d = Inr ctx \<longrightarrow>
        target_created_by (ctx_target_obj ctx) \<noteq> Some a
        \<and> (\<forall>x \<in> set (ctx_notes ctx). created_by x \<noteq> Some a)
        \<and> (\<forall>x \<in> set (ctx_urls ctx). created_by x \<noteq> Some a)
        \<and> (\<forall>x \<in> set (ctx_images ctx). created_by x \<noteq> Some a)
        \<and> (\<forall>x \<in> set (ctx_pdfs ctx). created_by x \<noteq> Some a))
     \<and> (CookResultCreateUpdateView b k req_result now d = (Inr resp, d') \<longrightarrow> session_visible b k d)
     \<and> (\<forall>x \<in> set objs. created_by x = None \<longrightarrow> x \<in> set (OwnedQuerysetMixin_get_queryset v objs))
     \<and> (\<forall>x \<in> set (rows (Recipe_objects d)). created_by x = None \<longrightarrow>
        x \<in> set (RecipeListView_get_queryset ic v Map.empty d))
     \<and> (\<forall>x \<in> set (rows (Dish_objects d)). created_by x = None \<longrightarrow>
        (x, session_count d x) \<in> set (DishListView_get_queryset ic v Map.empty d))
     \<and> CookSessionListView_get_queryset ic v Map.empty today d =
        Inr (filter (owned_q v) (rows (CookSession_objects d)))
     \<and> (\<forall>x \<in> set atts. created_by x = None \<and> content_type x = ct \<and> object_id x = oid \<longrightarrow>
        x \<in> set (target_attachments v ct oid atts))"
proof -
  have l1: "(\<forall>r \<in> set (RecipeListView_get_queryset ic b params d). created_by r \<noteq> Some a)"
    using assms by (auto dest!: RecipeListView_owned simp: owned_q_def)
  have l2: "(\<forall>x \<in> set (DishListView_get_queryset ic b params d). created_by (fst x) \<noteq> Some a)"
    using assms by (auto dest!: DishListView_owned simp: owned_q_def)
  have l3: "(CookSessionListView_get_queryset ic b params today d = Inr qs \<longrightarrow>
        (\<forall>s \<in> set qs. created_by s \<noteq> Some a))"
  proof (intro impI ballI)
    fix s
    assume "CookSessionListView_get_queryset ic b params today d = Inr qs" and "s \<in> set qs"
    then have "owned_q b s" by (simp add: CookSessionListView_owned)
    with assms show "created_by s \<noteq> Some a" by (rule owned_q_not_other)
  qed
  have d1: "(RecipeDetailView b k d = Inr r \<longrightarrow> created_by r \<noteq> Some a)"
    using assms detail_owned [of b "rows (Recipe_objects d)" k r]
    by (auto simp: RecipeDetailView_def owned_q_def)
  have d2: "(DishDetailView b k d = Inr dn \<longrightarrow> created_by (fst dn) \<noteq> Some a)"
    using assms detail_owned [of b "rows (Dish_objects d)" k "fst dn"]
    by (cases "get_object_or_404 (filter (owned_q b) (rows (Dish_objects d))) k")
      (auto simp: DishDetailView_def owned_q_def)
  have d3: "(CookSessionDetailView b k d = Inr s \<longrightarrow> created_by s \<noteq> Some a)"
    using assms detail_owned [of b "rows (CookSession_objects d)" k s]
    by (auto simp: CookSessionDetailView_def owned_q_def)
  have d4: "(CookResultDetailView b k d = Inr cr \<longrightarrow> created_by cr \<noteq> Some a)"
    using assms detail_owned [of b "rows (CookResult_objects d)" k cr]
    by (auto simp: CookResultDetailView_def owned_q_def)
  have q: "(\<forall>x \<in> set (OwnedQuerysetMixin_get_queryset b objs). created_by x \<noteq> Some a)"
    using assms by (auto simp: OwnedQuerysetMixin_get_queryset_def owned_q_def)
  have u1: "((\<forall>x \<in> set (rows (Recipe_objects d)). pk x = Some k \<longrightarrow> created_by x = Some a) \<longrightarrow>
        RecipeUpdateView b k req_recipe now d = (Inl Http404, d))"
    unfolding RecipeUpdateView_def by (intro impI OwnedUpdateView_Http404 [OF assms])
  have u2: "((\<forall>x \<in> set (rows (Dish_objects d)). pk x = Some k \<longrightarrow> created_by x = Some a) \<longrightarrow>
        DishUpdateView b k req_dish now d = (Inl Http404, d))"
    unfolding DishUpdateView_def by (intro impI OwnedUpdateView_Http404 [OF assms])
  have u3: "((\<forall>x \<in> set (rows (CookSession_objects d)). pk x = Some k \<longrightarrow> created_by x = Some a) \<longrightarrow>
        CookSessionUpdateView b k req_session now d = (Inl Http404, d))"
    unfolding CookSessionUpdateView_def by (intro impI OwnedUpdateView_Http404 [OF assms])
  have t: "(TargetDetailView b model_key k d = Inr ctx \<longrightarrow>
        target_created_by (ctx_target_obj ctx) \<noteq> Some a
        \<and> (\<forall>x \<in> set (ctx_notes ctx). created_by x \<noteq> Some a)
        \<and> (\<forall>x \<in> set (ctx_urls ctx). created_by x \<noteq> Some a)
        \<and> (\<forall>x \<in> set (ctx_images ctx). created_by x \<noteq> Some a)
        \<and> (\<forall>x \<in> set (ctx_pdfs ctx). created_by x \<noteq> Some a))"
    using TargetDetailView_owned [OF assms] by blast
  have e: "(CookResultCreateUpdateView b k req_result now d = (Inr resp, d') \<longrightarrow> session_visible b k d)"
    using result_edit_needs_session by blast
  have n1: "(\<forall>x \<in> set objs. created_by x = None \<longrightarrow> x \<in> set (OwnedQuerysetMixin_get_queryset v objs))"
    by (simp add: OwnedQuerysetMixin_get_queryset_def owned_q_def)
  have n2: "(\<forall>x \<in> set (rows (Recipe_objects d)). created_by x = None \<longrightarrow>
        x \<in> set (RecipeListView_get_queryset ic v Map.empty d))"
    by (simp add: RecipeListView_get_queryset_def get_param_def py_strip_def owned_q_def)
  have n3: "(\<forall>x \<in> set (rows (Dish_objects d)). created_by x = None \<longrightarrow>
        (x, session_count d x) \<in> set (DishListView_get_queryset ic v Map.empty d))"
    by (simp add: DishListView_get_queryset_def get_param_def py_strip_def owned_q_def)
  have n4: "CookSessionListView_get_queryset ic v Map.empty today d =
        Inr (filter (owned_q v) (rows (CookSession_objects d)))"
    by (simp add: CookSessionListView_get_queryset_def get_param_def py_strip_def when_filter_def)
  have n5: "(\<forall>x \<in> set atts. created_by x = None \<and> content_type x = ct \<and> object_id x = oid \<longrightarrow>
        x \<in> set (target_attachments v ct oid atts))"
    by (simp add: target_attachments_def owned_q_def)
  from l1 l2 l3 d1 d2 d3 d4 q u1 u2 u3 t e n1 n2 n3 n4 n5 show ?thesis by blast
qed

text \<open>
  Claim C1, an instance, on the example database, for the users 1 and 2: recipe 1 is user 1's, so it
  is not in user 2's list and user 2's update request for it is a 404; recipe 2 has no owner
  and is in user 2's list; note 1 of user 1 on recipe 2 is not on user 2's target page.
\<close>

theorem ownership_filter_in_queries_witness:
  "created_by (ex_recipe 1 (Some 1)) = Some 1
   \<and> ex_recipe 1 (Some 1) \<in> set (rows (Recipe_objects ex_db))
   \<and> ex_recipe 1 (Some 1) \<notin> set (RecipeListView_get_queryset (\<lambda>x y. True) 2 Map.empty ex_db)
   \<and> ex_recipe 2 None \<in> set (RecipeListView_get_queryset (\<lambda>x y. True) 2 Map.empty ex_db)
   \<and> RecipeUpdateView 2 1 GET 5 ex_db = (Inl Http404, ex_db)
   \<and> map_sum id ctx_notes (TargetDetailView 2 ''recipe'' 2 ex_db)
       = Inr [ex_note 2 None (''cooking_companion'', ''recipe'') ''2'']"
proof -
  have h0: "(1::int) \<noteq> 2" by simp
  note t = ownership_filter_in_queries [where a = 1 and b = 2 and ic = "\<lambda>x y. True"
      and params = Map.empty and d = ex_db and k = 1 and req_recipe = GET and now = 5 and v = 2,
      OF h0]
  note t1 = t [THEN conjunct1]
  note t9 = t [THEN conjunct2, THEN conjunct2, THEN conjunct2, THEN conjunct2, THEN conjunct2, THEN conjunct2, THEN conjunct2, THEN conjunct2, THEN conjunct1]
  note t15 = t [THEN conjunct2, THEN conjunct2, THEN conjunct2, THEN conjunct2, THEN conjunct2, THEN conjunct2, THEN conjunct2, THEN conjunct2, THEN conjunct2, THEN conjunct2, THEN conjunct2, THEN conjunct2, THEN conjunct2, THEN conjunct2, THEN conjunct1]
  have c: "created_by (ex_recipe 1 (Some 1)) = Some 1" by (simp add: ex_recipe_def)
  have m: "ex_recipe 1 (Some 1) \<in> set (rows (Recipe_objects ex_db))" by (simp add: ex_db_simps)
  have n: "ex_recipe 2 None \<in> set (rows (Recipe_objects ex_db))" "created_by (ex_recipe 2 None) = None"
    by (simp_all add: ex_db_simps ex_recipe_def)
  from t1 c have 1: "ex_recipe 1 (Some 1) \<notin> set (RecipeListView_get_queryset (\<lambda>x y. True) 2 Map.empty ex_db)"
    by blast
  from t15 n have 2: "ex_recipe 2 None \<in> set (RecipeListView_get_queryset (\<lambda>x y. True) 2 Map.empty ex_db)"
    by blast
  have h3: "\<forall>x \<in> set (rows (Recipe_objects ex_db)). pk x = Some 1 \<longrightarrow> created_by x = Some 1"
    by (simp add: ex_db_simps ex_recipe_def)
  from t9 h3 have 3: "RecipeUpdateView 2 1 GET 5 ex_db = (Inl Http404, ex_db)" by blast
  have 4: "map_sum id ctx_notes (TargetDetailView 2 ''recipe'' 2 ex_db)
       = Inr [ex_note 2 None (''cooking_companion'', ''recipe'') ''2'']"
    by code_simp
  from c m 1 2 3 4 show ?thesis by blast
qed

text \<open>
  Claim C1 as stated fails for results. Session 2 of the example database has no owner.
  User 1 opens its result: the result is created, with created_by user 1. User 2 then opens
  the result of the same session: the endpoint serves user 1's result, and user 2's POST
  changes it. (User 2's result detail view of the same row is a 404.)
\<close>

theorem ownership_filter_result_edit_counterexample:
  "CookResultCreateUpdateView 1 2 GET 10 ex_db
     = (Inr (TemplateResponse (ex_result 1 (Some 1) 2 ''experiment'')), ex_db_with_result)
   \<and> created_by (ex_result 1 (Some 1) 2 ''experiment'') = Some 1
   \<and> CookResultCreateUpdateView 2 2 GET 20 ex_db_with_result
     = (Inr (TemplateResponse (ex_result 1 (Some 1) 2 ''experiment'')), ex_db_with_result)
   \<and> rows (CookResult_objects
        (snd (CookResultCreateUpdateView 2 2 (POST (Some (ex_result 0 None 0 ''fail''))) 20
                ex_db_with_result)))
     = [(ex_result 1 (Some 1) 2 ''fail'')\<lparr>updated_at := 20\<rparr>]
   \<and> CookResultDetailView 2 1 ex_db_with_result = Inl Http404"
  by code_simp

end
